(* ===== verification/Prelude.thy ===== *)
theory Prelude
  imports Main "HOL-Library.Sublist" "HOL-Library.AList"
begin

text \<open>
  Shared vocabulary of the bike-rental client model: the collections of
  unfolding rules the component theories add to, the JavaScript value
  conventions every component relies on (truthiness of a string that may be
  \<^verbatim>\<open>undefined\<close>, the defaulting operator \<^verbatim>\<open>a || b\<close>), the toast
  notifications of \<^verbatim>\<open>react-hot-toast\<close>, and the part of the browser
  \<^verbatim>\<open>window\<close> that the sources read and write.

  Conventions. A JavaScript value that may be \<^verbatim>\<open>undefined\<close> or \<^verbatim>\<open>null\<close> is an
  \<open>option\<close>; the sources never distinguish the two. Strings are \<open>string\<close>,
  one \<open>char\<close> per UTF-16 code unit, which is exact for the ASCII paths,
  messages and identifiers the sources compare.
\<close>

section \<open>Collections of unfolding rules\<close>

named_theorems js_defs \<open>definitions of the JavaScript value helpers\<close>
named_theorems http_defs \<open>definitions of the axios client and its interceptors\<close>
named_theorems auth_defs \<open>definitions of the operations of the auth context\<close>
named_theorems route_defs \<open>definitions of the route guards and the route table\<close>
named_theorems helper_defs \<open>definitions of the helpers of utils/helpers.js\<close>
named_theorems service_defs \<open>definitions of the service wrappers\<close>
named_theorems query_defs \<open>definitions of the query cache and the query hooks\<close>
named_theorems page_defs \<open>definitions of the pages and what they render\<close>

section \<open>JavaScript values\<close>

type_synonym path = string

text \<open>
  \<^verbatim>\<open>!!s\<close> for a value that is a string or \<^verbatim>\<open>undefined\<close>: the empty string and
  \<^verbatim>\<open>undefined\<close> are falsy, every other string is truthy.
\<close>

definition truthy :: "string option \<Rightarrow> bool" where
  [js_defs]: "truthy s = (case s of None \<Rightarrow> False | Some t \<Rightarrow> t \<noteq> [])"

text \<open>\<^verbatim>\<open>s || d\<close> for such a value and a string default.\<close>

definition str_or :: "string option \<Rightarrow> string \<Rightarrow> string" where
  [js_defs]: "str_or s d = (if truthy s then the s else d)"

lemma truthy_simps [simp]:
  "truthy None = False"
  "truthy (Some t) = (t \<noteq> [])"
  by (simp_all add: truthy_def)

lemma str_or_simps [simp]:
  "str_or None d = d"
  "str_or (Some []) d = d"
  "t \<noteq> [] \<Longrightarrow> str_or (Some t) d = t"
  by (simp_all add: str_or_def)

lemma str_or_cases: "str_or s d = d \<or> (\<exists>t. s = Some t \<and> t \<noteq> [] \<and> str_or s d = t)"
  by (cases s) (auto simp: str_or_def)

lemma str_or_nonempty [simp]: "d \<noteq> [] \<Longrightarrow> str_or s d \<noteq> []"
  using str_or_cases [of s d] by auto

text \<open>
  A parameter with a default value, \<^verbatim>\<open>(x = d) => ...\<close>: the default is taken
  when the argument is missing or \<^verbatim>\<open>undefined\<close>, and only then.
\<close>

definition default_arg :: "'a \<Rightarrow> 'a option \<Rightarrow> 'a" where
  [js_defs]: "default_arg d x = (case x of None \<Rightarrow> d | Some v \<Rightarrow> v)"

lemma default_arg_simps [simp]:
  "default_arg d None = d"
  "default_arg d (Some v) = v"
  by (simp_all add: default_arg_def)

section \<open>Toasts and the window\<close>

datatype toast = ToastSuccess string | ToastError string

text \<open>
  The part of \<^verbatim>\<open>window\<close> the sources touch. \<open>pathname\<close> is
  \<^verbatim>\<open>window.location.pathname\<close>. An assignment to \<^verbatim>\<open>window.location.href\<close> does
  not change the pathname while the current script runs; it schedules a full
  page load, recorded in \<open>pending_href\<close> until the browser carries it out.
  \<open>toasts\<close> lists the notifications shown so far, oldest first.
\<close>

record window =
  pathname :: path
  pending_href :: "path option"
  toasts :: "toast list"

definition show_toast :: "toast \<Rightarrow> 'a window_scheme \<Rightarrow> 'a window_scheme" where
  [js_defs]: "show_toast t w = w\<lparr>toasts := toasts w @ [t]\<rparr>"

definition assign_href :: "path \<Rightarrow> 'a window_scheme \<Rightarrow> 'a window_scheme" where
  [js_defs]: "assign_href p w = w\<lparr>pending_href := Some p\<rparr>"

lemma show_toast_fields [simp]:
  "pathname (show_toast t w) = pathname w"
  "pending_href (show_toast t w) = pending_href w"
  "toasts (show_toast t w) = toasts w @ [t]"
  "window.more (show_toast t w) = window.more w"
  by (simp_all add: show_toast_def)

lemma assign_href_fields [simp]:
  "pathname (assign_href p w) = pathname w"
  "pending_href (assign_href p w) = Some p"
  "toasts (assign_href p w) = toasts w"
  "window.more (assign_href p w) = window.more w"
  by (simp_all add: assign_href_def)

section \<open>Characters and paths\<close>

text \<open>
  \<^verbatim>\<open>toLowerCase\<close> on one ASCII code unit, as the slug helper and the
  case-insensitive route matcher need it. Characters outside \<^verbatim>\<open>A\<close>..\<^verbatim>\<open>Z\<close> are
  left alone.
\<close>

definition is_upper :: "char \<Rightarrow> bool" where
  [js_defs]: "is_upper c \<longleftrightarrow> 65 \<le> (of_char c :: nat) \<and> (of_char c :: nat) \<le> 90"

definition to_lower :: "char \<Rightarrow> char" where
  [js_defs]: "to_lower c = (if is_upper c then char_of (of_char c + 32 :: nat) else c)"

abbreviation toLowerCase :: "string \<Rightarrow> string" where
  "toLowerCase s \<equiv> map to_lower s"

lemma bit_Suc_0_0 [simp]: "bit (Suc 0) 0"
  by (simp add: bit_Suc_0_iff)

lemma char_of_numeral_eval [simp]:
  "char_of (numeral k :: nat) =
     Char (bit (numeral k :: nat) 0) (bit (numeral k :: nat) 1) (bit (numeral k :: nat) 2)
          (bit (numeral k :: nat) 3) (bit (numeral k :: nat) 4) (bit (numeral k :: nat) 5)
          (bit (numeral k :: nat) 6) (bit (numeral k :: nat) 7)"
  by (simp add: char_of_def)

text \<open>
  On a character literal both functions evaluate; on a variable they stay
  folded, so that \<open>simp\<close> computes closed instances without unfolding the
  definitions under a quantifier.
\<close>

lemma is_upper_Char [simp]:
  "is_upper (Char b0 b1 b2 b3 b4 b5 b6 b7) \<longleftrightarrow>
     65 \<le> (of_char (Char b0 b1 b2 b3 b4 b5 b6 b7) :: nat) \<and>
     (of_char (Char b0 b1 b2 b3 b4 b5 b6 b7) :: nat) \<le> 90"
  by (rule is_upper_def)

lemma to_lower_Char [simp]:
  "to_lower (Char b0 b1 b2 b3 b4 b5 b6 b7) =
     (if is_upper (Char b0 b1 b2 b3 b4 b5 b6 b7)
      then char_of (of_char (Char b0 b1 b2 b3 b4 b5 b6 b7) + 32 :: nat)
      else Char b0 b1 b2 b3 b4 b5 b6 b7)"
  by (rule to_lower_def)

lemma of_char_to_lower:
  "of_char (to_lower c) = (if is_upper c then of_char c + 32 else (of_char c :: nat))"
  by (simp add: to_lower_def is_upper_def)

lemma is_upper_to_lower [simp]: "\<not> is_upper (to_lower c)"
  by (simp add: is_upper_def of_char_to_lower)

lemma to_lower_idem [simp]: "to_lower (to_lower c) = to_lower c"
  by (simp add: to_lower_def [of "to_lower c"])

lemma toLowerCase_idem [simp]: "toLowerCase (toLowerCase s) = toLowerCase s"
  by simp

text \<open>
  Splitting a string at a separator, the way \<^verbatim>\<open>split\<close> does: \<open>n\<close> separators
  give \<open>n + 1\<close> pieces, empty ones included.
\<close>

fun split_on :: "char \<Rightarrow> string \<Rightarrow> string \<Rightarrow> string list" where
  "split_on c acc [] = [rev acc]"
| "split_on c acc (x # xs) =
     (if x = c then rev acc # split_on c [] xs else split_on c (x # acc) xs)"

lemma split_on_nonempty [simp]: "split_on c acc xs \<noteq> []"
  by (induction xs arbitrary: acc) auto

lemma length_split_on: "length (split_on c acc xs) = Suc (count_list xs c)"
  by (induction xs arbitrary: acc) auto

lemma split_on_no_sep: "c \<notin> set xs \<Longrightarrow> split_on c acc xs = [rev acc @ xs]"
  by (induction xs arbitrary: acc) auto

lemma split_on_pieces: "p \<in> set (split_on c acc xs) \<Longrightarrow> c \<in> set p \<Longrightarrow> c \<in> set acc"
  by (induction xs arbitrary: acc) (fastforce split: if_splits)+

text \<open>
  The decimal digits of a natural number, the way a number is converted to a
  string: no sign, no leading zero.
\<close>

definition digit_char :: "nat \<Rightarrow> char" where
  [js_defs]: "digit_char d = char_of (48 + d)"

fun string_of_nat :: "nat \<Rightarrow> string" where
  "string_of_nat n =
     (if n < 10 then [digit_char n] else string_of_nat (n div 10) @ [digit_char (n mod 10)])"

declare string_of_nat.simps [simp del]

lemma string_of_nat_numeral [simp]:
  "string_of_nat (numeral k) =
     (if (numeral k :: nat) < 10 then [digit_char (numeral k)]
      else string_of_nat (numeral k div 10) @ [digit_char (numeral k mod 10)])"
  "string_of_nat 0 = [digit_char 0]"
  "string_of_nat (Suc 0) = [digit_char 1]"
  by (simp_all add: string_of_nat.simps [of "numeral k"] string_of_nat.simps [of 0]
      string_of_nat.simps [of "Suc 0"])

lemma string_of_nat_nonempty [simp]: "string_of_nat n \<noteq> []"
  by (subst string_of_nat.simps) simp

lemma of_char_digit_char: "d < 10 \<Longrightarrow> (of_char (digit_char d) :: nat) = 48 + d"
  by (simp add: digit_char_def)

section \<open>Lists\<close>

text \<open>\<^verbatim>\<open>xs[i]\<close>: reading past the end of an array gives \<^verbatim>\<open>undefined\<close>.\<close>

definition nth_opt :: "'a list \<Rightarrow> nat \<Rightarrow> 'a option" where
  [js_defs]: "nth_opt xs i = (if i < length xs then Some (xs ! i) else None)"

lemma nth_opt_simps [simp]:
  "nth_opt [] i = None"
  "nth_opt (x # xs) 0 = Some x"
  "nth_opt (x # xs) (Suc i) = nth_opt xs i"
  by (simp_all add: nth_opt_def)

lemma nth_opt_Some_iff: "nth_opt xs i = Some x \<longleftrightarrow> i < length xs \<and> xs ! i = x"
  by (auto simp: nth_opt_def)

lemma nth_opt_None_iff: "nth_opt xs i = None \<longleftrightarrow> length xs \<le> i"
  by (auto simp: nth_opt_def)

lemma find_SomeD: "find P xs = Some x \<Longrightarrow> x \<in> set xs \<and> P x"
  by (metis find_Some_iff nth_mem)

lemma prefix_same_length_eq: "prefix xs ys \<Longrightarrow> length xs = length ys \<Longrightarrow> xs = ys"
  by (auto simp: prefix_def)

section \<open>Association lists\<close>

text \<open>
  Lists of pairs that are read through \<open>map_of\<close> and changed by \<open>AList.update\<close>
  or by a map over the values.
\<close>

lemma map_of_map_values:
  "map_of (map (\<lambda>(k, v). (k, f k v)) xs) k = map_option (f k) (map_of xs k)"
  by (induction xs) auto

lemma fst_comp_values [simp]: "fst \<circ> (\<lambda>(k, v). (k, f k v)) = fst"
  by (simp add: fun_eq_iff)

lemma list_all_update:
  "list_all (\<lambda>(k, q). P q) c \<Longrightarrow> P v \<Longrightarrow> list_all (\<lambda>(k, q). P q) (AList.update k v c)"
  by (induction c) auto

end
