(* ===== verification/Http.thy ===== *)
theory Http
  imports Prelude
begin

text \<open>
  The shared axios client of \<^verbatim>\<open>src/frontend/src/services/api.js\<close>: the shape of
  a reply as the sources read it, the interceptors, and the function \<open>send\<close>
  every service wrapper goes through: one request through the request
  interceptor, the backend and the response interceptors.

  The backend is an external collaborator. A request is therefore modelled by
  its \<open>outcome\<close>, supplied by the caller of the model: the promise either
  resolves with the response body or rejects with an error.
\<close>

section \<open>Replies\<close>

text \<open>
  What the sources read of a rejected request: \<^verbatim>\<open>error.response?.status\<close> and
  \<^verbatim>\<open>error.response?.data?.message\<close>. An error without \<^verbatim>\<open>response\<close> (the network
  failed, or the error is not an axios error at all) is \<open>None\<close>.
\<close>

record error_response =
  err_status :: nat
  err_message :: "string option"

type_synonym api_error = "error_response option"

datatype 'a outcome = Resolved 'a | Rejected api_error

definition error_status :: "api_error \<Rightarrow> nat option" where
  [http_defs]: "error_status e = map_option err_status e"

text \<open>\<^verbatim>\<open>error.response?.data?.message || dflt\<close>, the idiom of every error handler.\<close>

definition error_message :: "api_error \<Rightarrow> string \<Rightarrow> string" where
  [http_defs]: "error_message e dflt = str_or (Option.bind e err_message) dflt"

section \<open>Requests\<close>

text \<open>
  Request and query bodies are passed through by the wrappers unread, so they
  are values of a small JSON type. A request is what the wrappers hand to
  axios: method, URL relative to \<open>baseURL\<close>, query parameters and body.
\<close>

datatype json =
    JNull
  | JBool bool
  | JNum int
  | JStr string
  | JArr "json list"
  | JObj "(string \<times> json) list"

datatype http_method = GET | POST | PATCH | DELETE

record request =
  req_method :: http_method
  req_url :: string
  req_params :: "json option"
  req_body :: "json option"

definition baseURL :: string where
  "baseURL = ''/api/v1''"

definition api_get :: "string \<Rightarrow> json option \<Rightarrow> request" where
  [http_defs]: "api_get u ps = \<lparr>req_method = GET, req_url = u, req_params = ps, req_body = None\<rparr>"

definition api_post :: "string \<Rightarrow> json option \<Rightarrow> request" where
  [http_defs]: "api_post u b = \<lparr>req_method = POST, req_url = u, req_params = None, req_body = b\<rparr>"

definition api_patch :: "string \<Rightarrow> json option \<Rightarrow> request" where
  [http_defs]: "api_patch u b = \<lparr>req_method = PATCH, req_url = u, req_params = None, req_body = b\<rparr>"

definition api_delete :: "string \<Rightarrow> request" where
  [http_defs]: "api_delete u = \<lparr>req_method = DELETE, req_url = u, req_params = None, req_body = None\<rparr>"

text \<open>
  A response body follows the envelope \<^verbatim>\<open>{status, data}\<close>; the type of \<^verbatim>\<open>data\<close>
  depends on the endpoint. A body that is missing altogether is \<open>None\<close>. The
  backend answers a request with an outcome; it is a parameter of every
  operation that sends one.
\<close>

record 'd envelope =
  env_status :: string
  env_data :: "'d option"

type_synonym 'd body = "'d envelope option"
type_synonym 'd backend = "request \<Rightarrow> 'd body outcome"

section \<open>The response interceptors\<close>

text \<open>
  The success handler returns the response unchanged. The error handler
  computes the message, then: on a 401 away from \<^verbatim>\<open>/login\<close> it assigns
  \<^verbatim>\<open>window.location.href\<close> and returns early; on any status other than 401
  (a missing status included) it shows an error toast. It rejects with the
  same error on every path.
\<close>

definition response_error_interceptor ::
  "api_error \<Rightarrow> 'a window_scheme \<Rightarrow> 'a window_scheme" where
  [http_defs]: "response_error_interceptor e w =
     (let message = error_message e ''Something went wrong!'' in
      if error_status e = Some 401 \<and> pathname w \<noteq> ''/login''
      then assign_href ''/login'' w
      else if error_status e \<noteq> Some 401
      then show_toast (ToastError message) w
      else w)"

definition api_call :: "'r outcome \<Rightarrow> 'a window_scheme \<Rightarrow> 'r outcome \<times> 'a window_scheme" where
  [http_defs]: "api_call reply w =
     (case reply of
        Resolved r \<Rightarrow> (Resolved r, w)
      | Rejected e \<Rightarrow> (Rejected e, response_error_interceptor e w))"

text \<open>
  The request interceptor returns the configuration unchanged. \<open>send\<close> is one
  call \<^verbatim>\<open>api.get\<close>, \<^verbatim>\<open>api.post\<close>, \<^verbatim>\<open>api.patch\<close> or \<^verbatim>\<open>api.delete\<close>: the request
  passes the request interceptor, the backend answers, and the answer passes
  the response interceptors.
\<close>

definition request_interceptor :: "request \<Rightarrow> request" where
  [http_defs]: "request_interceptor config = config"

definition send :: "'d backend \<Rightarrow> request \<Rightarrow> 'a window_scheme \<Rightarrow> 'd body outcome \<times> 'a window_scheme" where
  [http_defs]: "send be rq w = api_call (be (request_interceptor rq)) w"

section \<open>Behaviour of the interceptors\<close>

lemma error_message_nonempty [simp]: "d \<noteq> [] \<Longrightarrow> error_message e d \<noteq> []"
  by (simp add: error_message_def)

lemma error_message_None [simp]: "error_message None d = d"
  by (simp add: error_message_def)

lemma error_status_simps [simp]:
  "error_status None = None"
  "error_status (Some r) = Some (err_status r)"
  by (simp_all add: error_status_def)

lemma api_call_Resolved [simp]: "api_call (Resolved r) w = (Resolved r, w)"
  by (simp add: api_call_def)

lemma api_call_fst [simp]: "fst (api_call reply w) = reply"
  by (cases reply) (simp_all add: api_call_def)

lemma api_call_Rejected [simp]:
  "api_call (Rejected e) w = (Rejected e, response_error_interceptor e w)"
  by (simp add: api_call_def)

lemma interceptor_pathname [simp]:
  "pathname (response_error_interceptor e w) = pathname w"
  by (simp add: response_error_interceptor_def Let_def)

lemma interceptor_more [simp]:
  "window.more (response_error_interceptor e w) = window.more w"
  by (simp add: response_error_interceptor_def Let_def)

lemma interceptor_401 [simp]:
  "error_status e = Some 401 \<Longrightarrow> response_error_interceptor e w =
     (if pathname w \<noteq> ''/login'' then assign_href ''/login'' w else w)"
  by (simp add: response_error_interceptor_def Let_def)

lemma interceptor_other [simp]:
  "error_status e \<noteq> Some 401 \<Longrightarrow> response_error_interceptor e w =
     show_toast (ToastError (error_message e ''Something went wrong!'')) w"
  by (simp add: response_error_interceptor_def Let_def)

lemma interceptor_toasts_cases:
  "toasts (response_error_interceptor e w) = toasts w \<or>
   (\<exists>m. m \<noteq> [] \<and> toasts (response_error_interceptor e w) = toasts w @ [ToastError m])"
  by (cases "error_status e = Some 401") auto

lemma interceptor_pending_cases:
  "pending_href (response_error_interceptor e w) = pending_href w \<or>
   pending_href (response_error_interceptor e w) = Some ''/login''"
  by (cases "error_status e = Some 401") auto

lemma send_fst [simp]: "fst (send be rq w) = be rq"
  by (simp add: send_def request_interceptor_def)

lemma send_snd: "snd (send be rq w) =
  (case be rq of Resolved r \<Rightarrow> w | Rejected e \<Rightarrow> response_error_interceptor e w)"
  by (simp add: send_def request_interceptor_def api_call_def split: outcome.splits)

lemma send_eq: "send be rq w = (be rq,
  (case be rq of Resolved r \<Rightarrow> w | Rejected e \<Rightarrow> response_error_interceptor e w))"
  by (simp add: prod_eq_iff send_snd)

lemma send_pathname [simp]: "pathname (snd (send be rq w)) = pathname w"
  by (simp add: send_snd split: outcome.splits)

lemma send_more [simp]: "window.more (snd (send be rq w)) = window.more w"
  by (simp add: send_snd split: outcome.splits)

text \<open>
  C5: what one request does to the window. A request that resolves changes
  nothing. A rejected request is passed on to the caller and never changes
  the location by itself; it either schedules a load of \<^verbatim>\<open>/login\<close> (status
  401 away from \<^verbatim>\<open>/login\<close>), or does nothing (status 401 on \<^verbatim>\<open>/login\<close>), or
  shows exactly one error toast with a message that is not empty (any other
  error, a network failure included). It never both redirects and shows a
  toast.
\<close>

theorem send_reaction:
  "(case be rq of
      Resolved r \<Rightarrow> send be rq w = (Resolved r, w)
    | Rejected e \<Rightarrow>
        fst (send be rq w) = Rejected e \<and>
        pathname (snd (send be rq w)) = pathname w \<and>
        (if error_status e = Some 401
         then toasts (snd (send be rq w)) = toasts w \<and>
              pending_href (snd (send be rq w)) =
                (if pathname w = ''/login'' then pending_href w else Some ''/login'')
         else pending_href (snd (send be rq w)) = pending_href w \<and>
              error_message e ''Something went wrong!'' \<noteq> [] \<and>
              toasts (snd (send be rq w)) =
                toasts w @ [ToastError (error_message e ''Something went wrong!'')]))"
  by (simp add: send_eq split: outcome.splits)

theorem send_reaction_witness:
  "pending_href (snd (send (\<lambda>rq. Rejected (Some \<lparr>err_status = 401, err_message = None\<rparr>) :: unit body outcome)
     (api_get ''/bikes'' None) \<lparr>pathname = ''/bikes'', pending_href = None, toasts = []\<rparr>))
   = Some ''/login''"
  using send_reaction [of "\<lambda>rq. Rejected (Some \<lparr>err_status = 401, err_message = None\<rparr>) :: unit body outcome"
      "api_get ''/bikes'' None" "\<lparr>pathname = ''/bikes'', pending_href = None, toasts = []\<rparr>"]
  by simp

end
