(* ===== verification/Auth.thy ===== *)
theory Auth
  imports Http
begin

text \<open>
  The authentication state of the client: the provider component of
  \<^verbatim>\<open>src/frontend/src/context/AuthContext.jsx\<close> with the wrappers of
  \<^verbatim>\<open>src/frontend/src/services/authService.js\<close> it calls, and \<^verbatim>\<open>isAdmin\<close> of
  \<^verbatim>\<open>src/frontend/src/utils/helpers.js\<close>.

  The provider keeps three state cells. Each handler is one definition that
  takes the backend and the browser state and returns the handler's result and
  the new state; a handler runs to its end before the next event is handled.
  An exception thrown inside a \<^verbatim>\<open>try\<close> block is the \<open>Rejected\<close> outcome of the
  request, or a missing body or payload where the handler dereferences it.
\<close>

section \<open>Users and the state cells\<close>

record user_info =
  user_id :: string
  user_name :: string
  user_email :: string
  user_role :: string

definition isAdmin :: "user_info option \<Rightarrow> bool" where
  "isAdmin u = (case u of None \<Rightarrow> False | Some x \<Rightarrow> user_role x = ''admin'')"

record auth_state =
  user :: "user_info option"
  loading :: bool
  isAuthenticated :: bool

definition initial_auth :: auth_state where
  "initial_auth = \<lparr>user = None, loading = True, isAuthenticated = False\<rparr>"

record browser = window +
  auth :: auth_state

definition setUser :: "user_info option \<Rightarrow> 'a browser_scheme \<Rightarrow> 'a browser_scheme" where
  [auth_defs]: "setUser u b = b\<lparr>auth := (auth b)\<lparr>user := u\<rparr>\<rparr>"

definition setLoading :: "bool \<Rightarrow> 'a browser_scheme \<Rightarrow> 'a browser_scheme" where
  [auth_defs]: "setLoading l b = b\<lparr>auth := (auth b)\<lparr>loading := l\<rparr>\<rparr>"

definition setIsAuthenticated :: "bool \<Rightarrow> 'a browser_scheme \<Rightarrow> 'a browser_scheme" where
  [auth_defs]: "setIsAuthenticated v b = b\<lparr>auth := (auth b)\<lparr>isAuthenticated := v\<rparr>\<rparr>"

section \<open>The service wrappers the provider calls\<close>

text \<open>The payload of the authentication endpoints: \<^verbatim>\<open>data.user\<close>.\<close>

record auth_payload =
  data_user :: "user_info option"

definition authService_signup ::
  "'d backend \<Rightarrow> json \<Rightarrow> 'a window_scheme \<Rightarrow> 'd body outcome \<times> 'a window_scheme" where
  [auth_defs]: "authService_signup be userData w = send be (api_post ''/users/signup'' (Some userData)) w"

definition authService_login ::
  "'d backend \<Rightarrow> json \<Rightarrow> 'a window_scheme \<Rightarrow> 'd body outcome \<times> 'a window_scheme" where
  [auth_defs]: "authService_login be credentials w = send be (api_post ''/users/login'' (Some credentials)) w"

text \<open>
  \<^verbatim>\<open>authService.logout\<close> sends nothing: it assigns \<^verbatim>\<open>window.location.href\<close> and
  returns. It cannot throw, so the result is always \<open>Inr\<close>.
\<close>

definition authService_logout :: "'a window_scheme \<Rightarrow> (api_error + unit) \<times> 'a window_scheme" where
  [auth_defs]: "authService_logout w = (Inr (), assign_href ''/login'' w)"

definition authService_updateProfile ::
  "'d backend \<Rightarrow> json \<Rightarrow> 'a window_scheme \<Rightarrow> 'd body outcome \<times> 'a window_scheme" where
  [auth_defs]: "authService_updateProfile be userData w = send be (api_patch ''/users/updateMe'' (Some userData)) w"

text \<open>
  \<^verbatim>\<open>authService.checkAuth\<close> probes a protected endpoint and catches the
  rejection itself. Neither of the two objects it returns has a \<^verbatim>\<open>user\<close>
  property.
\<close>

record check_result =
  res_isAuthenticated :: bool
  res_user :: "user_info option"

definition checkAuth ::
  "'d backend \<Rightarrow> 'a window_scheme \<Rightarrow> (api_error + check_result) \<times> 'a window_scheme" where
  [auth_defs]: "checkAuth be w =
     (case send be (api_get ''/users/recommend'' None) w of
        (Resolved response, w') \<Rightarrow> (Inr \<lparr>res_isAuthenticated = True, res_user = None\<rparr>, w')
      | (Rejected error, w') \<Rightarrow> (Inr \<lparr>res_isAuthenticated = False, res_user = None\<rparr>, w'))"

section \<open>The handlers of the provider\<close>

datatype op_result = Success | Failure string | Undefined

definition checkAuthStatus :: "'d backend \<Rightarrow> 'a browser_scheme \<Rightarrow> 'a browser_scheme" where
  [auth_defs]: "checkAuthStatus be b =
     (case checkAuth be b of
        (Inr result, b1) \<Rightarrow>
          (let b2 = setIsAuthenticated (res_isAuthenticated result) b1;
               b3 = (if res_isAuthenticated result \<and> res_user result \<noteq> None
                     then setUser (res_user result) b2 else b2)
           in setLoading False b3)
      | (Inl error, b1) \<Rightarrow>
          setLoading False (setUser None (setIsAuthenticated False b1)))"

definition login ::
  "auth_payload backend \<Rightarrow> json \<Rightarrow> 'a browser_scheme \<Rightarrow> op_result \<times> 'a browser_scheme" where
  [auth_defs]: "login be credentials b =
     (case authService_login be credentials b of
        (Resolved None, b1) \<Rightarrow> (Failure ''Login failed'', b1)
      | (Resolved (Some response), b1) \<Rightarrow>
          if env_status response = ''success'' then
            (case env_data response of
               None \<Rightarrow> (Failure ''Login failed'', b1)
             | Some d \<Rightarrow>
                 (Success,
                  show_toast (ToastSuccess ''Logged in successfully!'')
                    (setIsAuthenticated True (setUser (data_user d) b1))))
          else (Undefined, b1)
      | (Rejected error, b1) \<Rightarrow> (Failure (error_message error ''Login failed''), b1))"

definition signup ::
  "auth_payload backend \<Rightarrow> json \<Rightarrow> 'a browser_scheme \<Rightarrow> op_result \<times> 'a browser_scheme" where
  [auth_defs]: "signup be userData b =
     (case authService_signup be userData b of
        (Resolved None, b1) \<Rightarrow> (Failure ''Signup failed'', b1)
      | (Resolved (Some response), b1) \<Rightarrow>
          if env_status response = ''success'' then
            (case env_data response of
               None \<Rightarrow> (Failure ''Signup failed'', b1)
             | Some d \<Rightarrow>
                 (Success,
                  show_toast (ToastSuccess ''Account created successfully!'')
                    (setIsAuthenticated True (setUser (data_user d) b1))))
          else (Undefined, b1)
      | (Rejected error, b1) \<Rightarrow> (Failure (error_message error ''Signup failed''), b1))"

definition logout :: "'a browser_scheme \<Rightarrow> 'a browser_scheme" where
  [auth_defs]: "logout b =
     (case authService_logout b of
        (Inr _, b1) \<Rightarrow>
          show_toast (ToastSuccess ''Logged out successfully!'')
            (setIsAuthenticated False (setUser None b1))
      | (Inl error, b1) \<Rightarrow> show_toast (ToastError ''Error logging out'') b1)"

definition updateProfile ::
  "auth_payload backend \<Rightarrow> json \<Rightarrow> 'a browser_scheme \<Rightarrow> op_result \<times> 'a browser_scheme" where
  [auth_defs]: "updateProfile be userData b =
     (case authService_updateProfile be userData b of
        (Resolved None, b1) \<Rightarrow> (Failure ''Update failed'', b1)
      | (Resolved (Some response), b1) \<Rightarrow>
          if env_status response = ''success'' then
            (case env_data response of
               None \<Rightarrow> (Failure ''Update failed'', b1)
             | Some d \<Rightarrow>
                 (Success,
                  show_toast (ToastSuccess ''Profile updated successfully!'')
                    (setUser (data_user d) b1)))
          else (Undefined, b1)
      | (Rejected error, b1) \<Rightarrow> (Failure (error_message error ''Update failed''), b1))"

text \<open>
  Mounting the provider: the cells take their initial values and the effect
  runs \<^verbatim>\<open>checkAuthStatus\<close> once.
\<close>

definition AuthProvider :: "'d backend \<Rightarrow> 'a browser_scheme \<Rightarrow> 'a browser_scheme" where
  [auth_defs]: "AuthProvider be b = checkAuthStatus be (b\<lparr>auth := initial_auth\<rparr>)"

text \<open>
  Reading the context. \<^verbatim>\<open>createContext()\<close> has no default value, so a
  component outside the provider reads \<^verbatim>\<open>undefined\<close> and \<^verbatim>\<open>useAuth\<close> throws;
  inside, it gets what the provider holds.
\<close>

definition useAuth :: "'c option \<Rightarrow> string + 'c" where
  "useAuth context =
     (case context of
        None \<Rightarrow> Inl ''useAuth must be used within an AuthProvider''
      | Some c \<Rightarrow> Inr c)"

section \<open>Frame lemmas: what the client and the setters leave alone\<close>

lemma auth_window_ops [simp]:
  "auth (show_toast t b) = auth b"
  "auth (assign_href p b) = auth b"
  "auth (response_error_interceptor e b) = auth b"
  "auth (snd (send be rq b)) = auth b"
  by (simp_all add: show_toast_def assign_href_def response_error_interceptor_def
      send_snd Let_def split: outcome.splits)

lemma setter_auth [simp]:
  "auth (setUser u b) = (auth b)\<lparr>user := u\<rparr>"
  "auth (setLoading l b) = (auth b)\<lparr>loading := l\<rparr>"
  "auth (setIsAuthenticated v b) = (auth b)\<lparr>isAuthenticated := v\<rparr>"
  by (simp_all add: auth_defs)

lemma setter_window [simp]:
  "pathname (setUser u b) = pathname b"
  "pending_href (setUser u b) = pending_href b"
  "toasts (setUser u b) = toasts b"
  "pathname (setLoading l b) = pathname b"
  "pending_href (setLoading l b) = pending_href b"
  "toasts (setLoading l b) = toasts b"
  "pathname (setIsAuthenticated v b) = pathname b"
  "pending_href (setIsAuthenticated v b) = pending_href b"
  "toasts (setIsAuthenticated v b) = toasts b"
  by (simp_all add: auth_defs)

lemma setter_more [simp]:
  "browser.more (setUser u b) = browser.more b"
  "browser.more (setLoading l b) = browser.more b"
  "browser.more (setIsAuthenticated v b) = browser.more b"
  "browser.more (show_toast t b) = browser.more b"
  "browser.more (assign_href p b) = browser.more b"
  "browser.more (response_error_interceptor e b) = browser.more b"
  by (simp_all add: auth_defs show_toast_def assign_href_def response_error_interceptor_def Let_def)

lemma isAdmin_simps [simp]:
  "isAdmin None = False"
  "isAdmin (Some x) = (user_role x = ''admin'')"
  by (simp_all add: isAdmin_def)

lemma initial_auth_simps [simp]:
  "user initial_auth = None"
  "loading initial_auth = True"
  "isAuthenticated initial_auth = False"
  by (simp_all add: initial_auth_def)

section \<open>The handlers, by the answer of the backend\<close>

text \<open>
  Each handler is determined by the backend's answer to the one request it
  sends. These equations unfold the service wrapper and the client once, so
  that the properties below are case distinctions over the answer.
\<close>

abbreviation probe_request :: request where
  "probe_request \<equiv> api_get ''/users/recommend'' None"

abbreviation login_request :: "json \<Rightarrow> request" where
  "login_request credentials \<equiv> api_post ''/users/login'' (Some credentials)"

abbreviation signup_request :: "json \<Rightarrow> request" where
  "signup_request userData \<equiv> api_post ''/users/signup'' (Some userData)"

abbreviation updateProfile_request :: "json \<Rightarrow> request" where
  "updateProfile_request userData \<equiv> api_patch ''/users/updateMe'' (Some userData)"

lemma checkAuth_eq:
  "checkAuth be w =
     (case be probe_request of
        Resolved r \<Rightarrow> (Inr \<lparr>res_isAuthenticated = True, res_user = None\<rparr>, w)
      | Rejected e \<Rightarrow> (Inr \<lparr>res_isAuthenticated = False, res_user = None\<rparr>,
                        response_error_interceptor e w))"
  by (simp add: checkAuth_def send_eq split: outcome.splits)

lemma checkAuthStatus_eq:
  "checkAuthStatus be b =
     (case be probe_request of
        Resolved r \<Rightarrow> setLoading False (setIsAuthenticated True b)
      | Rejected e \<Rightarrow>
          setLoading False (setIsAuthenticated False (response_error_interceptor e b)))"
  by (simp add: checkAuthStatus_def checkAuth_eq Let_def split: outcome.splits)

lemma login_Rejected:
  "be (login_request c) = Rejected e \<Longrightarrow>
   login be c b = (Failure (error_message e ''Login failed''), response_error_interceptor e b)"
  by (simp add: login_def authService_login_def send_eq)

lemma login_no_body:
  "be (login_request c) = Resolved None \<Longrightarrow> login be c b = (Failure ''Login failed'', b)"
  by (simp add: login_def authService_login_def send_eq)

lemma login_not_success:
  "be (login_request c) = Resolved (Some r) \<Longrightarrow> env_status r \<noteq> ''success'' \<Longrightarrow>
   login be c b = (Undefined, b)"
  by (simp add: login_def authService_login_def send_eq)

lemma login_no_data:
  "be (login_request c) = Resolved (Some r) \<Longrightarrow> env_status r = ''success'' \<Longrightarrow>
   env_data r = None \<Longrightarrow> login be c b = (Failure ''Login failed'', b)"
  by (simp add: login_def authService_login_def send_eq)

lemma login_success:
  "be (login_request c) = Resolved (Some r) \<Longrightarrow> env_status r = ''success'' \<Longrightarrow>
   env_data r = Some d \<Longrightarrow>
   login be c b = (Success, show_toast (ToastSuccess ''Logged in successfully!'')
                     (setIsAuthenticated True (setUser (data_user d) b)))"
  by (simp add: login_def authService_login_def send_eq)

lemmas login_cases = login_Rejected login_no_body login_not_success login_no_data login_success

lemma signup_Rejected:
  "be (signup_request c) = Rejected e \<Longrightarrow>
   signup be c b = (Failure (error_message e ''Signup failed''), response_error_interceptor e b)"
  by (simp add: signup_def authService_signup_def send_eq)

lemma signup_no_body:
  "be (signup_request c) = Resolved None \<Longrightarrow> signup be c b = (Failure ''Signup failed'', b)"
  by (simp add: signup_def authService_signup_def send_eq)

lemma signup_not_success:
  "be (signup_request c) = Resolved (Some r) \<Longrightarrow> env_status r \<noteq> ''success'' \<Longrightarrow>
   signup be c b = (Undefined, b)"
  by (simp add: signup_def authService_signup_def send_eq)

lemma signup_no_data:
  "be (signup_request c) = Resolved (Some r) \<Longrightarrow> env_status r = ''success'' \<Longrightarrow>
   env_data r = None \<Longrightarrow> signup be c b = (Failure ''Signup failed'', b)"
  by (simp add: signup_def authService_signup_def send_eq)

lemma signup_success:
  "be (signup_request c) = Resolved (Some r) \<Longrightarrow> env_status r = ''success'' \<Longrightarrow>
   env_data r = Some d \<Longrightarrow>
   signup be c b = (Success, show_toast (ToastSuccess ''Account created successfully!'')
                      (setIsAuthenticated True (setUser (data_user d) b)))"
  by (simp add: signup_def authService_signup_def send_eq)

lemmas signup_cases = signup_Rejected signup_no_body signup_not_success signup_no_data signup_success

lemma updateProfile_Rejected:
  "be (updateProfile_request c) = Rejected e \<Longrightarrow>
   updateProfile be c b = (Failure (error_message e ''Update failed''), response_error_interceptor e b)"
  by (simp add: updateProfile_def authService_updateProfile_def send_eq)

lemma updateProfile_no_body:
  "be (updateProfile_request c) = Resolved None \<Longrightarrow>
   updateProfile be c b = (Failure ''Update failed'', b)"
  by (simp add: updateProfile_def authService_updateProfile_def send_eq)

lemma updateProfile_not_success:
  "be (updateProfile_request c) = Resolved (Some r) \<Longrightarrow> env_status r \<noteq> ''success'' \<Longrightarrow>
   updateProfile be c b = (Undefined, b)"
  by (simp add: updateProfile_def authService_updateProfile_def send_eq)

lemma updateProfile_no_data:
  "be (updateProfile_request c) = Resolved (Some r) \<Longrightarrow> env_status r = ''success'' \<Longrightarrow>
   env_data r = None \<Longrightarrow> updateProfile be c b = (Failure ''Update failed'', b)"
  by (simp add: updateProfile_def authService_updateProfile_def send_eq)

lemma updateProfile_success:
  "be (updateProfile_request c) = Resolved (Some r) \<Longrightarrow> env_status r = ''success'' \<Longrightarrow>
   env_data r = Some d \<Longrightarrow>
   updateProfile be c b = (Success, show_toast (ToastSuccess ''Profile updated successfully!'')
                             (setUser (data_user d) b))"
  by (simp add: updateProfile_def authService_updateProfile_def send_eq)

lemmas updateProfile_cases = updateProfile_Rejected updateProfile_no_body
  updateProfile_not_success updateProfile_no_data updateProfile_success

lemma logout_eq:
  "logout b = show_toast (ToastSuccess ''Logged out successfully!'')
                (setIsAuthenticated False (setUser None (assign_href ''/login'' b)))"
  by (simp add: logout_def authService_logout_def)

text \<open>
  The shape of an answer, as a rule for case distinctions: every answer is
  one of the five the handlers tell apart.
\<close>

lemma answer_cases [case_names Rejected no_body not_success no_data success]:
  fixes x :: "'d body outcome"
  obtains e where "x = Rejected e"
  | "x = Resolved None"
  | r where "x = Resolved (Some r)" "env_status r \<noteq> ''success''"
  | r where "x = Resolved (Some r)" "env_status r = ''success''" "env_data r = None"
  | r d where "x = Resolved (Some r)" "env_status r = ''success''" "env_data r = Some d"
proof (cases x)
  case (Resolved y)
  then show ?thesis
    by (cases y; cases "env_status (the y) = ''success''"; cases "env_data (the y)") (auto intro: that)
next
  case (Rejected e)
  then show ?thesis by (rule that(1))
qed

section \<open>What a handler promises\<close>

text \<open>
  The contract of the three handlers that take a reply, stated without their
  control flow. \<open>granted\<close> is the payload of an answer that counts as a success:
  the request resolved, the envelope says \<^verbatim>\<open>success\<close> and carries data.
  \<open>after_reply\<close> is what the client has done to the window by the time the
  handler sees the answer.
\<close>

definition granted :: "'d body outcome \<Rightarrow> 'd option" where
  "granted ans =
     (case ans of
        Resolved (Some r) \<Rightarrow> if env_status r = ''success'' then env_data r else None
      | _ \<Rightarrow> None)"

definition after_reply :: "'d body outcome \<Rightarrow> 'a window_scheme \<Rightarrow> 'a window_scheme" where
  "after_reply ans w = (case ans of Rejected e \<Rightarrow> response_error_interceptor e w | _ \<Rightarrow> w)"

fun resolved :: "'r outcome \<Rightarrow> bool" where
  "resolved (Resolved r) = True"
| "resolved (Rejected e) = False"

lemma granted_simps [simp]:
  "granted (Rejected e) = None"
  "granted (Resolved None) = None"
  "env_status r \<noteq> ''success'' \<Longrightarrow> granted (Resolved (Some r)) = None"
  "env_status r = ''success'' \<Longrightarrow> granted (Resolved (Some r)) = env_data r"
  by (simp_all add: granted_def)

lemma after_reply_simps [simp]:
  "after_reply (Rejected e) w = response_error_interceptor e w"
  "after_reply (Resolved r) w = w"
  by (simp_all add: after_reply_def)

lemma after_reply_frame [simp]:
  "pathname (after_reply ans w) = pathname w"
  "auth (after_reply ans b) = auth b"
  "browser.more (after_reply ans b) = browser.more b"
  by (cases ans; simp)+

lemma after_reply_pending:
  "pending_href (after_reply ans w) =
     (case ans of
        Rejected e \<Rightarrow> if error_status e = Some 401 \<and> pathname w \<noteq> ''/login''
                      then Some ''/login'' else pending_href w
      | Resolved r \<Rightarrow> pending_href w)"
  by (cases ans) (simp_all add: response_error_interceptor_def Let_def)

lemma login_snd:
  "snd (login be c b) =
     (case granted (be (login_request c)) of
        None \<Rightarrow> after_reply (be (login_request c)) b
      | Some d \<Rightarrow> show_toast (ToastSuccess ''Logged in successfully!'')
                    (setIsAuthenticated True (setUser (data_user d) b)))"
  by (cases "be (login_request c)" rule: answer_cases) (simp_all add: login_cases)

lemma login_fst:
  "fst (login be c b) =
     (case be (login_request c) of
        Rejected e \<Rightarrow> Failure (error_message e ''Login failed'')
      | Resolved None \<Rightarrow> Failure ''Login failed''
      | Resolved (Some r) \<Rightarrow>
          if env_status r \<noteq> ''success'' then Undefined
          else if env_data r = None then Failure ''Login failed'' else Success)"
  by (cases "be (login_request c)" rule: answer_cases) (simp_all add: login_cases)

lemma signup_snd:
  "snd (signup be c b) =
     (case granted (be (signup_request c)) of
        None \<Rightarrow> after_reply (be (signup_request c)) b
      | Some d \<Rightarrow> show_toast (ToastSuccess ''Account created successfully!'')
                    (setIsAuthenticated True (setUser (data_user d) b)))"
  by (cases "be (signup_request c)" rule: answer_cases) (simp_all add: signup_cases)

lemma signup_fst:
  "fst (signup be c b) =
     (case be (signup_request c) of
        Rejected e \<Rightarrow> Failure (error_message e ''Signup failed'')
      | Resolved None \<Rightarrow> Failure ''Signup failed''
      | Resolved (Some r) \<Rightarrow>
          if env_status r \<noteq> ''success'' then Undefined
          else if env_data r = None then Failure ''Signup failed'' else Success)"
  by (cases "be (signup_request c)" rule: answer_cases) (simp_all add: signup_cases)

lemma updateProfile_snd:
  "snd (updateProfile be c b) =
     (case granted (be (updateProfile_request c)) of
        None \<Rightarrow> after_reply (be (updateProfile_request c)) b
      | Some d \<Rightarrow> show_toast (ToastSuccess ''Profile updated successfully!'')
                    (setUser (data_user d) b))"
  by (cases "be (updateProfile_request c)" rule: answer_cases) (simp_all add: updateProfile_cases)

lemma updateProfile_fst:
  "fst (updateProfile be c b) =
     (case be (updateProfile_request c) of
        Rejected e \<Rightarrow> Failure (error_message e ''Update failed'')
      | Resolved None \<Rightarrow> Failure ''Update failed''
      | Resolved (Some r) \<Rightarrow>
          if env_status r \<noteq> ''success'' then Undefined
          else if env_data r = None then Failure ''Update failed'' else Success)"
  by (cases "be (updateProfile_request c)" rule: answer_cases) (simp_all add: updateProfile_cases)

lemma result_Success_iff:
  "fst (login be c b) = Success \<longleftrightarrow> granted (be (login_request c)) \<noteq> None"
  "fst (signup be c b) = Success \<longleftrightarrow> granted (be (signup_request c)) \<noteq> None"
  "fst (updateProfile be c b) = Success \<longleftrightarrow> granted (be (updateProfile_request c)) \<noteq> None"
  by (simp_all add: login_fst signup_fst updateProfile_fst granted_def
      split: outcome.splits option.splits)

lemma checkAuthStatus_auth:
  "auth (checkAuthStatus be b) =
     (auth b)\<lparr>isAuthenticated := resolved (be probe_request), loading := False\<rparr>"
  by (cases "be probe_request") (simp_all add: checkAuthStatus_eq)

lemma AuthProvider_auth:
  "auth (AuthProvider be b) =
     \<lparr>user = None, loading = False, isAuthenticated = resolved (be probe_request)\<rparr>"
  by (simp add: AuthProvider_def checkAuthStatus_auth initial_auth_def)

section \<open>Properties of the handlers\<close>

text \<open>
  C6: \<^verbatim>\<open>login\<close> reports success exactly when the backend granted
  the request; then the client is authenticated as the user of the payload
  and exactly one success toast is added. In every other case, failures and
  malformed answers alike, the three state cells are left as they were; and
  when the request resolves with a status other than \<^verbatim>\<open>success\<close> the caller
  gets \<^verbatim>\<open>undefined\<close> instead of a result object and nothing is shown.
\<close>

theorem login_outcome:
  "(fst (login be c b) = Success \<longleftrightarrow> granted (be (login_request c)) \<noteq> None) \<and>
   (\<forall>d. granted (be (login_request c)) = Some d \<longrightarrow>
      auth (snd (login be c b)) = (auth b)\<lparr>user := data_user d, isAuthenticated := True\<rparr> \<and>
      toasts (snd (login be c b)) = toasts b @ [ToastSuccess ''Logged in successfully!'']) \<and>
   (granted (be (login_request c)) = None \<longrightarrow> auth (snd (login be c b)) = auth b) \<and>
   (\<forall>r. be (login_request c) = Resolved (Some r) \<and> env_status r \<noteq> ''success'' \<longrightarrow>
      login be c b = (Undefined, b))"
  by (simp add: result_Success_iff login_snd login_not_success)

theorem login_outcome_witness:
  "granted ((\<lambda>rq. Resolved (Some \<lparr>env_status = ''success'', env_data = Some \<lparr>data_user = None\<rparr>\<rparr>))
      (login_request JNull)) = Some \<lparr>data_user = None\<rparr> \<and>
   isAuthenticated (auth (snd (login
      (\<lambda>rq. Resolved (Some \<lparr>env_status = ''success'', env_data = Some \<lparr>data_user = None\<rparr>\<rparr>)) JNull
      \<lparr>pathname = ''/login'', pending_href = None, toasts = [], auth = initial_auth\<rparr>)))"
  using login_outcome [of "\<lambda>rq. Resolved (Some \<lparr>env_status = ''success'', env_data = Some \<lparr>data_user = None\<rparr>\<rparr>)"
      JNull "\<lparr>pathname = ''/login'', pending_href = None, toasts = [], auth = initial_auth\<rparr>"]
  by simp

text \<open>
  When the request resolves with an envelope whose
  status is not \<^verbatim>\<open>success\<close>, \<^verbatim>\<open>login\<close> falls off the end of its \<^verbatim>\<open>try\<close> block:
  the caller receives \<^verbatim>\<open>undefined\<close> instead of a result object, nothing is
  shown and nothing changes.
\<close>

theorem login_undefined_result:
  "be (login_request c) = Resolved (Some r) \<Longrightarrow> env_status r \<noteq> ''success'' \<Longrightarrow>
   login be c b = (Undefined, b)"
  by (rule login_not_success)

theorem login_undefined_result_witness:
  "login (\<lambda>rq. Resolved (Some \<lparr>env_status = ''fail'', env_data = None\<rparr>)) JNull
     \<lparr>pathname = ''/login'', pending_href = None, toasts = [], auth = initial_auth\<rparr> =
   (Undefined, \<lparr>pathname = ''/login'', pending_href = None, toasts = [], auth = initial_auth\<rparr>)"
  using login_undefined_result [of "\<lambda>rq. Resolved (Some \<lparr>env_status = ''fail'', env_data = None\<rparr>)"
      JNull "\<lparr>env_status = ''fail'', env_data = None\<rparr>"
      "\<lparr>pathname = ''/login'', pending_href = None, toasts = [], auth = initial_auth\<rparr>"]
  by simp

text \<open>
  C38: the probe ends the loading phase and sets
  \<^verbatim>\<open>isAuthenticated\<close> to whether the probe request resolved. It never touches
  \<^verbatim>\<open>user\<close>: \<^verbatim>\<open>checkAuth\<close> returns no user, so the branch that would store one
  is never taken, and \<^verbatim>\<open>checkAuth\<close> never throws, so the \<^verbatim>\<open>catch\<close> branch that
  would clear it is never taken either.
\<close>

theorem checkAuthStatus_outcome:
  "auth (checkAuthStatus be b) =
     (auth b)\<lparr>isAuthenticated := resolved (be probe_request), loading := False\<rparr> \<and>
   (\<exists>r. fst (checkAuth be b) = Inr r \<and> res_user r = None)"
  by (cases "be probe_request") (simp_all add: checkAuthStatus_eq checkAuth_eq)

section \<open>An invariant of the state cells\<close>

text \<open>
  A user object is only ever held while the client believes it is
  authenticated. \<^verbatim>\<open>login\<close>, \<^verbatim>\<open>signup\<close> and \<^verbatim>\<open>logout\<close> keep this; mounting the
  provider establishes it. \<^verbatim>\<open>updateProfile\<close> keeps it for an authenticated
  client only, and \<^verbatim>\<open>checkAuthStatus\<close> only when no user is held.
\<close>

definition auth_wf :: "auth_state \<Rightarrow> bool" where
  "auth_wf a \<longleftrightarrow> (user a \<noteq> None \<longrightarrow> isAuthenticated a)"

lemma auth_wf_initial [simp]: "auth_wf initial_auth"
  by (simp add: auth_wf_def)

lemma auth_wf_login: "auth_wf (auth b) \<Longrightarrow> auth_wf (auth (snd (login be c b)))"
  by (simp add: login_snd auth_wf_def split: option.splits)

lemma auth_wf_signup: "auth_wf (auth b) \<Longrightarrow> auth_wf (auth (snd (signup be c b)))"
  by (simp add: signup_snd auth_wf_def split: option.splits)

lemma auth_wf_logout: "auth_wf (auth (logout b))"
  by (simp add: logout_eq auth_wf_def)

lemma auth_wf_updateProfile:
  "auth_wf (auth b) \<Longrightarrow> isAuthenticated (auth b) \<Longrightarrow> auth_wf (auth (snd (updateProfile be c b)))"
  by (simp add: updateProfile_snd auth_wf_def split: option.splits)

lemma auth_wf_AuthProvider: "auth_wf (auth (AuthProvider be b))"
  by (simp add: AuthProvider_auth auth_wf_def)

lemma loading_handlers [simp]:
  "loading (auth (snd (login be c b))) = loading (auth b)"
  "loading (auth (snd (signup be c b))) = loading (auth b)"
  "loading (auth (snd (updateProfile be c b))) = loading (auth b)"
  "loading (auth (logout b)) = loading (auth b)"
  by (simp_all add: login_snd signup_snd updateProfile_snd logout_eq split: option.splits)

text \<open>
  C39: the handlers that log a user in or out keep the
  invariant that a user object is held only by an authenticated client, and
  none of the handlers brings the loading phase back.
\<close>

theorem auth_wf_preserved:
  assumes "auth_wf (auth b)"
  shows "auth_wf (auth (snd (login be c b))) \<and> auth_wf (auth (snd (signup be c b))) \<and>
         auth_wf (auth (logout b)) \<and>
         (isAuthenticated (auth b) \<longrightarrow> auth_wf (auth (snd (updateProfile be c b)))) \<and>
         loading (auth (snd (login be c b))) = loading (auth b) \<and>
         loading (auth (logout b)) = loading (auth b)"
  using assms by (simp add: auth_wf_login auth_wf_signup auth_wf_logout auth_wf_updateProfile)

theorem auth_wf_preserved_witness:
  "auth_wf (auth \<lparr>pathname = ''/'', pending_href = None, toasts = [], auth = initial_auth\<rparr>) \<and>
   auth_wf (auth (logout \<lparr>pathname = ''/'', pending_href = None, toasts = [], auth = initial_auth\<rparr>))"
  using auth_wf_preserved [of "\<lparr>pathname = ''/'', pending_href = None, toasts = [], auth = initial_auth\<rparr>"]
  by simp

text \<open>
  \<^verbatim>\<open>checkAuthStatus\<close>, which the context also
  hands to its consumers, does not keep the invariant: called while a user is
  held and answered with a rejection, it clears \<^verbatim>\<open>isAuthenticated\<close> and leaves
  the user object in place.
\<close>

theorem checkAuthStatus_stale_user:
  "auth_wf \<lparr>user = Some u, loading = False, isAuthenticated = True\<rparr> \<and>
   \<not> auth_wf (auth (checkAuthStatus (\<lambda>rq. Rejected None)
       \<lparr>pathname = ''/'', pending_href = None, toasts = [],
        auth = \<lparr>user = Some u, loading = False, isAuthenticated = True\<rparr>\<rparr>))"
  by (simp add: auth_wf_def checkAuthStatus_auth)

end
