(* ===== verification/Services.thy ===== *)
theory Services
  imports Auth
begin

text \<open>
  The service wrappers of \<^verbatim>\<open>src/frontend/src/services\<close>: the methods of
  \<^verbatim>\<open>authService.js\<close> that the auth context does not call (those it calls are
  in theory \<open>Auth\<close>), and all of \<^verbatim>\<open>bikesService.js\<close>, \<^verbatim>\<open>bookingsService.js\<close>
  and \<^verbatim>\<open>adminService.js\<close>.

  Every wrapper is one request through \<open>send\<close> and returns \<^verbatim>\<open>response.data\<close>,
  the body of the answer; a rejection passes through it to the caller, after
  the error interceptor has reacted. Identifiers are strings, spliced into
  the URL as the template literals do; request bodies and query parameters
  are passed on unread.
\<close>

type_synonym ('d, 'a) service = "'a window_scheme \<Rightarrow> 'd body outcome \<times> 'a window_scheme"

section \<open>authService: password, account and preferences\<close>

definition forgotPassword :: "'d backend \<Rightarrow> string \<Rightarrow> ('d, 'a) service" where
  [service_defs]: "forgotPassword be email =
     send be (api_post ''/users/forgotPassword'' (Some (JObj [(''email'', JStr email)])))"

definition resetPassword :: "'d backend \<Rightarrow> string \<Rightarrow> json \<Rightarrow> ('d, 'a) service" where
  [service_defs]: "resetPassword be token passwords =
     send be (api_patch (''/users/resetPassword/'' @ token) (Some passwords))"

definition updatePassword :: "'d backend \<Rightarrow> json \<Rightarrow> ('d, 'a) service" where
  [service_defs]: "updatePassword be passwords =
     send be (api_patch ''/users/updateMyPassword'' (Some passwords))"

definition deleteAccount :: "'d backend \<Rightarrow> ('d, 'a) service" where
  [service_defs]: "deleteAccount be = send be (api_delete ''/users/deleteMe'')"

definition setPreferences :: "'d backend \<Rightarrow> json \<Rightarrow> ('d, 'a) service" where
  [service_defs]: "setPreferences be preferences =
     send be (api_patch ''/users/preferences'' (Some preferences))"

definition getRecommendations :: "'d backend \<Rightarrow> ('d, 'a) service" where
  [service_defs]: "getRecommendations be = send be (api_get ''/users/recommend'' None)"

section \<open>bikesService\<close>

definition getAllBikes :: "'d backend \<Rightarrow> json option \<Rightarrow> ('d, 'a) service" where
  [service_defs]: "getAllBikes be params' =
     (let params = default_arg (JObj []) params' in send be (api_get ''/bikes'' (Some params)))"

definition getBike :: "'d backend \<Rightarrow> string \<Rightarrow> ('d, 'a) service" where
  [service_defs]: "getBike be id' = send be (api_get (''/bikes/'' @ id') None)"

definition getTopCheapBikes :: "'d backend \<Rightarrow> ('d, 'a) service" where
  [service_defs]: "getTopCheapBikes be = send be (api_get ''/bikes/top-5-cheap'' None)"

definition getBikeStats :: "'d backend \<Rightarrow> ('d, 'a) service" where
  [service_defs]: "getBikeStats be = send be (api_get ''/bikes/bike-stats'' None)"

definition createBike :: "'d backend \<Rightarrow> json \<Rightarrow> ('d, 'a) service" where
  [service_defs]: "createBike be bikeData = send be (api_post ''/bikes'' (Some bikeData))"

definition updateBike :: "'d backend \<Rightarrow> string \<Rightarrow> json \<Rightarrow> ('d, 'a) service" where
  [service_defs]: "updateBike be id' bikeData =
     send be (api_patch (''/bikes/'' @ id') (Some bikeData))"

definition deleteBike :: "'d backend \<Rightarrow> string \<Rightarrow> ('d, 'a) service" where
  [service_defs]: "deleteBike be id' = send be (api_delete (''/bikes/'' @ id'))"

definition reclusterBikes :: "'d backend \<Rightarrow> ('d, 'a) service" where
  [service_defs]: "reclusterBikes be = send be (api_post ''/bikes/recluster'' None)"

section \<open>bookingsService\<close>

definition createBooking :: "'d backend \<Rightarrow> json \<Rightarrow> ('d, 'a) service" where
  [service_defs]: "createBooking be bookingData = send be (api_post ''/bookings'' (Some bookingData))"

definition cancelBooking :: "'d backend \<Rightarrow> string \<Rightarrow> ('d, 'a) service" where
  [service_defs]: "cancelBooking be id' = send be (api_patch (''/bookings/cancel/'' @ id') None)"

definition getUserBookings :: "'d backend \<Rightarrow> ('d, 'a) service" where
  [service_defs]: "getUserBookings be = send be (api_get ''/users/me'' None)"

section \<open>adminService\<close>

definition getAllUsers :: "'d backend \<Rightarrow> json option \<Rightarrow> ('d, 'a) service" where
  [service_defs]: "getAllUsers be params' =
     (let params = default_arg (JObj []) params' in send be (api_get ''/users'' (Some params)))"

definition getUser :: "'d backend \<Rightarrow> string \<Rightarrow> ('d, 'a) service" where
  [service_defs]: "getUser be id' = send be (api_get (''/users/'' @ id') None)"

definition updateUser :: "'d backend \<Rightarrow> string \<Rightarrow> json \<Rightarrow> ('d, 'a) service" where
  [service_defs]: "updateUser be id' userData =
     send be (api_patch (''/users/'' @ id') (Some userData))"

definition deleteUser :: "'d backend \<Rightarrow> string \<Rightarrow> ('d, 'a) service" where
  [service_defs]: "deleteUser be id' = send be (api_delete (''/users/'' @ id'))"

section \<open>What the wrappers send\<close>

text \<open>
  Parameters that are left out are sent as the empty object; a wrapper with
  an identifier sends to the path of the collection followed by it.
\<close>

lemma default_params:
  "getAllBikes be None = send be (api_get ''/bikes'' (Some (JObj [])))"
  "getAllUsers be None = send be (api_get ''/users'' (Some (JObj [])))"
  by (simp_all add: service_defs)

lemma service_answer:
  "fst (getBike be id' w) = be (api_get (''/bikes/'' @ id') None)"
  "fst (cancelBooking be id' w) = be (api_patch (''/bookings/cancel/'' @ id') None)"
  "fst (createBooking be b w) = be (api_post ''/bookings'' (Some b))"
  "fst (deleteBike be id' w) = be (api_delete (''/bikes/'' @ id'))"
  by (simp_all add: service_defs)

text \<open>
  The authentication probe is the recommendation request. On every page
  load \<^verbatim>\<open>checkAuth\<close> sends exactly what \<^verbatim>\<open>getRecommendations\<close> sends, leaves
  the window as that call leaves it, and reports whether the call resolved:
  a page load costs the backend one computation of recommendations, whose
  result is dropped.
\<close>

theorem checkAuth_is_getRecommendations:
  "snd (checkAuth be w) = snd (getRecommendations be w) \<and>
   fst (checkAuth be w) =
     Inr \<lparr>res_isAuthenticated = resolved (fst (getRecommendations be w)), res_user = None\<rparr>"
  by (cases "be (api_get ''/users/recommend'' None)")
     (simp_all add: checkAuth_def getRecommendations_def send_eq)

text \<open>
  The fixed paths under \<^verbatim>\<open>/bikes\<close> and \<^verbatim>\<open>/users\<close> shadow identifiers.
  The wrappers splice an identifier into the URL unchecked, so asking for the
  bike whose identifier is the name of a fixed endpoint is asking for that
  endpoint, and an identifier with a slash reaches into another resource.
\<close>

theorem fixed_paths_shadow_ids:
  "getBike be ''top-5-cheap'' = getTopCheapBikes be \<and>
   getBike be ''bike-stats'' = getBikeStats be \<and>
   getUser be ''recommend'' = getRecommendations be \<and>
   getUser be ''me'' = getUserBookings be \<and>
   deleteUser be ''deleteMe'' = deleteAccount be \<and>
   updateUser be ''updateMe'' userData = authService_updateProfile be userData \<and>
   updateUser be ''preferences'' userData = setPreferences be userData \<and>
   updateUser be (''resetPassword/'' @ token) userData = resetPassword be token userData"
  by (simp add: service_defs authService_updateProfile_def fun_eq_iff)

end
