(* ===== verification/Queries.thy ===== *)
theory Queries
  imports Services "HOL-Library.AList"
begin

text \<open>
  The query hooks of \<^verbatim>\<open>src/frontend/src/hooks\<close> (\<^verbatim>\<open>useBikes.js\<close>,
  \<^verbatim>\<open>useBookings.js\<close>, \<^verbatim>\<open>useAdmin.js\<close>) and the query client that \<^verbatim>\<open>App.jsx\<close>
  configures for them.

  The hooks are calls of \<^verbatim>\<open>useQuery\<close> and \<^verbatim>\<open>useMutation\<close> of the library
  \<^verbatim>\<open>@tanstack/react-query\<close>, which is not part of the repository. The first
  sections model the part of the library the hooks rely on, from its
  documentation: a cache of queries by key, staleness, the fetch of a stale
  query when a component starts to observe it, the retry of a failed
  request, invalidation by a prefix of the key, and the callbacks of a
  mutation. The last sections are the hooks themselves, one definition per
  hook, with the keys, stale times, callbacks and messages of the sources.

  A query function is a service wrapper that still waits for the backend,
  so that every attempt of a fetch can meet another answer. The clock is the
  argument \<open>now\<close>, in milliseconds. The cache is passed explicitly next to
  the window. A fetch is not atomic: \<open>useQuery\<close> starts it, and each call of
  \<open>attempt\<close> is one request of it, so that other events can happen while a
  query is loading.
\<close>

section \<open>Query keys\<close>

text \<open>
  A key is an array of JSON values. A filter matches a query when its key is
  a prefix of the key of the query. (The library compares objects inside a
  key up to the order of their properties and partially; the hooks filter by
  keys of strings only, where this is equality.)
\<close>

type_synonym query_key = "json list"

definition partialMatchKey :: "query_key \<Rightarrow> query_key \<Rightarrow> bool" where
  [query_defs]: "partialMatchKey queryKey' filterKey \<longleftrightarrow> prefix filterKey queryKey'"

section \<open>Queries\<close>

datatype query_status = StatusPending | StatusSuccess | StatusError

datatype fetch_status = Idle | Fetching

text \<open>
  The state of a query as the library keeps it, its query function, and the
  number of enabled observers (components that show it). \<open>q_data\<close> is
  \<^verbatim>\<open>state.data\<close>, \<open>None\<close> for \<^verbatim>\<open>undefined\<close>; \<open>q_error\<close> is \<^verbatim>\<open>state.error\<close>, \<open>None\<close>
  for \<^verbatim>\<open>null\<close>.
\<close>

record ('d, 'a) query =
  q_fn :: "'d backend \<Rightarrow> ('d, 'a) service"
  q_data :: "'d body"
  q_error :: "api_error option"
  q_status :: query_status
  fetchStatus :: fetch_status
  fetchFailureCount :: nat
  dataUpdatedAt :: nat
  isInvalidated :: bool
  observers :: nat

type_synonym ('d, 'a) query_cache = "(query_key \<times> ('d, 'a) query) list"

text \<open>The options a hook passes to \<^verbatim>\<open>useQuery\<close>, and what it gets back.\<close>

record ('d, 'a) query_options =
  queryKey :: query_key
  queryFn :: "'d backend \<Rightarrow> ('d, 'a) service"
  staleTime :: nat
  enabled :: bool

record 'd query_result =
  data :: "'d body"
  isLoading :: bool
  isFetching :: bool
  error :: "api_error option"

text \<open>The defaults of a client, of which \<^verbatim>\<open>App.jsx\<close> sets two.\<close>

record default_options =
  retry :: nat
  refetchOnWindowFocus :: bool

definition build :: "('d backend \<Rightarrow> ('d, 'a) service) \<Rightarrow> ('d, 'a) query" where
  [query_defs]: "build fn = \<lparr>q_fn = fn, q_data = None, q_error = None, q_status = StatusPending,
     fetchStatus = Idle, fetchFailureCount = 0, dataUpdatedAt = 0, isInvalidated = False,
     observers = 0\<rparr>"

definition isActive :: "('d, 'a) query \<Rightarrow> bool" where
  [query_defs]: "isActive q \<longleftrightarrow> 0 < observers q"

text \<open>
  A query is stale when it was invalidated, has no data, or its data is at
  least \<open>staleTime\<close> old.
\<close>

definition isStale :: "nat \<Rightarrow> nat \<Rightarrow> ('d, 'a) query \<Rightarrow> bool" where
  [query_defs]: "isStale stale now q \<longleftrightarrow>
     isInvalidated q \<or> q_data q = None \<or> dataUpdatedAt q + stale \<le> now"

text \<open>
  \<^verbatim>\<open>query.fetch\<close>: a fetch in flight is joined, unless the caller asks to
  cancel it and there is data to fall back on. A query without data goes
  back to \<^verbatim>\<open>pending\<close> when a fetch starts.
\<close>

definition fetch :: "bool \<Rightarrow> ('d, 'a) query \<Rightarrow> ('d, 'a) query" where
  [query_defs]: "fetch cancelRefetch q =
     (if fetchStatus q = Fetching \<and> \<not> (q_data q \<noteq> None \<and> cancelRefetch) then q
      else (if q_data q = None then q\<lparr>q_error := None, q_status := StatusPending\<rparr> else q)
             \<lparr>fetchStatus := Fetching, fetchFailureCount := 0\<rparr>)"

definition getResult :: "query_key \<Rightarrow> ('d, 'a) query_cache \<Rightarrow> 'd query_result" where
  [query_defs]: "getResult key c =
     (case map_of c key of
        None \<Rightarrow> \<lparr>data = None, isLoading = False, isFetching = False, error = None\<rparr>
      | Some q \<Rightarrow> \<lparr>data = q_data q,
                  isLoading = (q_status q = StatusPending \<and> fetchStatus q = Fetching),
                  isFetching = (fetchStatus q = Fetching),
                  error = q_error q\<rparr>)"

section \<open>Observing a query\<close>

text \<open>
  A component that starts to observe a key finds or builds the query, is
  counted as an observer if it is enabled, and starts a fetch if it is
  enabled and the query is stale for it. A component that stops gives up its
  place.
\<close>

definition addObserver :: "('d, 'a) query_options \<Rightarrow> nat \<Rightarrow> ('d, 'a) query \<Rightarrow> ('d, 'a) query" where
  [query_defs]: "addObserver opts now q =
     (let q0 = q\<lparr>q_fn := queryFn opts\<rparr>;
          q1 = (if enabled opts then q0\<lparr>observers := Suc (observers q0)\<rparr> else q0)
      in if enabled opts \<and> isStale (staleTime opts) now q1 then fetch False q1 else q1)"

definition removeObserver :: "('d, 'a) query \<Rightarrow> ('d, 'a) query" where
  [query_defs]: "removeObserver q = q\<lparr>observers := observers q - 1\<rparr>"

definition subscribe :: "('d, 'a) query_options \<Rightarrow> nat \<Rightarrow> ('d, 'a) query_cache \<Rightarrow> ('d, 'a) query_cache" where
  [query_defs]: "subscribe opts now c =
     (let q = (case map_of c (queryKey opts) of None \<Rightarrow> build (queryFn opts) | Some q \<Rightarrow> q)
      in AList.update (queryKey opts) (addObserver opts now q) c)"

definition unsubscribe :: "query_key \<Rightarrow> ('d, 'a) query_cache \<Rightarrow> ('d, 'a) query_cache" where
  [query_defs]: "unsubscribe key c =
     (case map_of c key of
        None \<Rightarrow> c
      | Some q \<Rightarrow> AList.update key (removeObserver q) c)"

text \<open>
  One render of a component that calls \<^verbatim>\<open>useQuery\<close>. \<open>prev\<close> is the key the
  hook observed at the previous render, \<open>None\<close> at the first: with the same
  key nothing happens, with another the hook moves from the old query to the
  new one. The hook returns what the cache then holds for the key.
\<close>

definition useQuery ::
  "('d, 'a) query_options \<Rightarrow> nat \<Rightarrow> query_key option \<Rightarrow> ('d, 'a) query_cache \<Rightarrow>
   'd query_result \<times> ('d, 'a) query_cache" where
  [query_defs]: "useQuery opts now prev c =
     (let c' = (case prev of
                  None \<Rightarrow> subscribe opts now c
                | Some k \<Rightarrow> if k = queryKey opts then c else subscribe opts now (unsubscribe k c))
      in (getResult (queryKey opts) c', c'))"

section \<open>Fetching with retries\<close>

text \<open>
  What the three ends of a request do to the state of the query: the data
  arrived; the request failed and will be tried again; the fetch failed for
  good.
\<close>

definition set_success :: "'d envelope \<Rightarrow> nat \<Rightarrow> ('d, 'a) query \<Rightarrow> ('d, 'a) query" where
  [query_defs]: "set_success d now q = q\<lparr>q_data := Some d, q_error := None, q_status := StatusSuccess,
     fetchStatus := Idle, fetchFailureCount := 0, dataUpdatedAt := now, isInvalidated := False\<rparr>"

definition set_failed :: "('d, 'a) query \<Rightarrow> ('d, 'a) query" where
  [query_defs]: "set_failed q = q\<lparr>fetchFailureCount := Suc (fetchFailureCount q)\<rparr>"

definition set_error :: "api_error \<Rightarrow> ('d, 'a) query \<Rightarrow> ('d, 'a) query" where
  [query_defs]: "set_error e q = q\<lparr>q_error := Some e, q_status := StatusError, fetchStatus := Idle,
     fetchFailureCount := Suc (fetchFailureCount q)\<rparr>"

text \<open>
  One request of a fetch in flight. The query function is called with the
  backend of the moment. A rejection is retried while fewer than \<open>retry\<close>
  requests of this fetch have failed. An answer without a body is an error
  of the library's own (\<^verbatim>\<open>data is undefined\<close>), which is not retried and has
  no response to read a message from.
\<close>

definition attempt ::
  "default_options \<Rightarrow> 'd backend \<Rightarrow> nat \<Rightarrow> query_key \<Rightarrow> ('d, 'a) query_cache \<Rightarrow> 'a window_scheme \<Rightarrow>
   ('d, 'a) query_cache \<times> 'a window_scheme" where
  [query_defs]: "attempt cfg be now key c w =
     (case map_of c key of
        None \<Rightarrow> (c, w)
      | Some q \<Rightarrow>
          if fetchStatus q \<noteq> Fetching then (c, w)
          else (case q_fn q be w of
                  (Resolved (Some d), w') \<Rightarrow> (AList.update key (set_success d now q) c, w')
                | (Resolved None, w') \<Rightarrow> (AList.update key (set_error None q) c, w')
                | (Rejected e, w') \<Rightarrow>
                    (AList.update key
                       (if fetchFailureCount q < retry cfg then set_failed q else set_error e q) c, w')))"

text \<open>The requests of one fetch, one backend and one time per request.\<close>

fun attempts ::
  "default_options \<Rightarrow> ('d backend \<times> nat) list \<Rightarrow> query_key \<Rightarrow> ('d, 'a) query_cache \<Rightarrow> 'a window_scheme \<Rightarrow>
   ('d, 'a) query_cache \<times> 'a window_scheme" where
  "attempts cfg [] key c w = (c, w)"
| "attempts cfg ((be, now) # bs) key c w =
     (case attempt cfg be now key c w of (c', w') \<Rightarrow> attempts cfg bs key c' w')"

section \<open>Invalidation and refocus\<close>

text \<open>
  \<^verbatim>\<open>invalidateQueries\<close> marks every matching query as invalidated and
  restarts the fetch of those that are observed.
\<close>

definition invalidate :: "('d, 'a) query \<Rightarrow> ('d, 'a) query" where
  [query_defs]: "invalidate q =
     (let q' = q\<lparr>isInvalidated := True\<rparr> in if isActive q' then fetch True q' else q')"

definition invalidateQueries :: "query_key \<Rightarrow> ('d, 'a) query_cache \<Rightarrow> ('d, 'a) query_cache" where
  [query_defs]: "invalidateQueries filterKey c =
     map (\<lambda>(k, q). (k, if partialMatchKey k filterKey then invalidate q else q)) c"

text \<open>
  The window regains the focus: with \<^verbatim>\<open>refetchOnWindowFocus\<close> every observed
  query that is stale is fetched again. The stale time is the observer's;
  the hooks pass it along.
\<close>

definition onFocus ::
  "default_options \<Rightarrow> nat \<Rightarrow> nat \<Rightarrow> ('d, 'a) query_cache \<Rightarrow> ('d, 'a) query_cache" where
  [query_defs]: "onFocus cfg stale now c =
     (if refetchOnWindowFocus cfg
      then map (\<lambda>(k, q). (k, if isActive q \<and> isStale stale now q then fetch False q else q)) c
      else c)"

section \<open>Mutations\<close>

text \<open>
  The options a hook passes to \<^verbatim>\<open>useMutation\<close>. The callbacks get the answer
  or the error and the variables of the call, and act on the cache and the
  window. \<open>useMutation\<close> is one call of \<^verbatim>\<open>mutate\<close>: the mutation function is
  called once (mutations are not retried), then the callback of its outcome.
\<close>

record ('v, 'd, 'a) mutation_options =
  mutationFn :: "'d backend \<Rightarrow> 'v \<Rightarrow> ('d, 'a) service"
  onSuccess :: "'d body \<Rightarrow> 'v \<Rightarrow> ('d, 'a) query_cache \<Rightarrow> 'a window_scheme \<Rightarrow>
                ('d, 'a) query_cache \<times> 'a window_scheme"
  onError :: "api_error \<Rightarrow> 'v \<Rightarrow> ('d, 'a) query_cache \<Rightarrow> 'a window_scheme \<Rightarrow>
              ('d, 'a) query_cache \<times> 'a window_scheme"

type_synonym ('v, 'd, 'a) mutation =
  "'d backend \<Rightarrow> 'v \<Rightarrow> ('d, 'a) query_cache \<Rightarrow> 'a window_scheme \<Rightarrow>
   'd body outcome \<times> ('d, 'a) query_cache \<times> 'a window_scheme"

definition useMutation :: "('v, 'd, 'a) mutation_options \<Rightarrow> ('v, 'd, 'a) mutation" where
  [query_defs]: "useMutation opts be variables c w =
     (case mutationFn opts be variables w of
        (Resolved r, w') \<Rightarrow> (Resolved r, onSuccess opts r variables c w')
      | (Rejected e, w') \<Rightarrow> (Rejected e, onError opts e variables c w'))"

section \<open>The client of the application\<close>

text \<open>
  \<^verbatim>\<open>App.jsx\<close> creates the one client: a failed query is tried once more, and
  regaining the focus fetches nothing.
\<close>

definition queryClient :: default_options where
  "queryClient = \<lparr>retry = 1, refetchOnWindowFocus = False\<rparr>"

type_synonym ('d, 'a) query_hook =
  "nat \<Rightarrow> query_key option \<Rightarrow> ('d, 'a) query_cache \<Rightarrow> 'd query_result \<times> ('d, 'a) query_cache"

section \<open>useBikes.js\<close>

text \<open>
  An identifier that is \<^verbatim>\<open>undefined\<close> is \<^verbatim>\<open>null\<close> inside a key and the text
  \<^verbatim>\<open>undefined\<close> inside a URL.
\<close>

definition key_of_id :: "string option \<Rightarrow> json" where
  [query_defs]: "key_of_id id' = (case id' of None \<Rightarrow> JNull | Some i \<Rightarrow> JStr i)"

definition url_of_id :: "string option \<Rightarrow> string" where
  [query_defs]: "url_of_id id' = (case id' of None \<Rightarrow> ''undefined'' | Some i \<Rightarrow> i)"

definition useBikes :: "json option \<Rightarrow> ('d, 'a) query_hook" where
  "useBikes params' =
     (let params = default_arg (JObj []) params' in
      useQuery \<lparr>queryKey = [JStr ''bikes'', params],
                queryFn = (\<lambda>be. getAllBikes be (Some params)),
                staleTime = 5 * 60 * 1000,
                enabled = True\<rparr>)"

definition useBike :: "string option \<Rightarrow> ('d, 'a) query_hook" where
  "useBike id' =
     useQuery \<lparr>queryKey = [JStr ''bike'', key_of_id id'],
               queryFn = (\<lambda>be. getBike be (url_of_id id')),
               staleTime = 5 * 60 * 1000,
               enabled = truthy id'\<rparr>"

definition useTopCheapBikes :: "('d, 'a) query_hook" where
  "useTopCheapBikes =
     useQuery \<lparr>queryKey = [JStr ''bikes'', JStr ''top-cheap''],
               queryFn = getTopCheapBikes,
               staleTime = 10 * 60 * 1000,
               enabled = True\<rparr>"

definition useBikeStats :: "('d, 'a) query_hook" where
  "useBikeStats =
     useQuery \<lparr>queryKey = [JStr ''bikes'', JStr ''stats''],
               queryFn = getBikeStats,
               staleTime = 10 * 60 * 1000,
               enabled = True\<rparr>"

definition useCreateBike :: "(json, 'd, 'a) mutation" where
  "useCreateBike =
     useMutation \<lparr>
       mutationFn = createBike,
       onSuccess = (\<lambda>r variables c w.
         (invalidateQueries [JStr ''bikes''] c,
          show_toast (ToastSuccess ''Bike created successfully!'') w)),
       onError = (\<lambda>e variables c w.
         (c, show_toast (ToastError (error_message e ''Failed to create bike'')) w))\<rparr>"

definition useUpdateBike :: "(string \<times> json, 'd, 'a) mutation" where
  "useUpdateBike =
     useMutation \<lparr>
       mutationFn = (\<lambda>be (id', data'). updateBike be id' data'),
       onSuccess = (\<lambda>r variables c w.
         (invalidateQueries [JStr ''bike'', JStr (fst variables)] (invalidateQueries [JStr ''bikes''] c),
          show_toast (ToastSuccess ''Bike updated successfully!'') w)),
       onError = (\<lambda>e variables c w.
         (c, show_toast (ToastError (error_message e ''Failed to update bike'')) w))\<rparr>"

definition useDeleteBike :: "(string, 'd, 'a) mutation" where
  "useDeleteBike =
     useMutation \<lparr>
       mutationFn = deleteBike,
       onSuccess = (\<lambda>r variables c w.
         (invalidateQueries [JStr ''bikes''] c,
          show_toast (ToastSuccess ''Bike deleted successfully!'') w)),
       onError = (\<lambda>e variables c w.
         (c, show_toast (ToastError (error_message e ''Failed to delete bike'')) w))\<rparr>"

definition useReclusterBikes :: "('v, 'd, 'a) mutation" where
  "useReclusterBikes =
     useMutation \<lparr>
       mutationFn = (\<lambda>be variables. reclusterBikes be),
       onSuccess = (\<lambda>r variables c w.
         (invalidateQueries [JStr ''bikes''] c,
          show_toast (ToastSuccess ''Bikes reclustered successfully!'') w)),
       onError = (\<lambda>e variables c w.
         (c, show_toast (ToastError (error_message e ''Failed to recluster bikes'')) w))\<rparr>"

section \<open>useBookings.js\<close>

definition useCreateBooking :: "(json, 'd, 'a) mutation" where
  "useCreateBooking =
     useMutation \<lparr>
       mutationFn = createBooking,
       onSuccess = (\<lambda>r variables c w.
         (invalidateQueries [JStr ''bookings''] (invalidateQueries [JStr ''user''] c),
          show_toast (ToastSuccess ''Booking created successfully!'') w)),
       onError = (\<lambda>e variables c w.
         (c, show_toast (ToastError (error_message e ''Failed to create booking'')) w))\<rparr>"

definition useCancelBooking :: "(string, 'd, 'a) mutation" where
  "useCancelBooking =
     useMutation \<lparr>
       mutationFn = cancelBooking,
       onSuccess = (\<lambda>r variables c w.
         (invalidateQueries [JStr ''bookings''] (invalidateQueries [JStr ''user''] c),
          show_toast (ToastSuccess ''Booking cancelled successfully!'') w)),
       onError = (\<lambda>e variables c w.
         (c, show_toast (ToastError (error_message e ''Failed to cancel booking'')) w))\<rparr>"

section \<open>useAdmin.js\<close>

definition useUsers :: "json option \<Rightarrow> ('d, 'a) query_hook" where
  "useUsers params' =
     (let params = default_arg (JObj []) params' in
      useQuery \<lparr>queryKey = [JStr ''users'', params],
                queryFn = (\<lambda>be. getAllUsers be (Some params)),
                staleTime = 5 * 60 * 1000,
                enabled = True\<rparr>)"

definition useUser :: "string option \<Rightarrow> ('d, 'a) query_hook" where
  "useUser id' =
     useQuery \<lparr>queryKey = [JStr ''user'', key_of_id id'],
               queryFn = (\<lambda>be. getUser be (url_of_id id')),
               staleTime = 5 * 60 * 1000,
               enabled = truthy id'\<rparr>"

definition useUpdateUser :: "(string \<times> json, 'd, 'a) mutation" where
  "useUpdateUser =
     useMutation \<lparr>
       mutationFn = (\<lambda>be (id', data'). updateUser be id' data'),
       onSuccess = (\<lambda>r variables c w.
         (invalidateQueries [JStr ''user'', JStr (fst variables)] (invalidateQueries [JStr ''users''] c),
          show_toast (ToastSuccess ''User updated successfully!'') w)),
       onError = (\<lambda>e variables c w.
         (c, show_toast (ToastError (error_message e ''Failed to update user'')) w))\<rparr>"

definition useDeleteUser :: "(string, 'd, 'a) mutation" where
  "useDeleteUser =
     useMutation \<lparr>
       mutationFn = deleteUser,
       onSuccess = (\<lambda>r variables c w.
         (invalidateQueries [JStr ''users''] c,
          show_toast (ToastSuccess ''User deleted successfully!'') w)),
       onError = (\<lambda>e variables c w.
         (c, show_toast (ToastError (error_message e ''Failed to delete user'')) w))\<rparr>"

section \<open>The hooks as an interface\<close>

text \<open>
  What a page can ask of the hooks, as data: the queries it can observe and
  the mutations it can call. \<open>observe\<close> and \<open>mutate\<close> dispatch to the hooks.
  The tables after them are the specification of the hooks: the key, the
  request, the stale time and the enabling condition of each query; the
  request, the invalidated keys and the two messages of each mutation.
\<close>

datatype query_call =
    Bikes "json option"
  | Bike "string option"
  | TopCheapBikes
  | BikeStats
  | Users "json option"
  | User "string option"

fun observe :: "query_call \<Rightarrow> ('d, 'a) query_hook" where
  "observe (Bikes params') = useBikes params'"
| "observe (Bike id') = useBike id'"
| "observe TopCheapBikes = useTopCheapBikes"
| "observe BikeStats = useBikeStats"
| "observe (Users params') = useUsers params'"
| "observe (User id') = useUser id'"

fun key_of :: "query_call \<Rightarrow> query_key" where
  "key_of (Bikes params') = [JStr ''bikes'', default_arg (JObj []) params']"
| "key_of (Bike id') = [JStr ''bike'', key_of_id id']"
| "key_of TopCheapBikes = [JStr ''bikes'', JStr ''top-cheap'']"
| "key_of BikeStats = [JStr ''bikes'', JStr ''stats'']"
| "key_of (Users params') = [JStr ''users'', default_arg (JObj []) params']"
| "key_of (User id') = [JStr ''user'', key_of_id id']"

fun query_request :: "query_call \<Rightarrow> request" where
  "query_request (Bikes params') = api_get ''/bikes'' (Some (default_arg (JObj []) params'))"
| "query_request (Bike id') = api_get (''/bikes/'' @ url_of_id id') None"
| "query_request TopCheapBikes = api_get ''/bikes/top-5-cheap'' None"
| "query_request BikeStats = api_get ''/bikes/bike-stats'' None"
| "query_request (Users params') = api_get ''/users'' (Some (default_arg (JObj []) params'))"
| "query_request (User id') = api_get (''/users/'' @ url_of_id id') None"

fun stale_after :: "query_call \<Rightarrow> nat" where
  "stale_after TopCheapBikes = 600000"
| "stale_after BikeStats = 600000"
| "stale_after _ = 300000"

fun is_enabled :: "query_call \<Rightarrow> bool" where
  "is_enabled (Bike id') = truthy id'"
| "is_enabled (User id') = truthy id'"
| "is_enabled _ = True"

definition options_of :: "query_call \<Rightarrow> ('d, 'a) query_options" where
  "options_of qc = \<lparr>queryKey = key_of qc, queryFn = (\<lambda>be. send be (query_request qc)),
     staleTime = stale_after qc, enabled = is_enabled qc\<rparr>"

datatype mutation_call =
    CreateBike json
  | UpdateBike string json
  | DeleteBike string
  | ReclusterBikes
  | CreateBooking json
  | CancelBooking string
  | UpdateUser string json
  | DeleteUser string

fun mutate :: "mutation_call \<Rightarrow> 'd backend \<Rightarrow> ('d, 'a) query_cache \<Rightarrow> 'a window_scheme \<Rightarrow>
   'd body outcome \<times> ('d, 'a) query_cache \<times> 'a window_scheme" where
  "mutate (CreateBike bikeData) be = useCreateBike be bikeData"
| "mutate (UpdateBike id' data') be = useUpdateBike be (id', data')"
| "mutate (DeleteBike id') be = useDeleteBike be id'"
| "mutate ReclusterBikes be = useReclusterBikes be ()"
| "mutate (CreateBooking bookingData) be = useCreateBooking be bookingData"
| "mutate (CancelBooking id') be = useCancelBooking be id'"
| "mutate (UpdateUser id' data') be = useUpdateUser be (id', data')"
| "mutate (DeleteUser id') be = useDeleteUser be id'"

fun request_of :: "mutation_call \<Rightarrow> request" where
  "request_of (CreateBike bikeData) = api_post ''/bikes'' (Some bikeData)"
| "request_of (UpdateBike id' data') = api_patch (''/bikes/'' @ id') (Some data')"
| "request_of (DeleteBike id') = api_delete (''/bikes/'' @ id')"
| "request_of ReclusterBikes = api_post ''/bikes/recluster'' None"
| "request_of (CreateBooking bookingData) = api_post ''/bookings'' (Some bookingData)"
| "request_of (CancelBooking id') = api_patch (''/bookings/cancel/'' @ id') None"
| "request_of (UpdateUser id' data') = api_patch (''/users/'' @ id') (Some data')"
| "request_of (DeleteUser id') = api_delete (''/users/'' @ id')"

fun invalidated_by :: "mutation_call \<Rightarrow> query_key list" where
  "invalidated_by (CreateBike bikeData) = [[JStr ''bikes'']]"
| "invalidated_by (UpdateBike id' data') = [[JStr ''bikes''], [JStr ''bike'', JStr id']]"
| "invalidated_by (DeleteBike id') = [[JStr ''bikes'']]"
| "invalidated_by ReclusterBikes = [[JStr ''bikes'']]"
| "invalidated_by (CreateBooking bookingData) = [[JStr ''user''], [JStr ''bookings'']]"
| "invalidated_by (CancelBooking id') = [[JStr ''user''], [JStr ''bookings'']]"
| "invalidated_by (UpdateUser id' data') = [[JStr ''users''], [JStr ''user'', JStr id']]"
| "invalidated_by (DeleteUser id') = [[JStr ''users'']]"

fun success_message :: "mutation_call \<Rightarrow> string" where
  "success_message (CreateBike bikeData) = ''Bike created successfully!''"
| "success_message (UpdateBike id' data') = ''Bike updated successfully!''"
| "success_message (DeleteBike id') = ''Bike deleted successfully!''"
| "success_message ReclusterBikes = ''Bikes reclustered successfully!''"
| "success_message (CreateBooking bookingData) = ''Booking created successfully!''"
| "success_message (CancelBooking id') = ''Booking cancelled successfully!''"
| "success_message (UpdateUser id' data') = ''User updated successfully!''"
| "success_message (DeleteUser id') = ''User deleted successfully!''"

fun failure_message :: "mutation_call \<Rightarrow> string" where
  "failure_message (CreateBike bikeData) = ''Failed to create bike''"
| "failure_message (UpdateBike id' data') = ''Failed to update bike''"
| "failure_message (DeleteBike id') = ''Failed to delete bike''"
| "failure_message ReclusterBikes = ''Failed to recluster bikes''"
| "failure_message (CreateBooking bookingData) = ''Failed to create booking''"
| "failure_message (CancelBooking id') = ''Failed to cancel booking''"
| "failure_message (UpdateUser id' data') = ''Failed to update user''"
| "failure_message (DeleteUser id') = ''Failed to delete user''"

definition invalidate_keys :: "query_key list \<Rightarrow> ('d, 'a) query_cache \<Rightarrow> ('d, 'a) query_cache" where
  "invalidate_keys ks c = foldl (\<lambda>c k. invalidateQueries k c) c ks"

section \<open>Well-formed caches\<close>

text \<open>
  The invariant of a query: its status agrees with its data and its error, a
  fetch in flight has failed at most \<open>retry\<close> times, and a query is fetching
  only while it is pending or has data to show. A cache is well formed when
  its keys are distinct and its queries are. \<open>pending_attempts\<close> bounds the
  requests a fetch in flight can still send. \<open>cached\<close> holds of the caches the
  operations of this theory can produce from the empty one.
\<close>

definition query_wf :: "default_options \<Rightarrow> ('d, 'a) query \<Rightarrow> bool" where
  "query_wf cfg q \<longleftrightarrow>
     (q_status q = StatusPending \<longrightarrow> q_data q = None \<and> q_error q = None) \<and>
     (q_status q = StatusSuccess \<longrightarrow> q_data q \<noteq> None \<and> q_error q = None) \<and>
     (q_status q = StatusError \<longrightarrow> q_error q \<noteq> None) \<and>
     (fetchStatus q = Fetching \<longrightarrow> fetchFailureCount q \<le> retry cfg) \<and>
     (fetchStatus q = Fetching \<longrightarrow> q_status q = StatusPending \<or> q_data q \<noteq> None)"

definition cache_wf :: "default_options \<Rightarrow> ('d, 'a) query_cache \<Rightarrow> bool" where
  "cache_wf cfg c \<longleftrightarrow> distinct (map fst c) \<and> list_all (\<lambda>(k, q). query_wf cfg q) c"

definition pending_attempts :: "default_options \<Rightarrow> query_key \<Rightarrow> ('d, 'a) query_cache \<Rightarrow> nat" where
  "pending_attempts cfg key c =
     (case map_of c key of
        None \<Rightarrow> 0
      | Some q \<Rightarrow> if fetchStatus q = Fetching then Suc (retry cfg) - fetchFailureCount q else 0)"

inductive cached :: "default_options \<Rightarrow> ('d, 'a) query_cache \<Rightarrow> bool" for cfg where
  empty: "cached cfg []"
| render: "cached cfg c \<Longrightarrow> cached cfg (snd (useQuery opts now prev c))"
| request: "cached cfg c \<Longrightarrow> cached cfg (fst (attempt cfg be now key c w))"
| focus: "cached cfg c \<Longrightarrow> cached cfg (onFocus cfg stale now c)"
| mutated: "cached cfg c \<Longrightarrow> cached cfg (fst (snd (mutate m be c w)))"

section \<open>Well-formedness is preserved\<close>

text \<open>
  Every operation on a query keeps \<open>query_wf\<close>, every operation on the cache
  keeps \<open>cache_wf\<close>.
\<close>

lemma query_wf_build [simp]: "query_wf cfg (build fn)"
  by (simp add: query_wf_def build_def)

lemma query_wf_fetch [simp]: "query_wf cfg q \<Longrightarrow> query_wf cfg (fetch b q)"
  by (auto simp: query_wf_def fetch_def split: query_status.splits)

lemma query_wf_observers [simp]: "query_wf cfg (q\<lparr>observers := n\<rparr>) = query_wf cfg q"
  by (simp add: query_wf_def)

lemma query_wf_q_fn [simp]: "query_wf cfg (q\<lparr>q_fn := f\<rparr>) = query_wf cfg q"
  by (simp add: query_wf_def)

lemma query_wf_set_success [simp]: "query_wf cfg (set_success d now q)"
  by (simp add: query_wf_def set_success_def)

lemma query_wf_set_error [simp]: "query_wf cfg (set_error e q)"
  by (simp add: query_wf_def set_error_def)

lemma query_wf_set_failed [simp]:
  "query_wf cfg q \<Longrightarrow> fetchFailureCount q < retry cfg \<Longrightarrow> query_wf cfg (set_failed q)"
  by (auto simp: query_wf_def set_failed_def split: query_status.splits)

lemma query_wf_invalidate [simp]: "query_wf cfg q \<Longrightarrow> query_wf cfg (invalidate q)"
proof -
  assume "query_wf cfg q"
  then have "query_wf cfg (q\<lparr>isInvalidated := True\<rparr>)" by (simp add: query_wf_def)
  then show ?thesis by (simp add: invalidate_def Let_def)
qed

lemma cache_wf_Nil [simp]: "cache_wf cfg []"
  by (simp add: cache_wf_def)

lemma cache_wf_lookup: "cache_wf cfg c \<Longrightarrow> map_of c k = Some q \<Longrightarrow> query_wf cfg q"
  by (auto simp: cache_wf_def list_all_iff dest!: map_of_SomeD)

lemma cache_wf_update [simp]:
  "cache_wf cfg c \<Longrightarrow> query_wf cfg q \<Longrightarrow> cache_wf cfg (AList.update k q c)"
  by (simp add: cache_wf_def distinct_update list_all_update)

lemma query_wf_addObserver [simp]: "query_wf cfg q \<Longrightarrow> query_wf cfg (addObserver opts now q)"
  by (simp add: addObserver_def Let_def)

lemma query_wf_removeObserver [simp]: "query_wf cfg (removeObserver q) = query_wf cfg q"
  by (simp add: removeObserver_def)

lemma cache_wf_subscribe [simp]: "cache_wf cfg c \<Longrightarrow> cache_wf cfg (subscribe opts now c)"
  by (auto simp: subscribe_def Let_def cache_wf_lookup split: option.splits)

lemma cache_wf_unsubscribe [simp]: "cache_wf cfg c \<Longrightarrow> cache_wf cfg (unsubscribe k c)"
  by (auto simp: unsubscribe_def cache_wf_lookup split: option.splits)

lemma cache_wf_useQuery [simp]: "cache_wf cfg c \<Longrightarrow> cache_wf cfg (snd (useQuery opts now prev c))"
  by (simp add: useQuery_def Let_def split: option.splits)

lemma cache_wf_invalidateQueries [simp]:
  "cache_wf cfg c \<Longrightarrow> cache_wf cfg (invalidateQueries fk c)"
  by (auto simp: cache_wf_def invalidateQueries_def list_all_iff)

lemma cache_wf_onFocus [simp]: "cache_wf cfg c \<Longrightarrow> cache_wf cfg (onFocus cfg' stale now c)"
  by (auto simp: cache_wf_def onFocus_def list_all_iff)

lemma cache_wf_attempt [simp]:
  "cache_wf cfg c \<Longrightarrow> cache_wf cfg (fst (attempt cfg be now key c w))"
  by (auto simp: attempt_def cache_wf_lookup split: option.splits prod.splits outcome.splits)

lemma attempts_Cons:
  "attempts cfg ((be, now) # bs) key c w =
     attempts cfg bs key (fst (attempt cfg be now key c w)) (snd (attempt cfg be now key c w))"
  by (simp split: prod.splits)

lemma cache_wf_attempts [simp]:
  "cache_wf cfg c \<Longrightarrow> cache_wf cfg (fst (attempts cfg bs key c w))"
  by (induction bs arbitrary: c w) (auto simp: attempts_Cons simp del: attempts.simps(2))

section \<open>The cache as a finite map\<close>

text \<open>
  Read through \<open>map_of\<close>, the operations are updates of a finite map: they
  change the query of one key, or the queries of the matching keys, and
  never add or lose another key.
\<close>

lemma lookup_invalidateQueries:
  "map_of (invalidateQueries fk c) k =
     map_option (\<lambda>q. if prefix fk k then invalidate q else q) (map_of c k)"
  by (simp add: invalidateQueries_def partialMatchKey_def map_of_map_values)

lemma keys_invalidateQueries [simp]: "map fst (invalidateQueries fk c) = map fst c"
  by (simp add: invalidateQueries_def)

lemma lookup_subscribe:
  "map_of (subscribe opts now c) =
     (map_of c)(queryKey opts \<mapsto>
        addObserver opts now (case map_of c (queryKey opts) of None \<Rightarrow> build (queryFn opts) | Some q \<Rightarrow> q))"
  by (simp add: subscribe_def update_conv')

lemma lookup_unsubscribe:
  "map_of (unsubscribe key c) k =
     (if k = key then map_option removeObserver (map_of c key) else map_of c k)"
  by (simp add: unsubscribe_def update_conv' split: option.splits)

lemma lookup_attempt_other:
  "k \<noteq> key \<Longrightarrow> map_of (fst (attempt cfg be now key c w)) k = map_of c k"
  by (simp add: attempt_def update_conv' split: option.splits prod.splits outcome.splits)

lemma addObserver_build:
  "enabled opts \<Longrightarrow>
   addObserver opts now (build fn) = (build (queryFn opts))\<lparr>fetchStatus := Fetching, observers := 1\<rparr>"
  by (simp add: addObserver_def build_def isStale_def fetch_def)

lemma addObserver_disabled: "\<not> enabled opts \<Longrightarrow> addObserver opts now q = q\<lparr>q_fn := queryFn opts\<rparr>"
  by (simp add: addObserver_def)

lemma addObserver_fresh:
  "enabled opts \<Longrightarrow> \<not> isStale (staleTime opts) now q \<Longrightarrow>
   addObserver opts now q = q\<lparr>q_fn := queryFn opts, observers := Suc (observers q)\<rparr>"
  by (auto simp: addObserver_def isStale_def Let_def)

lemma addObserver_stale:
  "enabled opts \<Longrightarrow> isStale (staleTime opts) now q \<Longrightarrow>
   addObserver opts now q = fetch False (q\<lparr>q_fn := queryFn opts, observers := Suc (observers q)\<rparr>)"
  by (simp add: addObserver_def isStale_def)

section \<open>Requests and retries\<close>

text \<open>
  The branches of one request, and the measure \<open>pending_attempts\<close>, which
  every request of a fetch in flight decreases.
\<close>

lemma attempt_absent [simp]: "map_of c key = None \<Longrightarrow> attempt cfg be now key c w = (c, w)"
  by (simp add: attempt_def)

lemma attempt_idle [simp]:
  "map_of c key = Some q \<Longrightarrow> fetchStatus q = Idle \<Longrightarrow> attempt cfg be now key c w = (c, w)"
  by (simp add: attempt_def)

lemma attempt_fetching:
  "map_of c key = Some q \<Longrightarrow> fetchStatus q = Fetching \<Longrightarrow>
   attempt cfg be now key c w =
     (AList.update key
        (case fst (q_fn q be w) of
           Resolved (Some d) \<Rightarrow> set_success d now q
         | Resolved None \<Rightarrow> set_error None q
         | Rejected e \<Rightarrow> if fetchFailureCount q < retry cfg then set_failed q else set_error e q) c,
      snd (q_fn q be w))"
  by (simp add: attempt_def split: option.splits prod.splits outcome.splits)

lemma attempt_window:
  "snd (attempt cfg be now key c w) =
     (case map_of c key of
        None \<Rightarrow> w
      | Some q \<Rightarrow> if fetchStatus q = Fetching then snd (q_fn q be w) else w)"
  by (simp add: attempt_def split: option.splits prod.splits outcome.splits)

lemma pending_attempts_bound: "pending_attempts cfg key c \<le> Suc (retry cfg)"
  by (simp add: pending_attempts_def split: option.splits)

lemma pending_attempts_0_iff:
  "cache_wf cfg c \<Longrightarrow>
   pending_attempts cfg key c = 0 \<longleftrightarrow> (\<forall>q. map_of c key = Some q \<longrightarrow> fetchStatus q = Idle)"
  by (auto simp: pending_attempts_def query_wf_def split: option.splits fetch_status.splits
      dest!: cache_wf_lookup) (metis fetch_status.exhaust)+

lemma attempt_decreases:
  "pending_attempts cfg key (fst (attempt cfg be now key c w)) \<le> pending_attempts cfg key c - 1"
proof (cases "map_of c key")
  case (Some q)
  show ?thesis
  proof (cases "fetchStatus q")
    case Fetching
    with Some show ?thesis
      by (simp add: attempt_fetching pending_attempts_def update_conv' set_success_def
          set_error_def set_failed_def split: outcome.splits option.splits)
  qed (use Some in \<open>simp add: pending_attempts_def\<close>)
qed (simp add: pending_attempts_def)

lemma attempts_decrease:
  "pending_attempts cfg key (fst (attempts cfg bs key c w)) \<le> pending_attempts cfg key c - length bs"
proof (induction bs arbitrary: c w)
  case (Cons b bs)
  obtain be now where b: "b = (be, now)" by (cases b)
  have "pending_attempts cfg key (fst (attempts cfg (b # bs) key c w))
        \<le> pending_attempts cfg key (fst (attempt cfg be now key c w)) - length bs"
    by (simp add: b attempts_Cons Cons.IH del: attempts.simps(2))
  also have "\<dots> \<le> pending_attempts cfg key c - 1 - length bs"
    using attempt_decreases [of cfg key be now c w] by simp
  finally show ?case by simp
qed simp

lemma attempts_settled:
  "retry cfg < length bs \<Longrightarrow> pending_attempts cfg key (fst (attempts cfg bs key c w)) = 0"
  using attempts_decrease [of cfg key bs c w] pending_attempts_bound [of cfg key c] by simp

lemma attempts_append:
  "attempts cfg (bs @ bs') key c w =
     attempts cfg bs' key (fst (attempts cfg bs key c w)) (snd (attempts cfg bs key c w))"
  by (induction bs arbitrary: c w) (auto split: prod.splits)

lemma attempt_settled [simp]:
  "cache_wf cfg c \<Longrightarrow> pending_attempts cfg key c = 0 \<Longrightarrow> attempt cfg be now key c w = (c, w)"
  by (cases "map_of c key") (simp_all add: pending_attempts_0_iff)

lemma attempts_settled_id [simp]:
  "cache_wf cfg c \<Longrightarrow> pending_attempts cfg key c = 0 \<Longrightarrow> attempts cfg bs key c w = (c, w)"
  by (induction bs) auto

section \<open>The hooks against their tables\<close>

text \<open>
  \<open>mutate_eq\<close> and \<open>observe_eq\<close> are the refinement lemmas of the hooks: every
  mutation hook is its one request followed by the invalidations and the
  toast of its table, every query hook is \<open>useQuery\<close> on the options of its
  table.
\<close>

lemmas query_hook_defs = useBikes_def useBike_def useTopCheapBikes_def useBikeStats_def
  useUsers_def useUser_def

lemmas mutation_hook_defs = useCreateBike_def useUpdateBike_def useDeleteBike_def
  useReclusterBikes_def useCreateBooking_def useCancelBooking_def useUpdateUser_def
  useDeleteUser_def

lemma failure_message_nonempty [simp]: "failure_message m \<noteq> []"
  by (cases m) simp_all

lemma useMutation_send:
  "mutationFn opts = (\<lambda>be v. send be (rq v)) \<Longrightarrow>
   useMutation opts be v c w =
     (case be (rq v) of
        Resolved r \<Rightarrow> (Resolved r, onSuccess opts r v c w)
      | Rejected e \<Rightarrow> (Rejected e, onError opts e v c (response_error_interceptor e w)))"
  by (simp add: useMutation_def send_eq split: outcome.splits)

lemma mutate_eq:
  "mutate m be c w =
     (case be (request_of m) of
        Resolved r \<Rightarrow>
          (Resolved r, invalidate_keys (invalidated_by m) c,
           show_toast (ToastSuccess (success_message m)) w)
      | Rejected e \<Rightarrow>
          (Rejected e, c,
           show_toast (ToastError (error_message e (failure_message m)))
             (response_error_interceptor e w)))"
  by (cases m)
     (simp_all add: mutation_hook_defs useMutation_def service_defs send_eq invalidate_keys_def
       split: outcome.splits)

declare mutate.simps [simp del]

lemma invalidate_idem [simp]: "invalidate (invalidate q) = invalidate q"
  by (simp add: invalidate_def isActive_def fetch_def Let_def)

lemma lookup_invalidate_keys:
  "map_of (invalidate_keys ks c) k =
     map_option (\<lambda>q. if \<exists>fk\<in>set ks. prefix fk k then invalidate q else q) (map_of c k)"
proof (induction ks arbitrary: c)
  case (Cons fk ks)
  show ?case
    using Cons.IH [of "invalidateQueries fk c"]
    by (cases "map_of c k") (auto simp: invalidate_keys_def lookup_invalidateQueries)
qed (simp add: invalidate_keys_def option.map_ident)

lemma keys_invalidate_keys [simp]: "map fst (invalidate_keys ks c) = map fst c"
  by (induction ks arbitrary: c) (simp_all add: invalidate_keys_def)

lemma cache_wf_invalidate_keys [simp]: "cache_wf cfg c \<Longrightarrow> cache_wf cfg (invalidate_keys ks c)"
  by (induction ks arbitrary: c) (simp_all add: invalidate_keys_def)

lemma cache_wf_mutate [simp]: "cache_wf cfg c \<Longrightarrow> cache_wf cfg (fst (snd (mutate m be c w)))"
  by (simp add: mutate_eq split: outcome.splits)

lemma getResult_absent [simp]:
  "map_of c key = None \<Longrightarrow>
   getResult key c = \<lparr>data = None, isLoading = False, isFetching = False, error = None\<rparr>"
  by (simp add: getResult_def)

lemma getResult_Some:
  "map_of c key = Some q \<Longrightarrow>
   getResult key c = \<lparr>data = q_data q,
     isLoading = (q_status q = StatusPending \<and> fetchStatus q = Fetching),
     isFetching = (fetchStatus q = Fetching), error = q_error q\<rparr>"
  by (simp add: getResult_def)

lemma useQuery_mount:
  "useQuery opts now None c = (getResult (queryKey opts) (subscribe opts now c), subscribe opts now c)"
  by (simp add: useQuery_def Let_def)

lemma useQuery_same:
  "useQuery opts now (Some (queryKey opts)) c = (getResult (queryKey opts) c, c)"
  by (simp add: useQuery_def)

lemma useQuery_moved:
  "k \<noteq> queryKey opts \<Longrightarrow>
   useQuery opts now (Some k) c =
     (getResult (queryKey opts) (subscribe opts now (unsubscribe k c)),
      subscribe opts now (unsubscribe k c))"
  by (simp add: useQuery_def Let_def)

lemma cached_wf: "cached cfg c \<Longrightarrow> cache_wf cfg c"
  by (induction rule: cached.induct) simp_all

lemma cache_wf_result:
  assumes "cache_wf cfg c"
  shows "(isLoading (getResult key c) \<longrightarrow>
            isFetching (getResult key c) \<and> data (getResult key c) = None \<and> error (getResult key c) = None) \<and>
         (isFetching (getResult key c) \<longrightarrow> pending_attempts cfg key c \<noteq> 0)"
proof (cases "map_of c key")
  case (Some q)
  with assms have "query_wf cfg q" by (rule cache_wf_lookup)
  with Some show ?thesis
    by (auto simp: getResult_Some query_wf_def pending_attempts_def)
qed simp

lemma options_of_simps [simp]:
  "queryKey (options_of qc) = key_of qc"
  "queryFn (options_of qc) = (\<lambda>be. send be (query_request qc))"
  "staleTime (options_of qc) = stale_after qc"
  "enabled (options_of qc) = is_enabled qc"
  by (simp_all add: options_of_def)

lemma observe_eq: "observe qc = useQuery (options_of qc)"
  by (cases qc)
     (simp_all add: observe.simps query_hook_defs options_of_def service_defs Let_def fun_eq_iff
        getTopCheapBikes_def [abs_def] getBikeStats_def [abs_def])

declare observe.simps [simp del]

lemma build_fields [simp]:
  "q_fn (build fn) = fn" "q_data (build fn) = None" "q_error (build fn) = None"
  "q_status (build fn) = StatusPending" "fetchStatus (build fn) = Idle"
  "fetchFailureCount (build fn) = 0" "dataUpdatedAt (build fn) = 0"
  "isInvalidated (build fn) = False" "observers (build fn) = 0"
  by (simp_all add: build_def)

lemma key_of_id_inject [simp]: "key_of_id a = key_of_id b \<longleftrightarrow> a = b"
  by (auto simp: key_of_id_def split: option.splits)

lemma prefix_singleton_key [simp]: "prefix [a] (b # k) \<longleftrightarrow> a = b"
  by simp

section \<open>Properties of the hooks\<close>

text \<open>
  C11: what a mutation does. On success the caller gets the answer, one
  success toast is shown, and exactly the cached queries whose key begins
  with one of the keys of the hook are invalidated. On failure the cache is
  left alone and the user is shown the toast of the hook after the toast of
  the interceptor: two error toasts for one failure, unless the status is
  401.
\<close>

theorem mutation_outcome:
  "(case be (request_of m) of
      Resolved r \<Rightarrow>
        fst (mutate m be c w) = Resolved r \<and>
        snd (snd (mutate m be c w)) = show_toast (ToastSuccess (success_message m)) w \<and>
        (\<forall>k. map_of (fst (snd (mutate m be c w))) k =
           map_option (\<lambda>q. if \<exists>fk\<in>set (invalidated_by m). prefix fk k then invalidate q else q)
             (map_of c k))
    | Rejected e \<Rightarrow>
        fst (mutate m be c w) = Rejected e \<and>
        fst (snd (mutate m be c w)) = c \<and>
        pathname (snd (snd (mutate m be c w))) = pathname w \<and>
        toasts (snd (snd (mutate m be c w))) =
          toasts w @ (if error_status e = Some 401 then []
                      else [ToastError (error_message e ''Something went wrong!'')])
                   @ [ToastError (error_message e (failure_message m))])"
  by (simp add: mutate_eq lookup_invalidate_keys split: outcome.splits)

theorem mutation_outcome_witness:
  "toasts (snd (snd (mutate (DeleteBike ''42'') (\<lambda>rq. Rejected None)
     ([] :: (unit, unit) query_cache) \<lparr>pathname = ''/admin/bikes'', pending_href = None, toasts = []\<rparr>)))
   = [ToastError ''Something went wrong!'', ToastError ''Failed to delete bike'']"
  using mutation_outcome [where be = "\<lambda>rq. Rejected None" and m = "DeleteBike ''42''"
      and c = "[] :: (unit, unit) query_cache"
      and w = "\<lparr>pathname = ''/admin/bikes'', pending_href = None, toasts = []\<rparr>"]
  by simp

text \<open>
  C12: the invariant of the cache. Every cache that renders, requests,
  refocusing and mutations can produce from the empty cache is well formed;
  hence what a hook returns is consistent: a loading result is fetching and
  has neither data nor error, and a fetching query still has a request to
  send.
\<close>

theorem cached_invariant:
  assumes "cached cfg c"
  shows "cache_wf cfg c \<and>
         (isLoading (getResult key c) \<longrightarrow>
            isFetching (getResult key c) \<and> data (getResult key c) = None \<and> error (getResult key c) = None) \<and>
         (isFetching (getResult key c) \<longrightarrow> pending_attempts cfg key c \<noteq> 0)"
  using cached_wf [OF assms] cache_wf_result [of cfg c key] by simp

theorem cached_invariant_witness:
  "cached queryClient (snd (observe (Bikes None) 0 None ([] :: (unit, unit) query_cache))) \<and>
   cache_wf queryClient (snd (observe (Bikes None) 0 None ([] :: (unit, unit) query_cache)))"
proof -
  have *: "cached queryClient (snd (observe (Bikes None) 0 None ([] :: (unit, unit) query_cache)))"
    unfolding observe_eq by (rule cached.render [OF cached.empty])
  from cached_invariant [OF *, where key = "[]"] * show ?thesis by simp
qed

text \<open>
  C13: a failing query. A hook that starts to observe a query that is not in
  the cache reports loading. When the backend rejects the request and its
  one retry, both rejections pass the error interceptor, so the user is
  shown two error toasts for one failed query (none for status 401, which
  schedules the load of \<^verbatim>\<open>/login\<close> and is retried all the same); the hook then
  reports the second error and no data.
\<close>

theorem failing_query_toasts_twice:
  assumes "map_of c (key_of qc) = None" and "is_enabled qc"
    and "be1 (query_request qc) = Rejected e1" and "be2 (query_request qc) = Rejected e2"
  shows "isLoading (fst (observe qc now None c)) \<and>
         (case attempts queryClient [(be1, t1), (be2, t2)] (key_of qc) (snd (observe qc now None c)) w of
            (c', w') \<Rightarrow>
              getResult (key_of qc) c' =
                \<lparr>data = None, isLoading = False, isFetching = False, error = Some e2\<rparr> \<and>
              w' = response_error_interceptor e2 (response_error_interceptor e1 w) \<and>
              (error_status e1 \<noteq> Some 401 \<and> error_status e2 \<noteq> Some 401 \<longrightarrow>
                 toasts w' = toasts w @ [ToastError (error_message e1 ''Something went wrong!''),
                                         ToastError (error_message e2 ''Something went wrong!'')]))"
  using assms
  by (simp add: observe_eq useQuery_mount lookup_subscribe addObserver_build getResult_Some
      attempt_fetching update_conv' queryClient_def send_eq set_failed_def set_error_def)

theorem failing_query_toasts_twice_witness:
  "toasts (snd (attempts queryClient
       [(\<lambda>rq. Rejected None, 10), (\<lambda>rq. Rejected None, 1010)] (key_of (Bikes None))
       (snd (observe (Bikes None) 0 None ([] :: (unit, unit) query_cache)))
       \<lparr>pathname = ''/bikes'', pending_href = None, toasts = []\<rparr>))
   = [ToastError ''Something went wrong!'', ToastError ''Something went wrong!'']"
  using failing_query_toasts_twice [where c = "[] :: (unit, unit) query_cache" and qc = "Bikes None"
      and ?be1.0 = "\<lambda>rq. Rejected None" and ?e1.0 = None and ?be2.0 = "\<lambda>rq. Rejected None"
      and ?e2.0 = None and now = 0 and ?t1.0 = 10 and ?t2.0 = 1010
      and w = "\<lparr>pathname = ''/bikes'', pending_href = None, toasts = []\<rparr>"]
  by (simp split: prod.splits)

text \<open>
  C14: a deleted bike is still served. \<^verbatim>\<open>useDeleteBike\<close> invalidates the lists
  of bikes but not the query of the bike itself: a component that shows the
  bike within five minutes of the last fetch gets the cached bike, and the
  backend is not asked.
\<close>

theorem deleted_bike_still_served:
  assumes "be (request_of (DeleteBike i)) = Resolved r"
    and "map_of c (key_of (Bike (Some i))) = Some q" and "i \<noteq> []"
    and "fetchStatus q = Idle" and "\<not> isStale 300000 now q"
  shows "(let c' = fst (snd (mutate (DeleteBike i) be c w));
              res = fst (observe (Bike (Some i)) now None c')
          in data res = q_data q \<and> data res \<noteq> None \<and> \<not> isFetching res \<and> \<not> isLoading res)"
  using assms
  by (simp add: mutate_eq lookup_invalidate_keys observe_eq useQuery_mount lookup_subscribe
      getResult_Some addObserver_fresh isStale_def key_of_id_def split: outcome.splits)

theorem deleted_bike_still_served_witness:
  "data (fst (observe (Bike (Some ''42'')) 1000 None
     (fst (snd (mutate (DeleteBike ''42'') (\<lambda>rq. Resolved None)
        [(key_of (Bike (Some ''42'')),
          (build (\<lambda>be. send be (query_request (Bike (Some ''42'')))))
             \<lparr>q_data := Some \<lparr>env_status = ''success'', env_data = Some ()\<rparr>,
              q_status := StatusSuccess, dataUpdatedAt := 500\<rparr>)]
        \<lparr>pathname = ''/admin/bikes'', pending_href = None, toasts = []\<rparr>)))))
   = Some \<lparr>env_status = ''success'', env_data = Some ()\<rparr>"
  using deleted_bike_still_served [where be = "\<lambda>rq. Resolved None" and i = "''42''" and r = None
      and now = 1000
      and q = "(build (\<lambda>be. send be (query_request (Bike (Some ''42'')))))
             \<lparr>q_data := Some \<lparr>env_status = ''success'', env_data = Some ()\<rparr>,
              q_status := StatusSuccess, dataUpdatedAt := 500\<rparr>"
      and c = "[(key_of (Bike (Some ''42'')),
          (build (\<lambda>be. send be (query_request (Bike (Some ''42'')))))
             \<lparr>q_data := Some \<lparr>env_status = ''success'', env_data = Some ()\<rparr>,
              q_status := StatusSuccess, dataUpdatedAt := 500\<rparr>)]"
      and w = "\<lparr>pathname = ''/admin/bikes'', pending_href = None, toasts = []\<rparr>"]
  by (simp add: Let_def isStale_def)

text \<open>
  C15: a fetch comes to an end. Whatever the backend answers, after more
  requests than the client retries the query is no longer fetching, and
  further requests are not sent: with the client of \<^verbatim>\<open>App.jsx\<close> a fetch costs
  at most two requests.
\<close>

theorem fetch_settles:
  assumes "cache_wf cfg c" and "retry cfg < length bs"
  shows "\<not> isFetching (getResult key (fst (attempts cfg bs key c w))) \<and>
         attempts cfg (bs @ bs') key c w = attempts cfg bs key c w"
proof -
  let ?c = "fst (attempts cfg bs key c w)"
  have wf: "cache_wf cfg ?c" using assms(1) by simp
  have 0: "pending_attempts cfg key ?c = 0" using assms(2) by (rule attempts_settled)
  with wf have "\<not> isFetching (getResult key ?c)"
    by (cases "map_of ?c key") (auto simp: getResult_Some pending_attempts_0_iff)
  moreover from wf 0 have "attempts cfg (bs @ bs') key c w = attempts cfg bs key c w"
    by (simp add: attempts_append)
  ultimately show ?thesis by simp
qed

theorem fetch_settles_witness:
  "\<not> isFetching (getResult (key_of (Bikes None))
      (fst (attempts queryClient [(\<lambda>rq. Rejected None, 10), (\<lambda>rq. Rejected None, 1010)]
         (key_of (Bikes None)) (snd (observe (Bikes None) 0 None ([] :: (unit, unit) query_cache)))
         \<lparr>pathname = ''/bikes'', pending_href = None, toasts = []\<rparr>)))"
  using fetch_settles [where cfg = queryClient
      and bs = "[(\<lambda>rq. Rejected None, 10), (\<lambda>rq. Rejected None, 1010)]"
      and c = "snd (observe (Bikes None) 0 None ([] :: (unit, unit) query_cache))"
      and key = "key_of (Bikes None)"
      and w = "\<lparr>pathname = ''/bikes'', pending_href = None, toasts = []\<rparr>"]
  by (simp add: observe_eq queryClient_def)

text \<open>
  C16: data is served from the cache while it is fresh. After a hook has
  observed a new query and its request has resolved at time \<open>t1\<close>, a component
  that mounts at time \<open>t2\<close> gets the data at once, without loading state and
  without a toast; a request is started in the background exactly when the
  stale time of the hook has passed.
\<close>

theorem fresh_data_served:
  assumes "map_of c (key_of qc) = None" and "is_enabled qc"
    and "be (query_request qc) = Resolved (Some d)"
  shows "(let c1 = snd (observe qc t0 None c);
              c2 = fst (attempt cfg be t1 (key_of qc) c1 w);
              r = observe qc t2 None (unsubscribe (key_of qc) c2)
          in data (fst r) = Some d \<and> \<not> isLoading (fst r) \<and> error (fst r) = None \<and>
             (isFetching (fst r) \<longleftrightarrow> t1 + stale_after qc \<le> t2) \<and>
             snd (attempt cfg be t1 (key_of qc) c1 w) = w)"
  using assms
  by (simp add: observe_eq useQuery_mount lookup_subscribe lookup_unsubscribe addObserver_build
      getResult_Some attempt_fetching update_conv' send_eq set_success_def removeObserver_def
      addObserver_def isStale_def fetch_def Let_def)

theorem fresh_data_served_witness:
  "data (fst (observe (Bikes None) 400000 None
     (unsubscribe (key_of (Bikes None))
        (fst (attempt queryClient (\<lambda>rq. Resolved (Some \<lparr>env_status = ''success'', env_data = Some ()\<rparr>)) 50
           (key_of (Bikes None)) (snd (observe (Bikes None) 0 None ([] :: (unit, unit) query_cache)))
           \<lparr>pathname = ''/bikes'', pending_href = None, toasts = []\<rparr>)))))
   = Some \<lparr>env_status = ''success'', env_data = Some ()\<rparr>"
  using fresh_data_served [where c = "[] :: (unit, unit) query_cache" and qc = "Bikes None"
      and be = "\<lambda>rq. Resolved (Some \<lparr>env_status = ''success'', env_data = Some ()\<rparr>)"
      and d = "\<lparr>env_status = ''success'', env_data = Some ()\<rparr>" and ?t0.0 = 0 and ?t1.0 = 50
      and ?t2.0 = 400000 and cfg = queryClient
      and w = "\<lparr>pathname = ''/bikes'', pending_href = None, toasts = []\<rparr>"]
  by (simp add: Let_def)

text \<open>
  C17: the invalidations of the booking hooks. No query hook has a key that
  begins with \<^verbatim>\<open>bookings\<close>; the keys that begin with \<^verbatim>\<open>user\<close> are those of the
  admin's single-user query. Creating or cancelling a booking therefore
  leaves every query of bikes as it was, fresh for the rest of its stale
  time.
\<close>

theorem booking_invalidation_misses:
  "\<not> prefix [JStr ''bookings''] (key_of qc) \<and>
   (prefix [JStr ''user''] (key_of qc) \<longleftrightarrow> (\<exists>i. qc = User i)) \<and>
   ((\<forall>i. qc \<noteq> User i) \<longrightarrow>
      map_of (fst (snd (mutate (CreateBooking b) be c w))) (key_of qc) = map_of c (key_of qc) \<and>
      map_of (fst (snd (mutate (CancelBooking j) be c w))) (key_of qc) = map_of c (key_of qc))"
  by (cases qc) (simp_all add: mutate_eq lookup_invalidate_keys option.map_ident split: outcome.splits)

theorem booking_invalidation_misses_witness:
  "map_of (fst (snd (mutate (CreateBooking JNull) (\<lambda>rq. Resolved None)
      (snd (observe (Bikes None) 0 None ([] :: (unit, unit) query_cache)))
      \<lparr>pathname = ''/bikes'', pending_href = None, toasts = []\<rparr>))) (key_of (Bikes None))
   = map_of (snd (observe (Bikes None) 0 None ([] :: (unit, unit) query_cache))) (key_of (Bikes None))"
  using booking_invalidation_misses [where qc = "Bikes None" and b = JNull
      and be = "\<lambda>rq. Resolved None"
      and c = "snd (observe (Bikes None) 0 None ([] :: (unit, unit) query_cache))"
      and w = "\<lparr>pathname = ''/bikes'', pending_href = None, toasts = []\<rparr>"]
  by simp

end
