(* ===== verification/Routes.thy ===== *)
theory Routes
  imports Auth
begin

text \<open>
  Routing and navigation: the route guards and the route table of
  \<^verbatim>\<open>src/frontend/src/App.jsx\<close>, the guard with the \<^verbatim>\<open>adminOnly\<close> flag of
  \<^verbatim>\<open>src/frontend/src/components/common/ProtectedRoute.jsx\<close>, and the state and
  link lists of \<^verbatim>\<open>src/frontend/src/components/layout/Header.jsx\<close>.

  A component is a function from the authentication state (what \<^verbatim>\<open>useAuth\<close>
  returns) and its children to a \<open>view\<close>. The element of a route is a small
  tree of guards and layout around a page, as the JSX of the route table
  writes it; \<open>render\<close> evaluates the tree.
\<close>

section \<open>Views and the guards\<close>

datatype page =
    LoginPage | SignupPage | OverviewPage | BikesPage | BikeDetailsPage
  | MyBookingsPage | ProfilePage | AdminDashboard | NotFoundPage

datatype view =
    Blank
  | Spinner string
  | Navigate path
  | AccessDenied
  | Pages page
  | WithHeader view

definition ProtectedRoute :: "auth_state \<Rightarrow> view \<Rightarrow> view" where
  [route_defs]: "ProtectedRoute a children =
     (if loading a then Spinner ''Authenticating...''
      else if \<not> isAuthenticated a then Navigate ''/login''
      else children)"

definition PublicRoute :: "auth_state \<Rightarrow> view \<Rightarrow> view" where
  [route_defs]: "PublicRoute a children =
     (if loading a then Spinner ''Loading...''
      else if isAuthenticated a then Navigate ''/''
      else children)"

definition Layout :: "view \<Rightarrow> view" where
  [route_defs]: "Layout children = WithHeader children"

text \<open>The guard of \<^verbatim>\<open>components/common\<close>; \<^verbatim>\<open>adminOnly\<close> defaults to false.\<close>

definition ProtectedRoute_common :: "auth_state \<Rightarrow> bool \<Rightarrow> view \<Rightarrow> view" where
  [route_defs]: "ProtectedRoute_common a adminOnly children =
     (if loading a then Spinner ''Authenticating...''
      else if \<not> isAuthenticated a then Navigate ''/login''
      else if adminOnly \<and> \<not> isAdmin (user a) then AccessDenied
      else children)"

section \<open>The route table\<close>

text \<open>
  A route pattern is a list of segments: a literal, a parameter (\<^verbatim>\<open>:id\<close>) or
  the splat \<^verbatim>\<open>*\<close>, which the router allows in last position only. The
  router compares paths segment by segment, ignoring letter case and empty
  segments (doubled or trailing slashes); a parameter takes one segment, the
  splat takes the rest, which may be empty.
\<close>

datatype seg = Static string | Dynamic string | Splat

definition segments :: "path \<Rightarrow> string list" where
  [route_defs]: "segments p = filter (\<lambda>s. s \<noteq> []) (split_on CHR ''/'' [] p)"

definition seg_eq :: "string \<Rightarrow> string \<Rightarrow> bool" where
  "seg_eq x s \<longleftrightarrow> toLowerCase x = toLowerCase s"

fun matches :: "seg list \<Rightarrow> string list \<Rightarrow> bool" where
  "matches [] xs = (xs = [])"
| "matches (Splat # ps) xs = True"
| "matches (Static s # ps) [] = False"
| "matches (Static s # ps) (x # xs) = (seg_eq x s \<and> matches ps xs)"
| "matches (Dynamic n # ps) [] = False"
| "matches (Dynamic n # ps) (x # xs) = matches ps xs"

datatype element =
    Page page
  | InLayout element
  | Protected element
  | Public element

fun render :: "auth_state \<Rightarrow> element \<Rightarrow> view" where
  "render a (Page p) = Pages p"
| "render a (InLayout e) = Layout (render a e)"
| "render a (Protected e) = ProtectedRoute a (render a e)"
| "render a (Public e) = PublicRoute a (render a e)"

definition routes :: "(seg list \<times> element) list" where
  "routes =
    [([Static ''login''], Public (Page LoginPage)),
     ([Static ''signup''], Public (Page SignupPage)),
     ([], Protected (InLayout (Page OverviewPage))),
     ([Static ''bikes''], Protected (InLayout (Page BikesPage))),
     ([Static ''bikes'', Dynamic ''id''], Protected (InLayout (Page BikeDetailsPage))),
     ([Static ''bookings''], Protected (InLayout (Page MyBookingsPage))),
     ([Static ''profile''], Protected (InLayout (Page ProfilePage))),
     ([Static ''admin'', Splat], Protected (InLayout (Page AdminDashboard))),
     ([Splat], InLayout (Page NotFoundPage))]"

definition match_route :: "path \<Rightarrow> (seg list \<times> element) option" where
  [route_defs]: "match_route p = find (\<lambda>(pat, e). matches pat (segments p)) routes"

definition route_view :: "auth_state \<Rightarrow> path \<Rightarrow> view" where
  [route_defs]: "route_view a p =
     (case match_route p of None \<Rightarrow> Blank | Some (pat, e) \<Rightarrow> render a e)"

definition AppContent :: "'a browser_scheme \<Rightarrow> view" where
  [route_defs]: "AppContent b = route_view (auth b) (pathname b)"

text \<open>The page a view puts on the screen, if any; whether a view is a redirect.\<close>

fun shown :: "view \<Rightarrow> page option" where
  "shown (Pages p) = Some p"
| "shown (WithHeader v) = shown v"
| "shown v = None"

fun is_redirect :: "view \<Rightarrow> bool" where
  "is_redirect (Navigate q) = True"
| "is_redirect v = False"

lemma is_redirect_iff: "is_redirect v \<longleftrightarrow> (\<exists>q. v = Navigate q)"
  by (cases v) auto

section \<open>Client-side navigation\<close>

text \<open>
  \<^verbatim>\<open>navigate(p)\<close> and a rendered \<^verbatim>\<open><Navigate to=p replace />\<close> change the
  location without a page load; the state cells are kept.
\<close>

definition navigate :: "path \<Rightarrow> 'a window_scheme \<Rightarrow> 'a window_scheme" where
  [route_defs]: "navigate p w = w\<lparr>pathname := p\<rparr>"

section \<open>The header\<close>

record nav_link =
  link_path :: path
  link_label :: string

definition navLinks :: "nav_link list" where
  "navLinks =
    [\<lparr>link_path = ''/'', link_label = ''Overview''\<rparr>,
     \<lparr>link_path = ''/bikes'', link_label = ''Bikes''\<rparr>,
     \<lparr>link_path = ''/bookings'', link_label = ''My Bookings''\<rparr>]"

definition adminLinks :: "nav_link list" where
  "adminLinks =
    [\<lparr>link_path = ''/admin'', link_label = ''Admin Dashboard''\<rparr>,
     \<lparr>link_path = ''/admin/bikes'', link_label = ''Manage Bikes''\<rparr>,
     \<lparr>link_path = ''/admin/users'', link_label = ''Manage Users''\<rparr>]"

text \<open>
  The links of the navigation bar (desktop and mobile menu render the same
  lists): none for a visitor, the three main links for a user, the admin
  links after them for an admin.
\<close>

definition nav_items :: "auth_state \<Rightarrow> nav_link list" where
  [route_defs]: "nav_items a =
     (if isAuthenticated a
      then navLinks @ (if isAdmin (user a) then adminLinks else [])
      else [])"

definition isActivePath :: "'a window_scheme \<Rightarrow> path \<Rightarrow> bool" where
  [route_defs]: "isActivePath w p \<longleftrightarrow> pathname w = p"

record header_state =
  isMenuOpen :: bool
  isUserMenuOpen :: bool

definition initial_header :: header_state where
  "initial_header = \<lparr>isMenuOpen = False, isUserMenuOpen = False\<rparr>"

definition toggleMenu :: "header_state \<Rightarrow> header_state" where
  [route_defs]: "toggleMenu h = h\<lparr>isMenuOpen := \<not> isMenuOpen h\<rparr>"

definition toggleUserMenu :: "header_state \<Rightarrow> header_state" where
  [route_defs]: "toggleUserMenu h = h\<lparr>isUserMenuOpen := \<not> isUserMenuOpen h\<rparr>"

definition handleLogout :: "'a browser_scheme \<Rightarrow> 'a browser_scheme" where
  [route_defs]: "handleLogout b = navigate ''/login'' (logout b)"

section \<open>The guards, case by case\<close>

lemma ProtectedRoute_simps [simp]:
  "loading a \<Longrightarrow> ProtectedRoute a v = Spinner ''Authenticating...''"
  "\<not> loading a \<Longrightarrow> \<not> isAuthenticated a \<Longrightarrow> ProtectedRoute a v = Navigate ''/login''"
  "\<not> loading a \<Longrightarrow> isAuthenticated a \<Longrightarrow> ProtectedRoute a v = v"
  by (simp_all add: ProtectedRoute_def)

lemma PublicRoute_simps [simp]:
  "loading a \<Longrightarrow> PublicRoute a v = Spinner ''Loading...''"
  "\<not> loading a \<Longrightarrow> isAuthenticated a \<Longrightarrow> PublicRoute a v = Navigate ''/''"
  "\<not> loading a \<Longrightarrow> \<not> isAuthenticated a \<Longrightarrow> PublicRoute a v = v"
  by (simp_all add: PublicRoute_def)

lemma shown_ProtectedRoute:
  "shown (ProtectedRoute a v) = (if \<not> loading a \<and> isAuthenticated a then shown v else None)"
  by (simp add: ProtectedRoute_def)

lemma shown_PublicRoute:
  "shown (PublicRoute a v) = (if \<not> loading a \<and> \<not> isAuthenticated a then shown v else None)"
  by (simp add: PublicRoute_def)

lemma Layout_simp [simp]: "Layout v = WithHeader v"
  by (simp add: Layout_def)

lemmas guard_defs = ProtectedRoute_def PublicRoute_def Layout_def

text \<open>
  With \<^verbatim>\<open>adminOnly\<close> left at its default, the
  guard of \<^verbatim>\<open>components/common/ProtectedRoute.jsx\<close> and the guard \<^verbatim>\<open>App.jsx\<close>
  declares for itself are the same function, and with \<^verbatim>\<open>adminOnly\<close> set the
  common guard differs from it exactly by answering \<open>AccessDenied\<close> to an
  authenticated user who is not an admin.
\<close>

theorem ProtectedRoute_common_agrees:
  "ProtectedRoute_common a False children = ProtectedRoute a children \<and>
   ProtectedRoute_common a True children =
     (if \<not> loading a \<and> isAuthenticated a \<and> \<not> isAdmin (user a) then AccessDenied
      else ProtectedRoute a children)"
  by (simp add: ProtectedRoute_common_def ProtectedRoute_def)

section \<open>Matching\<close>

lemma segments_evals [simp]:
  "segments ''/login'' = [''login'']"
  "segments ''/signup'' = [''signup'']"
  "segments ''/'' = []"
  by (simp_all add: segments_def)

lemma matches_Static_iff:
  "matches (Static s # ps) xs \<longleftrightarrow>
     (\<exists>x xs'. xs = x # xs' \<and> seg_eq x s \<and> matches ps xs')"
  by (cases xs) auto

lemma seg_eq_literal [simp]:
  "seg_eq (Char b0 b1 b2 b3 b4 b5 b6 b7 # x) s \<longleftrightarrow>
     toLowerCase (Char b0 b1 b2 b3 b4 b5 b6 b7 # x) = toLowerCase s"
  "seg_eq [] s \<longleftrightarrow> s = []"
  by (auto simp: seg_eq_def)

lemma matches_Dynamic_iff:
  "matches (Dynamic n # ps) xs \<longleftrightarrow> (\<exists>x xs'. xs = x # xs' \<and> matches ps xs')"
  by (cases xs) auto

lemmas matches_iffs = matches_Static_iff matches_Dynamic_iff

lemma match_route_mem: "match_route p = Some r \<Longrightarrow> r \<in> set routes"
  unfolding match_route_def by (auto dest: find_SomeD)

lemma match_route_total: "\<exists>pat e. match_route p = Some (pat, e)"
  unfolding match_route_def by (simp add: routes_def)

lemma match_route_evals [simp]:
  "match_route ''/login'' = Some ([Static ''login''], Public (Page LoginPage))"
  "match_route ''/signup'' = Some ([Static ''signup''], Public (Page SignupPage))"
  "match_route ''/'' = Some ([], Protected (InLayout (Page OverviewPage)))"
  by (simp_all add: match_route_def routes_def)

text \<open>
  C29: no path is matched by two different routes of the
  table other than the catch-all \<^verbatim>\<open>*\<close> in last position. The order in which
  the table lists its routes, and the ranking the router applies to them,
  therefore never decide which page a path leads to.
\<close>

theorem route_table_unambiguous:
  "i < j \<Longrightarrow> j < length routes - 1 \<Longrightarrow>
   \<not> (matches (fst (routes ! i)) xs \<and> matches (fst (routes ! j)) xs)"
  by (auto simp: routes_def less_Suc_eq numeral_eq_Suc matches_iffs)
    (simp_all add: seg_eq_def)

theorem route_table_unambiguous_witness:
  "(3::nat) < 4 \<and> 4 < length routes - 1 \<and>
   \<not> (matches (fst (routes ! 3)) [''bikes'', ''42''] \<and> matches (fst (routes ! 4)) [''bikes'', ''42''])"
  using route_table_unambiguous [of 3 4 "[''bikes'', ''42'']"] by (simp add: routes_def)

section \<open>What the table renders\<close>

lemma render_Navigate_cases:
  "(pat, e) \<in> set routes \<Longrightarrow> render a e = Navigate q \<Longrightarrow>
     \<not> loading a \<and> (if isAuthenticated a then q = ''/'' else q = ''/login'')"
  by (auto simp: routes_def guard_defs split: if_splits)

lemma route_view_Navigate:
  assumes "route_view a p = Navigate q"
  shows "\<not> loading a \<and> (if isAuthenticated a then q = ''/'' else q = ''/login'')"
proof -
  from assms obtain pat e where "match_route p = Some (pat, e)" "render a e = Navigate q"
    by (auto simp: route_view_def split: option.splits)
  then show ?thesis
    using match_route_mem render_Navigate_cases by blast
qed

lemma route_view_after_Navigate:
  assumes "route_view a p = Navigate q"
  shows "route_view a q =
    (if isAuthenticated a then WithHeader (Pages OverviewPage) else Pages LoginPage)"
  using route_view_Navigate [OF assms]
  by (auto simp: route_view_def guard_defs split: if_splits)

lemma shown_render_cases:
  "(pat, e) \<in> set routes \<Longrightarrow> shown (render a e) = Some pg \<Longrightarrow>
     pg = NotFoundPage \<or>
     \<not> loading a \<and> (if pg \<in> {LoginPage, SignupPage} then \<not> isAuthenticated a else isAuthenticated a)"
  by (auto simp: routes_def guard_defs split: if_splits)

text \<open>
  C4: whatever the path, the table puts a page other than the
  404 page on the screen only once the authentication probe has finished;
  the login and signup pages only for a visitor who is not authenticated, and
  every other page only for one who is.
\<close>

theorem route_guarding:
  assumes "shown (route_view a p) = Some pg" and "pg \<noteq> NotFoundPage"
  shows "\<not> loading a \<and> (isAuthenticated a \<longleftrightarrow> pg \<notin> {LoginPage, SignupPage})"
proof -
  from assms(1) obtain pat e where "match_route p = Some (pat, e)" "shown (render a e) = Some pg"
    by (auto simp: route_view_def split: option.splits)
  with assms(2) show ?thesis
    using match_route_mem [of p "(pat, e)"] shown_render_cases [of pat e a pg]
    by (auto split: if_splits)
qed

theorem route_guarding_witness:
  "shown (route_view \<lparr>user = None, loading = False, isAuthenticated = True\<rparr> ''/'') = Some OverviewPage \<and>
   OverviewPage \<noteq> NotFoundPage \<and>
   \<not> loading \<lparr>user = None, loading = False, isAuthenticated = True\<rparr> \<and>
   (isAuthenticated \<lparr>user = None, loading = False, isAuthenticated = True\<rparr>
      \<longleftrightarrow> OverviewPage \<notin> {LoginPage, SignupPage})"
  using route_guarding [of "\<lparr>user = None, loading = False, isAuthenticated = True\<rparr>" "''/''" OverviewPage]
  by (simp add: route_view_def)

section \<open>The admin area and the links of the header\<close>

lemma render_ignores_user [simp]: "render (a\<lparr>user := u\<rparr>) e = render a e"
  by (induction e) (simp_all add: guard_defs)

lemma route_view_ignores_user [simp]: "route_view (a\<lparr>user := u\<rparr>) p = route_view a p"
  by (simp add: route_view_def split: option.splits)

lemma match_route_admin:
  assumes "matches [Static ''admin'', Splat] (segments p)"
  shows "match_route p = Some ([Static ''admin'', Splat], Protected (InLayout (Page AdminDashboard)))"
proof -
  from assms obtain x xs where "segments p = x # xs" "seg_eq x ''admin''"
    by (auto simp: matches_iffs)
  then show ?thesis
    by (simp add: match_route_def routes_def) (simp add: seg_eq_def)
qed

lemma segments_links [simp]:
  "segments ''/bikes'' = [''bikes'']"
  "segments ''/bookings'' = [''bookings'']"
  "segments ''/admin'' = [''admin'']"
  "segments ''/admin/bikes'' = [''admin'', ''bikes'']"
  "segments ''/admin/users'' = [''admin'', ''users'']"
  by (simp_all add: segments_def)

lemma match_route_links [simp]:
  "match_route ''/bikes'' = Some ([Static ''bikes''], Protected (InLayout (Page BikesPage)))"
  "match_route ''/bookings'' = Some ([Static ''bookings''], Protected (InLayout (Page MyBookingsPage)))"
  "match_route ''/admin'' = Some ([Static ''admin'', Splat], Protected (InLayout (Page AdminDashboard)))"
  "match_route ''/admin/bikes'' = Some ([Static ''admin'', Splat], Protected (InLayout (Page AdminDashboard)))"
  "match_route ''/admin/users'' = Some ([Static ''admin'', Splat], Protected (InLayout (Page AdminDashboard)))"
  by (simp_all add: match_route_def routes_def)

text \<open>
  C10: the admin area is not restricted to admins. Every path under
  \<^verbatim>\<open>/admin\<close> is rendered through the guard of \<^verbatim>\<open>App.jsx\<close>, which never looks
  at the user: what the table renders does not depend on the user object at
  all, and the admin dashboard is shown to whoever is authenticated.
\<close>

theorem admin_route_ignores_role:
  assumes "matches [Static ''admin'', Splat] (segments p)"
  shows "route_view a p = ProtectedRoute a (WithHeader (Pages AdminDashboard)) \<and>
         route_view (a\<lparr>user := u\<rparr>) p = route_view a p \<and>
         shown (route_view a p) =
           (if \<not> loading a \<and> isAuthenticated a then Some AdminDashboard else None)"
proof -
  from assms have "route_view a p = ProtectedRoute a (WithHeader (Pages AdminDashboard))"
    by (simp add: match_route_admin route_view_def)
  then show ?thesis
    by (simp only: route_view_ignores_user shown_ProtectedRoute) simp
qed

theorem admin_route_ignores_role_witness:
  "matches [Static ''admin'', Splat] (segments ''/admin/users'') \<and>
   shown (route_view \<lparr>user = Some \<lparr>user_id = ''7'', user_name = ''Ann'',
                                  user_email = ''ann@example.org'', user_role = ''user''\<rparr>,
                      loading = False, isAuthenticated = True\<rparr>
            ''/admin/users'') = Some AdminDashboard"
  using admin_route_ignores_role [of "''/admin/users''"
      "\<lparr>user = Some \<lparr>user_id = ''7'', user_name = ''Ann'',
                                  user_email = ''ann@example.org'', user_role = ''user''\<rparr>,
                      loading = False, isAuthenticated = True\<rparr>"]
  by simp

text \<open>
  Every link the header renders leads somewhere. The links are rendered
  for an authenticated user only, and each of them is the path of a route of
  the table that is guarded and is not the 404 page.
\<close>

theorem nav_links_routable:
  assumes "l \<in> set (nav_items a)"
  shows "isAuthenticated a \<and>
         (\<exists>pg. pg \<noteq> NotFoundPage \<and>
            route_view a (link_path l) = ProtectedRoute a (WithHeader (Pages pg)))"
  using assms
  by (auto simp: nav_items_def navLinks_def adminLinks_def route_view_def split: if_splits)

theorem nav_links_routable_witness:
  "\<lparr>link_path = ''/bikes'', link_label = ''Bikes''\<rparr>
     \<in> set (nav_items \<lparr>user = None, loading = False, isAuthenticated = True\<rparr>) \<and>
   isAuthenticated \<lparr>user = None, loading = False, isAuthenticated = True\<rparr>"
  using nav_links_routable [of "\<lparr>link_path = ''/bikes'', link_label = ''Bikes''\<rparr>"
      "\<lparr>user = None, loading = False, isAuthenticated = True\<rparr>"]
  by (simp add: nav_items_def navLinks_def)

section \<open>Following redirects\<close>

text \<open>
  A rendered \<^verbatim>\<open>Navigate\<close> changes the location and the table is rendered again.
  The recursion ends because the target of a redirect never redirects: a
  visitor is sent to \<^verbatim>\<open>/login\<close>, which a visitor may see, and a user is sent
  to \<^verbatim>\<open>/\<close>, which a user may see.
\<close>

function follow_redirects :: "'a browser_scheme \<Rightarrow> 'a browser_scheme" where
  "follow_redirects b =
     (case AppContent b of Navigate q \<Rightarrow> follow_redirects (navigate q b) | _ \<Rightarrow> b)"
  by pat_completeness auto
termination
proof (relation "measure (\<lambda>b. case AppContent b of Navigate q \<Rightarrow> 1 | _ \<Rightarrow> 0)")
  fix b :: "'a browser_scheme" and q
  assume nav: "AppContent b = Navigate q"
  then have "AppContent (navigate q b) =
      (if isAuthenticated (auth b) then WithHeader (Pages OverviewPage) else Pages LoginPage)"
    by (simp add: AppContent_def navigate_def route_view_after_Navigate)
  with nav show "(navigate q b, b) \<in> measure (\<lambda>b. case AppContent b of Navigate q \<Rightarrow> 1 | _ \<Rightarrow> 0)"
    by simp
qed simp

declare follow_redirects.simps [simp del]

lemma navigate_fields [simp]:
  "pathname (navigate p w) = p"
  "pending_href (navigate p w) = pending_href w"
  "toasts (navigate p w) = toasts w"
  "window.more (navigate p w) = window.more w"
  by (simp_all add: navigate_def)

lemma auth_navigate [simp]: "auth (navigate p b) = auth b"
  by (simp add: navigate_def)

lemma browser_more_navigate [simp]: "browser.more (navigate p b) = browser.more b"
  by (simp add: navigate_def)

lemma follow_redirects_stay:
  "(\<And>q. AppContent b \<noteq> Navigate q) \<Longrightarrow> follow_redirects b = b"
  by (subst follow_redirects.simps) (simp split: view.splits)

lemma follow_redirects_once:
  assumes "AppContent b = Navigate q"
  shows "follow_redirects b = navigate q b"
proof -
  have "AppContent (navigate q b) =
      (if isAuthenticated (auth b) then WithHeader (Pages OverviewPage) else Pages LoginPage)"
    using assms by (simp add: AppContent_def route_view_after_Navigate)
  then have "follow_redirects (navigate q b) = navigate q b"
    by (intro follow_redirects_stay) (simp split: if_splits)
  with assms show ?thesis
    by (subst follow_redirects.simps) simp
qed

lemma follow_redirects_cases:
  obtains (stay) "follow_redirects b = b" "\<And>q. AppContent b \<noteq> Navigate q"
  | (visitor) "follow_redirects b = navigate ''/login'' b" "\<not> loading (auth b)"
      "\<not> isAuthenticated (auth b)" "AppContent b = Navigate ''/login''"
  | (member) "follow_redirects b = navigate ''/'' b" "\<not> loading (auth b)"
      "isAuthenticated (auth b)" "AppContent b = Navigate ''/''"
proof (cases "\<exists>q. AppContent b = Navigate q")
  case False
  then show ?thesis by (intro stay follow_redirects_stay) auto
next
  case True
  then obtain q where q: "AppContent b = Navigate q" ..
  then have *: "\<not> loading (auth b)" "if isAuthenticated (auth b) then q = ''/'' else q = ''/login''"
    using route_view_Navigate [of "auth b" "pathname b" q] by (simp_all add: AppContent_def)
  show ?thesis
  proof (cases "isAuthenticated (auth b)")
    case True
    with q * show ?thesis by (intro member) (simp_all add: follow_redirects_once)
  next
    case False
    with q * show ?thesis by (intro visitor) (simp_all add: follow_redirects_once)
  qed
qed

lemma follow_redirects_frame [simp]:
  "auth (follow_redirects b) = auth b"
  "pending_href (follow_redirects b) = pending_href b"
  "toasts (follow_redirects b) = toasts b"
  "browser.more (follow_redirects b) = browser.more b"
  by (cases b rule: follow_redirects_cases; simp)+

lemma follow_redirects_view:
  "AppContent (follow_redirects b) =
     (case AppContent b of
        Navigate q \<Rightarrow>
          if isAuthenticated (auth b) then WithHeader (Pages OverviewPage) else Pages LoginPage
      | v \<Rightarrow> v)"
proof (cases b rule: follow_redirects_cases)
  case stay
  then show ?thesis by (simp split: view.splits)
next
  case visitor
  then show ?thesis by (simp add: AppContent_def route_view_def)
next
  case member
  then show ?thesis by (simp add: AppContent_def route_view_def)
qed

lemma follow_redirects_final [simp]: "\<not> is_redirect (AppContent (follow_redirects b))"
  by (simp add: follow_redirects_view split: view.splits)

lemma follow_redirects_idem [simp]: "follow_redirects (follow_redirects b) = follow_redirects b"
  using follow_redirects_final [of b] by (intro follow_redirects_stay) (auto simp: is_redirect_iff)

text \<open>
  Following the redirects of the guards ends, after at most
  one change of location, in a view that is not a redirect; the page the
  user ends on is the login page for a visitor and the overview for a user
  whenever a redirect was followed at all.
\<close>

theorem redirects_settle:
  "\<not> is_redirect (AppContent (follow_redirects b)) \<and>
   (follow_redirects b = b \<or>
    (\<exists>q. AppContent b = Navigate q \<and> follow_redirects b = navigate q b \<and>
         shown (AppContent (follow_redirects b)) =
           Some (if isAuthenticated (auth b) then OverviewPage else LoginPage)))"
proof (cases b rule: follow_redirects_cases)
  case stay
  then show ?thesis by (simp add: is_redirect_iff)
next
  case visitor
  have "AppContent (follow_redirects b) = Pages LoginPage"
    using visitor(3,4) by (simp add: follow_redirects_view)
  with visitor show ?thesis by simp
next
  case member
  have "AppContent (follow_redirects b) = WithHeader (Pages OverviewPage)"
    using member(3,4) by (simp add: follow_redirects_view)
  with member show ?thesis by simp
qed

end
