(* ===== verification/Session.thy ===== *)
theory Session
  imports Routes
begin

text \<open>
  The client as a state machine: one browser tab running the application
  against a backend that keeps a session cookie. This theory composes the
  components of \<open>Http\<close>, \<open>Auth\<close> and \<open>Routes\<close> the way the running
  application does: a page load mounts the provider of
  \<^verbatim>\<open>context/AuthContext.jsx\<close>, whose probe goes through the interceptors of
  \<^verbatim>\<open>services/api.js\<close>; an assignment to \<^verbatim>\<open>window.location.href\<close> makes the
  browser load a page; after every change the route table of \<^verbatim>\<open>App.jsx\<close> is
  rendered again and a rendered redirect is followed.

  The backend is not part of the repository. What is assumed of it is what the
  specification says: it authenticates by an httpOnly session cookie, answers
  a request to a protected endpoint without a valid session with status 401,
  and starts a session when it grants a login or a signup.
\<close>

section \<open>The world: a tab and the session it holds\<close>

record world = browser +
  session :: bool

definition unauthorized :: api_error where
  "unauthorized =
     Some \<lparr>err_status = 401, err_message = Some ''You are not logged in! Please log in to get access.''\<rparr>"

definition protected_backend :: "bool \<Rightarrow> 'd backend" where
  "protected_backend s =
     (\<lambda>rq. if s then Resolved (Some \<lparr>env_status = ''success'', env_data = None\<rparr>)
            else Rejected unauthorized)"

definition accepted :: "auth_payload body outcome \<Rightarrow> bool" where
  "accepted ans \<longleftrightarrow>
     (case ans of
        Resolved (Some r) \<Rightarrow> env_status r = ''success'' \<and> env_data r \<noteq> None
      | _ \<Rightarrow> False)"

text \<open>A tab before its first page load; only the cookie matters.\<close>

definition fresh :: "bool \<Rightarrow> world" where
  "fresh s = \<lparr>pathname = [], pending_href = None, toasts = [], auth = initial_auth, session = s\<rparr>"

lemma session_ops [simp]:
  "session (show_toast t w) = session w"
  "session (assign_href p w) = session w"
  "session (navigate p w) = session w"
  "session (setUser u w) = session w"
  "session (setLoading l w) = session w"
  "session (setIsAuthenticated v w) = session w"
  "session (response_error_interceptor e w) = session w"
  "session (after_reply ans w) = session w"
  "session (snd (send be rq w)) = session w"
  by (simp_all add: show_toast_def assign_href_def navigate_def auth_defs
      response_error_interceptor_def after_reply_def send_snd Let_def split: outcome.splits)

lemma session_follow_redirects [simp]: "session (follow_redirects w) = session w"
  by (cases w rule: follow_redirects_cases) simp_all

lemma fresh_fields [simp]:
  "session (fresh s) = s"
  "pending_href (fresh s) = None"
  "auth (fresh s) = initial_auth"
  by (simp_all add: fresh_def)

lemma error_status_unauthorized [simp]: "error_status unauthorized = Some 401"
  by (simp add: unauthorized_def)

lemma accepted_iff: "accepted ans \<longleftrightarrow> granted ans \<noteq> None"
  by (simp add: accepted_def granted_def split: outcome.splits option.splits)

section \<open>Page loads\<close>

text \<open>
  A page load at \<open>p\<close> starts the application afresh at that location: toasts
  and state cells are gone, the provider mounts and probes the backend with
  the cookie the browser holds.
\<close>

definition page_load :: "path \<Rightarrow> world \<Rightarrow> world" where
  "page_load p w =
     AuthProvider (protected_backend (session w) :: unit backend)
       (w\<lparr>pathname := p, pending_href := None, toasts := []\<rparr>)"

lemma page_load_eq:
  "page_load p w =
     w\<lparr>pathname := p,
       pending_href := (if \<not> session w \<and> p \<noteq> ''/login'' then Some ''/login'' else None),
       toasts := [],
       auth := \<lparr>user = None, loading = False, isAuthenticated = session w\<rparr>\<rparr>"
  by (simp add: page_load_def AuthProvider_def checkAuthStatus_eq protected_backend_def
      initial_auth_def auth_defs assign_href_def)

text \<open>
  Settling: the browser carries out a pending page load, which may schedule
  another one, until none is pending; then the redirects of the guards are
  followed. A load of \<^verbatim>\<open>/login\<close> never schedules a load, and a load of any other
  page schedules at most a load of \<^verbatim>\<open>/login\<close>, so two loads are the most that
  happen.
\<close>

function settle :: "world \<Rightarrow> world" where
  "settle w =
     (case pending_href w of
        None \<Rightarrow> follow_redirects w
      | Some p \<Rightarrow> settle (page_load p w))"
  by pat_completeness auto
termination
  by (relation "measure (\<lambda>w. case pending_href w of None \<Rightarrow> 0
                               | Some p \<Rightarrow> if p = ''/login'' then 1 else 2)")
     (auto simp: page_load_eq)

declare settle.simps [simp del]

text \<open>Where a page load ends up, in closed form.\<close>

definition landing :: "path \<Rightarrow> world \<Rightarrow> world" where
  "landing p w =
     w\<lparr>pathname := (if session w then p else ''/login''), pending_href := None, toasts := [],
       auth := \<lparr>user = None, loading = False, isAuthenticated = session w\<rparr>\<rparr>"

lemma settle_None: "pending_href w = None \<Longrightarrow> settle w = follow_redirects w"
  by (subst settle.simps) simp

lemma settle_Some:
  assumes p: "pending_href w = Some p"
  shows "settle w = follow_redirects (landing p w)"
proof (cases "\<not> session w \<and> p \<noteq> ''/login''")
  case True
  then have "pending_href (page_load p w) = Some ''/login''"
    by (simp add: page_load_eq)
  then have "settle (page_load p w) = settle (page_load ''/login'' (page_load p w))"
    by (subst settle.simps) simp
  with p have "settle w = settle (page_load ''/login'' (page_load p w))"
    by (subst settle.simps) simp
  also have "\<dots> = follow_redirects (landing p w)"
    using True by (simp add: settle_None page_load_eq landing_def)
  finally show ?thesis .
next
  case False
  then have "page_load p w = landing p w"
    by (auto simp: page_load_eq landing_def)
  with p show ?thesis
    by (simp add: settle.simps [of w] settle_None landing_def)
qed

lemma settle_eq:
  "settle w = follow_redirects (case pending_href w of None \<Rightarrow> w | Some p \<Rightarrow> landing p w)"
  by (cases "pending_href w") (simp_all only: settle_None settle_Some option.case)

lemma landing_fields [simp]:
  "pathname (landing p w) = (if session w then p else ''/login'')"
  "pending_href (landing p w) = None"
  "toasts (landing p w) = []"
  "auth (landing p w) = \<lparr>user = None, loading = False, isAuthenticated = session w\<rparr>"
  "session (landing p w) = session w"
  by (simp_all add: landing_def)

lemma landing_view:
  "AppContent (landing p w) =
     route_view \<lparr>user = None, loading = False, isAuthenticated = session w\<rparr>
       (if session w then p else ''/login'')"
  by (simp add: AppContent_def)

lemma settle_frame [simp]:
  "session (settle w) = session w"
  "pending_href (settle w) = None"
  by (simp_all add: settle_eq split: option.splits)

lemma settle_auth:
  "auth (settle w) =
     (case pending_href w of
        None \<Rightarrow> auth w
      | Some p \<Rightarrow> \<lparr>user = None, loading = False, isAuthenticated = session w\<rparr>)"
  by (simp add: settle_eq split: option.splits)

lemma settle_no_redirect [simp]: "\<not> is_redirect (AppContent (settle w))"
  by (simp add: settle_eq split: option.splits)

section \<open>Events and steps\<close>

text \<open>
  What can happen to the tab. \<open>Open\<close> is a page load the user asks for (typing
  a URL, reloading); \<open>Click\<close> is a link of the application, handled by the
  router without a load. The three submissions call the handlers of the
  provider; each carries the backend's answer, which the environment chooses.
  \<open>ClickLogout\<close> is the sign-out button of the header. \<open>Fetch\<close> is any request
  of a query hook to a protected endpoint. \<open>Expire\<close> is the backend ending
  the session. A handler runs to its end, then the browser settles.
\<close>

datatype event =
    Open path
  | Click path
  | SubmitLogin json "auth_payload body outcome"
  | SubmitSignup json "auth_payload body outcome"
  | SubmitProfile json "auth_payload body outcome"
  | ClickLogout
  | Fetch
  | Expire

fun step :: "world \<Rightarrow> event \<Rightarrow> world" where
  "step w (Open p) = settle (assign_href p w)"
| "step w (Click p) = settle (navigate p w)"
| "step w (SubmitLogin c ans) =
     settle (snd (login (\<lambda>rq. ans) c (w\<lparr>session := session w \<or> accepted ans\<rparr>)))"
| "step w (SubmitSignup c ans) =
     settle (snd (signup (\<lambda>rq. ans) c (w\<lparr>session := session w \<or> accepted ans\<rparr>)))"
| "step w (SubmitProfile c ans) = settle (snd (updateProfile (\<lambda>rq. ans) c w))"
| "step w ClickLogout = settle (handleLogout w)"
| "step w Fetch =
     settle (snd (send (protected_backend (session w) :: unit backend) (api_get ''/bikes'' None) w))"
| "step w Expire = w\<lparr>session := False\<rparr>"

text \<open>
  The answers the environment may choose: the profile endpoint is protected,
  so without a session its answer is a rejection with status 401. Login and
  signup are public; any answer is possible.
\<close>

fun admissible :: "world \<Rightarrow> event \<Rightarrow> bool" where
  "admissible w (SubmitProfile c ans) =
     (session w \<or> (case ans of Rejected e \<Rightarrow> error_status e = Some 401 | Resolved r \<Rightarrow> False))"
| "admissible w e = True"

inductive reachable :: "world \<Rightarrow> bool" where
  opened: "reachable (step w0 (Open p))"
| stepped: "reachable w \<Longrightarrow> admissible w e \<Longrightarrow> reachable (step w e)"

lemma step_Open: "step w (Open p) = follow_redirects (landing p w)"
  by (simp add: settle_eq landing_def assign_href_def)

lemma step_ClickLogout: "step w ClickLogout = follow_redirects (landing ''/login'' w)"
  by (simp add: settle_eq handleLogout_def logout_eq landing_def navigate_def show_toast_def
      assign_href_def auth_defs)

lemma step_Fetch:
  "pending_href w = None \<Longrightarrow>
   step w Fetch =
     (if session w \<or> pathname w = ''/login'' then follow_redirects w
      else follow_redirects (landing ''/login'' w))"
  by (simp add: settle_eq send_snd protected_backend_def landing_def assign_href_def)

lemmas step_simps = step.simps

declare step.simps [simp del]

section \<open>The invariant of the reachable states\<close>

text \<open>
  A reachable state is settled: no page load is pending, the loading phase is
  over and the view is not a redirect. It is consistent: the client knows of
  every session the backend holds for it, and it holds a user object only
  while it believes to be authenticated. The converse of the first part does
  not hold, since a session may end without the client noticing.
\<close>

definition settled :: "world \<Rightarrow> bool" where
  "settled w \<longleftrightarrow> pending_href w = None \<and> \<not> loading (auth w) \<and> \<not> is_redirect (AppContent w)"

definition consistent :: "world \<Rightarrow> bool" where
  "consistent w \<longleftrightarrow> (session w \<longrightarrow> isAuthenticated (auth w)) \<and> auth_wf (auth w)"

definition world_inv :: "world \<Rightarrow> bool" where
  "world_inv w \<longleftrightarrow> settled w \<and> consistent w"

text \<open>What has to hold of a state for the browser to settle it into the invariant.\<close>

definition ready :: "world \<Rightarrow> bool" where
  "ready w \<longleftrightarrow> (pending_href w = None \<longrightarrow> \<not> loading (auth w) \<and> consistent w)"

lemmas inv_defs = world_inv_def settled_def consistent_def auth_wf_def

lemma settle_inv: "ready w \<Longrightarrow> world_inv (settle w)"
  by (cases "pending_href w") (auto simp: ready_def inv_defs settle_auth)

lemma ready_Open: "ready (assign_href p w)"
  by (simp add: ready_def)

lemma ready_Click: "world_inv w \<Longrightarrow> ready (navigate p w)"
  by (simp add: ready_def inv_defs)

lemma ready_login:
  "world_inv w \<Longrightarrow> ready (snd (login (\<lambda>rq. ans) c (w\<lparr>session := session w \<or> accepted ans\<rparr>)))"
  by (cases "granted ans") (auto simp: ready_def inv_defs login_snd accepted_iff)

lemma ready_signup:
  "world_inv w \<Longrightarrow> ready (snd (signup (\<lambda>rq. ans) c (w\<lparr>session := session w \<or> accepted ans\<rparr>)))"
  by (cases "granted ans") (auto simp: ready_def inv_defs signup_snd accepted_iff)

lemma ready_updateProfile:
  "world_inv w \<Longrightarrow> admissible w (SubmitProfile c ans) \<Longrightarrow>
   ready (snd (updateProfile (\<lambda>rq. ans) c w))"
  by (cases ans rule: answer_cases) (auto simp: ready_def inv_defs updateProfile_snd)

lemma ready_logout: "ready (handleLogout w)"
  by (simp add: ready_def handleLogout_def logout_eq)

lemma ready_Fetch: "world_inv w \<Longrightarrow> ready (snd (send be rq w))"
  by (simp add: ready_def inv_defs)

lemma step_inv: "world_inv w \<Longrightarrow> admissible w e \<Longrightarrow> world_inv (step w e)"
proof (cases e)
  case Expire
  assume "world_inv w"
  with Expire show ?thesis
    by (simp add: step_simps inv_defs AppContent_def)
qed (simp_all add: step_simps settle_inv ready_Open ready_Click ready_login ready_signup
       ready_updateProfile ready_logout ready_Fetch)

lemma reachable_inv: "reachable w \<Longrightarrow> world_inv w"
proof (induction rule: reachable.induct)
  case (opened w0 p)
  show ?case by (simp add: step_simps settle_inv ready_Open)
next
  case (stepped w e)
  then show ?case by (simp add: step_inv)
qed

text \<open>
  C1: in every state the tab can reach, whatever the user
  does and whatever the backend answers, no page load is pending, the loading
  phase is over, the view on the screen is not a redirect, a session the
  backend holds is known to the client, and a user object is held only by a
  client that believes to be authenticated.
\<close>

theorem reachable_invariant: "reachable w \<Longrightarrow> settled w \<and> consistent w"
  using reachable_inv by (simp add: world_inv_def)

theorem reachable_invariant_witness:
  "reachable (step (fresh True) (Open ''/bikes'')) \<and>
   settled (step (fresh True) (Open ''/bikes'')) \<and>
   consistent (step (fresh True) (Open ''/bikes''))"
  using reachable_invariant [OF reachable.opened [of "fresh True" "''/bikes''"]]
  by (simp add: reachable.opened)

section \<open>What the composition does\<close>



text \<open>
  C3: a visitor without a session who opens any
  location, \<^verbatim>\<open>/signup\<close> included, ends on the login page. The probe of the
  provider is answered with 401, and the error interceptor reacts to a 401
  anywhere but on \<^verbatim>\<open>/login\<close> by loading \<^verbatim>\<open>/login\<close>. The signup page can be
  reached through a link of the application only, never by its address.
\<close>

theorem visitor_lands_on_login:
  assumes s: "\<not> session w"
  shows "pathname (step w (Open p)) = ''/login'' \<and>
         shown (AppContent (step w (Open p))) = Some LoginPage"
proof -
  from s have "AppContent (landing p w) = Pages LoginPage"
    by (simp add: landing_view route_view_def)
  then have "step w (Open p) = landing p w"
    by (simp add: step_Open follow_redirects_stay)
  with s show ?thesis
    by (simp add: landing_view route_view_def)
qed

theorem visitor_lands_on_login_witness:
  "\<not> session (fresh False) \<and>
   pathname (step (fresh False) (Open ''/signup'')) = ''/login'' \<and>
   shown (AppContent (step (fresh False) (Open ''/signup''))) = Some LoginPage"
  using visitor_lands_on_login [of "fresh False" "''/signup''"] by simp

text \<open>
  C28: settling ends, and it ends at rest: after at most two page loads and
  one redirect no load is pending, the view is not a redirect, and settling
  again changes nothing.
\<close>

theorem settle_comes_to_rest:
  "pending_href (settle w) = None \<and> \<not> is_redirect (AppContent (settle w)) \<and>
   settle (settle w) = settle w"
  by (simp add: settle_None) (simp add: settle_eq split: option.splits)

text \<open>
  C9: a page load forgets who the user is. The probe that
  restores the authentication state returns no user, so after any load with a
  valid session the client is authenticated without a user object: the
  header shows no admin links even to an admin, and a guard with
  \<^verbatim>\<open>adminOnly\<close> would deny access to everybody.
\<close>

theorem reload_forgets_user:
  assumes "session w"
  shows "isAuthenticated (auth (step w (Open p))) \<and> user (auth (step w (Open p))) = None \<and>
         \<not> isAdmin (user (auth (step w (Open p)))) \<and>
         nav_items (auth (step w (Open p))) = navLinks \<and>
         ProtectedRoute_common (auth (step w (Open p))) True children = AccessDenied"
  using assms by (simp add: step_Open nav_items_def ProtectedRoute_common_def)

theorem reload_forgets_user_witness:
  "session (fresh True) \<and> nav_items (auth (step (fresh True) (Open ''/admin''))) = navLinks"
  using reload_forgets_user [of "fresh True" "''/admin''"] by simp

text \<open>
  C8: a session that has ended is detected by the next request.
  In a reachable state whose session is gone, any request of a query hook is
  answered with 401 and the user ends on the login page, not authenticated;
  until then the pages stay on the screen.
\<close>

theorem expired_session_detected:
  assumes "reachable w" and "\<not> session w"
  shows "pathname (step w Fetch) = ''/login'' \<and> \<not> isAuthenticated (auth (step w Fetch)) \<and>
         shown (AppContent (step w Fetch)) = Some LoginPage"
proof -
  from assms(1) have inv: "world_inv w" by (rule reachable_inv)
  show ?thesis
  proof (cases "pathname w = ''/login''")
    case True
    with inv have "step w Fetch = w" "\<not> isAuthenticated (auth w)"
      by (auto simp: step_Fetch inv_defs is_redirect_iff follow_redirects_stay AppContent_def
          route_view_def guard_defs split: if_splits)
    with True inv show ?thesis
      by (simp add: AppContent_def route_view_def inv_defs)
  next
    case False
    have "AppContent (landing ''/login'' w) = Pages LoginPage"
      using assms(2) by (simp add: landing_view route_view_def)
    then have "follow_redirects (landing ''/login'' w) = landing ''/login'' w"
      by (simp add: follow_redirects_stay)
    with False inv assms(2) show ?thesis
      by (simp add: step_Fetch inv_defs landing_view route_view_def)
  qed
qed

theorem expired_session_detected_witness:
  "reachable (step (step (fresh True) (Open ''/bikes'')) Expire) \<and>
   pathname (step (step (step (fresh True) (Open ''/bikes'')) Expire) Fetch) = ''/login''"
  using expired_session_detected [of "step (step (fresh True) (Open ''/bikes'')) Expire"]
    reachable.stepped [OF reachable.opened [of "fresh True" "''/bikes''"], of Expire]
  by (simp add: step_simps)

lemma step_Open_visitor: "\<not> session w \<Longrightarrow> step w (Open p) = landing p w"
  by (simp add: step_Open follow_redirects_stay landing_view route_view_def)

lemma step_SubmitLogin_granted:
  assumes "granted ans = Some d" and "pending_href w = None"
  shows "step w (SubmitLogin c ans) =
     follow_redirects (show_toast (ToastSuccess ''Logged in successfully!'')
       (setIsAuthenticated True (setUser (data_user d) (w\<lparr>session := True\<rparr>))))"
  using assms by (simp add: step_simps settle_eq login_snd accepted_iff)

text \<open>
  C7: signing in works from any address. A visitor who opens
  any location and submits credentials the backend grants ends on the
  overview, authenticated as the user of the answer, with the session
  started and exactly the success toast on the screen.
\<close>

theorem login_flow:
  assumes "\<not> session w0" and "granted ans = Some d"
  shows "session (step (step w0 (Open p)) (SubmitLogin c ans)) \<and>
         pathname (step (step w0 (Open p)) (SubmitLogin c ans)) = ''/'' \<and>
         shown (AppContent (step (step w0 (Open p)) (SubmitLogin c ans))) = Some OverviewPage \<and>
         auth (step (step w0 (Open p)) (SubmitLogin c ans)) =
           \<lparr>user = data_user d, loading = False, isAuthenticated = True\<rparr> \<and>
         toasts (step (step w0 (Open p)) (SubmitLogin c ans)) =
           [ToastSuccess ''Logged in successfully!'']"
proof -
  let ?b = "show_toast (ToastSuccess ''Logged in successfully!'')
       (setIsAuthenticated True (setUser (data_user d) ((landing p w0)\<lparr>session := True\<rparr>)))"
  have view: "AppContent ?b = Navigate ''/''"
    using assms(1) by (simp add: AppContent_def route_view_def auth_defs)
  have "step (step w0 (Open p)) (SubmitLogin c ans) = navigate ''/'' ?b"
    using assms
    by (simp add: step_Open_visitor step_SubmitLogin_granted follow_redirects_once [OF view])
  then show ?thesis
    using assms(1) by (simp add: AppContent_def route_view_def auth_defs)
qed

theorem login_flow_witness:
  "\<not> session (fresh False) \<and>
   pathname (step (step (fresh False) (Open ''/bikes''))
     (SubmitLogin JNull
        (Resolved (Some \<lparr>env_status = ''success'', env_data = Some \<lparr>data_user = None\<rparr>\<rparr>)))) = ''/''"
  using login_flow [of "fresh False"
      "Resolved (Some \<lparr>env_status = ''success'', env_data = Some \<lparr>data_user = None\<rparr>\<rparr>)"
      "\<lparr>data_user = None\<rparr>" "''/bikes''" JNull]
  by simp

end
