(* ===== verification/Header.thy ===== *)
theory Header
  imports Session
begin

text \<open>
  The navigation header of \<^verbatim>\<open>src/frontend/src/components/layout/Header.jsx\<close>
  on the screen: what it renders for the state of the auth context, the
  location and its two menu flags, and what its controls do. The link lists,
  the flags, their toggles and the sign-out handler are in theory \<open>Routes\<close>.

  The header is part of \<^verbatim>\<open>Layout\<close>, so it is mounted exactly while the view of
  the application is a page inside the layout; a page load and a view
  without layout drop its state. Links are handled by the router, the
  sign-out button by \<open>handleLogout\<close>; both are events of theory \<open>Session\<close>.
  Desktop navigation and mobile menu are both part of what is rendered; which
  of them the style sheet displays, and which controls the overlay covers,
  is not modelled: every rendered control can be clicked, which allows more
  runs than the browser does.
\<close>

section \<open>What the header renders\<close>

text \<open>
  A link of the navigation with the flag of \<^verbatim>\<open>isActivePath\<close>, which selects
  its colours.
\<close>

type_synonym shown_link = "nav_link \<times> bool"

definition show_links :: "'a window_scheme \<Rightarrow> nav_link list \<Rightarrow> shown_link list" where
  "show_links w ls = map (\<lambda>l. (l, isActivePath w (link_path l))) ls"

text \<open>
  The right end of the bar: for a user the button with the name and, when
  the flag is set, the dropdown with the profile link and the sign-out
  button; for a visitor the links \<^verbatim>\<open>Sign In\<close> and \<^verbatim>\<open>Sign Up\<close>.
\<close>

datatype user_area = Account "string option" bool | Guest "path list"

datatype menu_icon = IconX | IconMenu

record header_view =
  logo :: path
  desktop_nav :: "shown_link list"
  account :: user_area
  menu_button :: menu_icon
  mobile_menu :: "shown_link list option"
  overlay :: bool

definition Header_return :: "'a browser_scheme \<Rightarrow> header_state \<Rightarrow> header_view" where
  "Header_return b h =
     \<lparr>logo = ''/'',
      desktop_nav = show_links b (nav_items (auth b)),
      account = (if isAuthenticated (auth b)
                 then Account (map_option user_name (user (auth b))) (isUserMenuOpen h)
                 else Guest [''/login'', ''/signup'']),
      menu_button = (if isMenuOpen h then IconX else IconMenu),
      mobile_menu = (if isMenuOpen h then Some (show_links b (nav_items (auth b))) else None),
      overlay = isUserMenuOpen h\<rparr>"

text \<open>
  The component: it reads the auth context first, which throws outside the
  provider.
\<close>

definition Header :: "'a browser_scheme option \<Rightarrow> header_state \<Rightarrow> string + header_view" where
  "Header context h =
     (case useAuth context of
        Inl e \<Rightarrow> Inl e
      | Inr b \<Rightarrow> Inr (Header_return b h))"

section \<open>The controls\<close>

datatype header_event =
    ClickLogo
  | ClickNavLink path
  | ClickUserButton
  | ClickProfileSettings
  | ClickSignOut
  | ClickGuestLink path
  | ClickMenuButton
  | ClickMobileLink path
  | ClickOverlay

definition setIsMenuOpen :: "bool \<Rightarrow> header_state \<Rightarrow> header_state" where
  "setIsMenuOpen v h = h\<lparr>isMenuOpen := v\<rparr>"

definition setIsUserMenuOpen :: "bool \<Rightarrow> header_state \<Rightarrow> header_state" where
  "setIsUserMenuOpen v h = h\<lparr>isUserMenuOpen := v\<rparr>"

text \<open>
  The \<^verbatim>\<open>onClick\<close> of each control, and the event of the session a click
  amounts to: a link is a navigation of the router, the sign-out button is
  \<open>ClickLogout\<close>, the other buttons stay inside the header.
\<close>

fun Header_handle :: "header_event \<Rightarrow> header_state \<Rightarrow> header_state" where
  "Header_handle ClickUserButton h = toggleUserMenu h"
| "Header_handle ClickProfileSettings h = setIsUserMenuOpen False h"
| "Header_handle ClickMenuButton h = toggleMenu h"
| "Header_handle (ClickMobileLink p) h = setIsMenuOpen False h"
| "Header_handle ClickOverlay h = setIsUserMenuOpen False h"
| "Header_handle ev h = h"

fun session_event :: "header_event \<Rightarrow> event option" where
  "session_event ClickLogo = Some (Click ''/'')"
| "session_event (ClickNavLink p) = Some (Click p)"
| "session_event ClickProfileSettings = Some (Click ''/profile'')"
| "session_event ClickSignOut = Some ClickLogout"
| "session_event (ClickGuestLink p) = Some (Click p)"
| "session_event (ClickMobileLink p) = Some (Click p)"
| "session_event ev = None"

text \<open>A control can be used while it is rendered.\<close>

fun on_screen :: "header_view \<Rightarrow> header_event \<Rightarrow> bool" where
  "on_screen v ClickLogo \<longleftrightarrow> True"
| "on_screen v (ClickNavLink p) \<longleftrightarrow> p \<in> set (map (link_path \<circ> fst) (desktop_nav v))"
| "on_screen v ClickUserButton \<longleftrightarrow> (case account v of Account n d \<Rightarrow> True | Guest ls \<Rightarrow> False)"
| "on_screen v ClickProfileSettings \<longleftrightarrow> (case account v of Account n d \<Rightarrow> d | Guest ls \<Rightarrow> False)"
| "on_screen v ClickSignOut \<longleftrightarrow> (case account v of Account n d \<Rightarrow> d | Guest ls \<Rightarrow> False)"
| "on_screen v (ClickGuestLink p) \<longleftrightarrow> (case account v of Account n d \<Rightarrow> False | Guest ls \<Rightarrow> p \<in> set ls)"
| "on_screen v ClickMenuButton \<longleftrightarrow> True"
| "on_screen v (ClickMobileLink p) \<longleftrightarrow>
     (case mobile_menu v of None \<Rightarrow> False | Some ls \<Rightarrow> p \<in> set (map (link_path \<circ> fst) ls))"
| "on_screen v ClickOverlay \<longleftrightarrow> overlay v"

section \<open>The header in a session\<close>

text \<open>
  Whether the view has a header, and the state of the header after a step of
  the session: none without a header, the initial state when the header was
  not there before or the page was loaded, the state it had otherwise. Of
  the events of the header only signing out loads a page.
\<close>

fun has_header :: "view \<Rightarrow> bool" where
  "has_header (WithHeader v) = True"
| "has_header v = False"

definition remount :: "bool \<Rightarrow> header_state option \<Rightarrow> world \<Rightarrow> header_state option" where
  "remount loaded h w =
     (if \<not> has_header (AppContent w) then None
      else if loaded then Some initial_header
      else Some (case h of None \<Rightarrow> initial_header | Some h' \<Rightarrow> h'))"

definition Header_event :: "header_event \<Rightarrow> header_state option \<times> world \<Rightarrow> header_state option \<times> world" where
  "Header_event ev hw =
     (case fst hw of
        None \<Rightarrow> hw
      | Some h \<Rightarrow>
          if \<not> on_screen (Header_return (snd hw) h) ev then hw
          else (case session_event ev of
                  None \<Rightarrow> (Some (Header_handle ev h), snd hw)
                | Some e \<Rightarrow> (remount (ev = ClickSignOut) (Some (Header_handle ev h)) (step (snd hw) e),
                             step (snd hw) e)))"

inductive header_session :: "header_state option \<Rightarrow> world \<Rightarrow> bool" where
  shown: "reachable w \<Longrightarrow> header_session (remount True None w) w"
| clicked: "header_session h w \<Longrightarrow>
    header_session (fst (Header_event ev (h, w))) (snd (Header_event ev (h, w)))"

text \<open>
  What holds of the header in every run: it has a state exactly while the
  view has a header, and its dropdown is open only for a user.
\<close>

definition header_inv :: "header_state option \<Rightarrow> world \<Rightarrow> bool" where
  "header_inv h w \<longleftrightarrow> (h = None \<longleftrightarrow> \<not> has_header (AppContent w)) \<and>
     (case h of None \<Rightarrow> True | Some hs \<Rightarrow> isUserMenuOpen hs \<longrightarrow> isAuthenticated (auth w))"

section \<open>The controls and the session\<close>

lemmas header_defs = Header_return_def show_links_def setIsMenuOpen_def setIsUserMenuOpen_def
  toggleMenu_def toggleUserMenu_def

lemma step_Click_auth: "world_inv w \<Longrightarrow> auth (step w (Click p)) = auth w"
  by (simp add: step_simps settle_auth inv_defs navigate_def)

lemma admissible_session_event: "session_event ev = Some e \<Longrightarrow> admissible w e"
  by (cases ev) auto

lemma session_event_cases:
  "session_event ev = Some e \<Longrightarrow> (ev = ClickSignOut \<and> e = ClickLogout) \<or> (ev \<noteq> ClickSignOut \<and> (\<exists>p. e = Click p))"
  by (cases ev) auto

lemma handle_keeps_user_menu_closed:
  "session_event ev = Some e \<Longrightarrow> isUserMenuOpen (Header_handle ev h) \<Longrightarrow> isUserMenuOpen h"
  by (cases ev) (simp_all add: header_defs)

lemma header_inv_remount_loaded [simp]: "header_inv (remount True h w) w"
  by (simp add: header_inv_def remount_def initial_header_def)

lemma header_inv_remount:
  "isUserMenuOpen hs \<longrightarrow> isAuthenticated (auth w) \<Longrightarrow> header_inv (remount l (Some hs) w) w"
  by (simp add: header_inv_def remount_def initial_header_def)

lemma header_inv_event:
  assumes "world_inv w" and "header_inv h w"
  shows "header_inv (fst (Header_event ev (h, w))) (snd (Header_event ev (h, w))) \<and>
         world_inv (snd (Header_event ev (h, w)))"
proof (cases h)
  case None
  with assms show ?thesis by (simp add: Header_event_def)
next
  case (Some hs)
  show ?thesis
  proof (cases "on_screen (Header_return w hs) ev")
    case False
    with Some assms show ?thesis by (simp add: Header_event_def)
  next
    case True
    show ?thesis
    proof (cases "session_event ev")
      case None
      with True Some assms show ?thesis
        by (cases ev) (auto simp: Header_event_def header_inv_def header_defs split: if_splits)
    next
      case (Some e)
      from Some have adm: "admissible w e" by (rule admissible_session_event)
      with assms(1) have r: "world_inv (step w e)" by (rule step_inv)
      from Some consider "ev = ClickSignOut" | p where "ev \<noteq> ClickSignOut" "e = Click p"
        using session_event_cases by blast
      then have "header_inv (remount (ev = ClickSignOut) (Some (Header_handle ev hs)) (step w e)) (step w e)"
      proof cases
        case 1
        then show ?thesis by simp
      next
        case 2
        from assms \<open>h = Some hs\<close> have "isUserMenuOpen hs \<longrightarrow> isAuthenticated (auth w)"
          by (simp add: header_inv_def)
        with 2 Some assms(1) show ?thesis
          by (auto intro!: header_inv_remount dest: handle_keeps_user_menu_closed simp: step_Click_auth)
      qed
      with r True Some \<open>h = Some hs\<close> show ?thesis by (simp add: Header_event_def)
    qed
  qed
qed

lemma reachable_Header_event:
  "reachable w \<Longrightarrow> reachable (snd (Header_event ev (h, w)))"
  by (auto simp: Header_event_def intro: reachable.stepped admissible_session_event
      split: option.splits)

lemma header_session_inv: "header_session h w \<Longrightarrow> reachable w \<and> header_inv h w"
proof (induction rule: header_session.induct)
  case (shown w)
  then show ?case by simp
next
  case (clicked h w ev)
  then show ?case
    using header_inv_event [of w h ev] by (simp add: reachable_Header_event reachable_inv)
qed

section \<open>What is rendered\<close>

lemma Header_return_fields [simp]:
  "logo (Header_return b h) = ''/''"
  "desktop_nav (Header_return b h) = show_links b (nav_items (auth b))"
  "menu_button (Header_return b h) = (if isMenuOpen h then IconX else IconMenu)"
  "mobile_menu (Header_return b h) = (if isMenuOpen h then Some (show_links b (nav_items (auth b))) else None)"
  "overlay (Header_return b h) = isUserMenuOpen h"
  "account (Header_return b h) =
     (if isAuthenticated (auth b)
      then Account (map_option user_name (user (auth b))) (isUserMenuOpen h)
      else Guest [''/login'', ''/signup''])"
  by (simp_all add: Header_return_def)

lemma step_ClickLogout_session:
  assumes "session w"
  shows "step w ClickLogout = navigate ''/'' (landing ''/login'' w)"
proof -
  from assms have "AppContent (landing ''/login'' w) = Navigate ''/''"
    by (simp add: landing_view route_view_def)
  then show ?thesis by (simp add: step_ClickLogout follow_redirects_once)
qed

lemma sign_out_rendered:
  assumes "session w"
  shows "AppContent (step w ClickLogout) = WithHeader (Pages OverviewPage)"
    and "auth (step w ClickLogout) = \<lparr>user = None, loading = False, isAuthenticated = True\<rparr>"
  using assms by (simp_all add: step_ClickLogout_session AppContent_def route_view_def navigate_def)

lemma Header_in_provider [simp]: "Header (Some b) h = Inr (Header_return b h)"
  by (simp add: Header_def useAuth_def)

section \<open>Properties of the header\<close>



end
