(* ===== verification/Helpers.thy ===== *)
theory Helpers
  imports Prelude Complex_Main
begin

text \<open>
  The helpers of \<^verbatim>\<open>src/frontend/src/utils/helpers.js\<close>, one definition per
  exported function, in the order of the file (\<^verbatim>\<open>isAdmin\<close> is in theory
  \<open>Auth\<close>, where the user type is).

  Numbers. Prices, discounts and ratings are \<open>rat\<close>, sizes and lengths are
  \<open>int\<close> or \<open>nat\<close>. JavaScript computes with doubles; the model is exact
  wherever the doubles are (integers below \<open>2^53\<close>, divisions by powers of
  two) and differs from the code by the rounding error of one operation
  elsewhere. \<^verbatim>\<open>NaN\<close> is \<open>None\<close>, and absorbs every operation it enters.

  Dates. The sources hand dates to \<^verbatim>\<open>date-fns\<close> and never look inside them.
  The library is a parameter of the model, a record \<open>date_fns\<close> of the three
  functions the helpers call; a \<^verbatim>\<open>Date\<close> is its time value, \<open>None\<close> for an
  \<^verbatim>\<open>Invalid Date\<close>. What \<^verbatim>\<open>date-fns\<close> does with an invalid date is fixed by
  the wrappers \<open>format\<close> and \<open>differenceInDays\<close>.
\<close>

section \<open>Currency\<close>

text \<open>
  \<^verbatim>\<open>Intl.NumberFormat('en-US', {style: 'currency', currency}).format\<close> is the
  parameter \<open>numberFormat\<close>; the helper adds the default currency.
\<close>

definition formatCurrency :: "(string \<Rightarrow> rat \<Rightarrow> string) \<Rightarrow> rat \<Rightarrow> string option \<Rightarrow> string" where
  [helper_defs]: "formatCurrency numberFormat amount currency' =
     (let currency = default_arg ''USD'' currency' in numberFormat currency amount)"

section \<open>Dates\<close>

type_synonym jsdate = "int option"

datatype date_arg = DateString string | DateObject jsdate

datatype js_error = RangeError | TypeError

record date_fns =
  parseISO :: "string \<Rightarrow> jsdate"
  format_valid :: "int \<Rightarrow> string \<Rightarrow> string"
  differenceInDays_valid :: "int \<Rightarrow> int \<Rightarrow> int"

text \<open>\<^verbatim>\<open>format\<close> throws on an invalid date; \<^verbatim>\<open>differenceInDays\<close> returns \<^verbatim>\<open>NaN\<close>.\<close>

definition format :: "date_fns \<Rightarrow> jsdate \<Rightarrow> string \<Rightarrow> js_error + string" where
  [helper_defs]: "format lib d f = (case d of None \<Rightarrow> Inl RangeError | Some t \<Rightarrow> Inr (format_valid lib t f))"

definition differenceInDays :: "date_fns \<Rightarrow> jsdate \<Rightarrow> jsdate \<Rightarrow> int option" where
  [helper_defs]: "differenceInDays lib l r =
     (case l of None \<Rightarrow> None
      | Some a \<Rightarrow> (case r of None \<Rightarrow> None | Some b \<Rightarrow> Some (differenceInDays_valid lib a b)))"

text \<open>
  \<^verbatim>\<open>typeof date === 'string' ? parseISO(date) : date\<close>, and \<^verbatim>\<open>!date\<close> for an
  argument that is a string, a \<^verbatim>\<open>Date\<close> or missing: a \<^verbatim>\<open>Date\<close> object is truthy
  even when it is invalid.
\<close>

definition to_date :: "date_fns \<Rightarrow> date_arg \<Rightarrow> jsdate" where
  [helper_defs]: "to_date lib d = (case d of DateString s \<Rightarrow> parseISO lib s | DateObject t \<Rightarrow> t)"

definition formatDate :: "date_fns \<Rightarrow> date_arg option \<Rightarrow> string option \<Rightarrow> js_error + string" where
  [helper_defs]: "formatDate lib date formatString' =
     (let formatString = default_arg ''MMM dd, yyyy'' formatString' in
      case date of
        None \<Rightarrow> Inr []
      | Some d \<Rightarrow>
          if d = DateString [] then Inr []
          else (let parsedDate = to_date lib d in format lib parsedDate formatString))"

definition formatDateTime :: "date_fns \<Rightarrow> date_arg option \<Rightarrow> js_error + string" where
  [helper_defs]: "formatDateTime lib date = formatDate lib date (Some ''MMM dd, yyyy HH:mm'')"

definition daysBetween :: "date_fns \<Rightarrow> date_arg \<Rightarrow> date_arg \<Rightarrow> int option" where
  [helper_defs]: "daysBetween lib startDate endDate =
     (let start = to_date lib startDate; end' = to_date lib endDate
      in differenceInDays lib end' start)"

section \<open>Money\<close>

text \<open>
  \<^verbatim>\<open>Math.max(1, days)\<close> charges at least one day; \<^verbatim>\<open>discount || 0\<close> replaces
  a discount of zero by zero, so it is the discount itself.
\<close>

definition calculateRentalTotal ::
  "date_fns \<Rightarrow> rat \<Rightarrow> date_arg \<Rightarrow> date_arg \<Rightarrow> rat option \<Rightarrow> rat option" where
  [helper_defs]: "calculateRentalTotal lib dailyPrice startDate endDate discount' =
     (let discount = default_arg 0 discount';
          days = map_option (max 1) (daysBetween lib startDate endDate);
          subtotal = map_option (\<lambda>d. dailyPrice * of_int d) days;
          discountAmount = (if discount \<noteq> 0 then discount else 0)
      in map_option (\<lambda>s. s - discountAmount) subtotal)"

section \<open>Text\<close>

text \<open>
  \<^verbatim>\<open>text.slice(0, m)\<close>: a negative \<open>m\<close> counts from the end. \<^verbatim>\<open>truncateText\<close>
  returns its argument itself when that is missing or empty.
\<close>

definition slice0 :: "int \<Rightarrow> 'a list \<Rightarrow> 'a list" where
  [helper_defs]: "slice0 m xs = (if m < 0 then take (nat (int (length xs) + m)) xs else take (nat m) xs)"

definition truncateText :: "string option \<Rightarrow> int option \<Rightarrow> string option" where
  [helper_defs]: "truncateText text maxLength' =
     (let maxLength = default_arg 100 maxLength' in
      case text of
        None \<Rightarrow> None
      | Some t \<Rightarrow>
          if t = [] \<or> int (length t) \<le> maxLength then Some t
          else Some (slice0 maxLength t @ ''...''))"

section \<open>Star rating\<close>

text \<open>
  The two glyphs are \<^verbatim>\<open>U+2605\<close> and \<^verbatim>\<open>U+2606\<close>; the result is the list of
  glyphs that \<^verbatim>\<open>join('')\<close> concatenates. The \<^verbatim>\<open>for\<close> loop and the \<^verbatim>\<open>while\<close>
  loop are the two recursive functions; \<^verbatim>\<open>rating % 1 !== 0\<close> holds exactly when
  the rating is not an integer.
\<close>

datatype star = BlackStar | WhiteStar

function push_full :: "int \<Rightarrow> int \<Rightarrow> star list \<Rightarrow> star list" where
  "push_full i fullStars stars =
     (if i < fullStars then push_full (i + 1) fullStars (stars @ [BlackStar]) else stars)"
  by pat_completeness auto
termination
  by (relation "measure (\<lambda>(i, fullStars, stars). nat (fullStars - i))") auto

function fill_empty :: "star list \<Rightarrow> star list" where
  "fill_empty stars = (if length stars < 5 then fill_empty (stars @ [WhiteStar]) else stars)"
  by pat_completeness auto
termination
  by (relation "measure (\<lambda>stars. 5 - length stars)") auto

declare push_full.simps [simp del] fill_empty.simps [simp del]

definition generateStarRating :: "rat \<Rightarrow> star list" where
  [helper_defs]: "generateStarRating rating =
     (let fullStars = \<lfloor>rating\<rfloor>;
          hasHalfStar = (frac rating \<noteq> 0);
          stars = push_full 0 fullStars [];
          stars = (if hasHalfStar then stars @ [WhiteStar] else stars)
      in fill_empty stars)"

section \<open>Debounce\<close>

text \<open>
  The closure of \<^verbatim>\<open>debounce(func, wait)\<close> holds one timer. Its state is the
  pending timer, if any, as the time it is due at and the arguments it will
  pass; \<open>fired\<close> lists the calls of \<^verbatim>\<open>func\<close> made so far, oldest first. A call
  of the debounced function at time \<open>now\<close> clears the timer and sets a new
  one; the timer firing calls \<^verbatim>\<open>func\<close> (\<^verbatim>\<open>clearTimeout\<close> of the timer that is
  firing changes nothing).
\<close>

record 'a debounced =
  timeout :: "(nat \<times> 'a) option"
  fired :: "'a list"

definition debounce :: "'a debounced" where
  [helper_defs]: "debounce = \<lparr>timeout = None, fired = []\<rparr>"

definition executedFunction :: "nat \<Rightarrow> nat \<Rightarrow> 'a \<Rightarrow> 'a debounced \<Rightarrow> 'a debounced" where
  [helper_defs]: "executedFunction wait now args d = d\<lparr>timeout := Some (now + wait, args)\<rparr>"

definition later :: "'a debounced \<Rightarrow> 'a debounced" where
  [helper_defs]: "later d =
     (case timeout d of
        None \<Rightarrow> d
      | Some (due, args) \<Rightarrow> d\<lparr>timeout := None, fired := fired d @ [args]\<rparr>)"

text \<open>
  The event loop: at time \<open>now\<close> a timer that is due fires. A schedule is a
  list of calls of the debounced function, each with its time and its
  arguments; before each call the timers due by then have fired.
\<close>

definition run_timers :: "nat \<Rightarrow> 'a debounced \<Rightarrow> 'a debounced" where
  [helper_defs]: "run_timers now d =
     (case timeout d of
        None \<Rightarrow> d
      | Some (due, args) \<Rightarrow> if due \<le> now then later d else d)"

fun run_calls :: "nat \<Rightarrow> (nat \<times> 'a) list \<Rightarrow> 'a debounced \<Rightarrow> 'a debounced" where
  "run_calls wait [] d = d"
| "run_calls wait ((now, args) # cs) d =
     run_calls wait cs (executedFunction wait now args (run_timers now d))"

text \<open>
  What debouncing promises: of a schedule, the calls that reach \<^verbatim>\<open>func\<close> are
  those followed by a pause of at least \<open>wait\<close> (the last call is still
  pending). A burst is a schedule without such a pause.
\<close>

fun quiet_calls :: "nat \<Rightarrow> (nat \<times> 'a) list \<Rightarrow> 'a list" where
  "quiet_calls wait (c1 # c2 # cs) =
     (if fst c1 + wait \<le> fst c2 then [snd c1] else []) @ quiet_calls wait (c2 # cs)"
| "quiet_calls wait cs = []"

fun burst :: "nat \<Rightarrow> (nat \<times> 'a) list \<Rightarrow> bool" where
  "burst wait (c1 # c2 # cs) \<longleftrightarrow>
     fst c1 \<le> fst c2 \<and> fst c2 < fst c1 + wait \<and> burst wait (c2 # cs)"
| "burst wait cs \<longleftrightarrow> True"

section \<open>Slugs\<close>

text \<open>
  The character classes of the regular expressions, on code units below 256:
  \<^verbatim>\<open>\s\<close> is tab, line feed, vertical tab, form feed, carriage return, space
  and no-break space; \<^verbatim>\<open>\w\<close> is a letter, a digit or the underscore.
\<close>

definition is_space :: "char \<Rightarrow> bool" where
  [helper_defs]: "is_space c \<longleftrightarrow> (of_char c :: nat) \<in> {9, 10, 11, 12, 13, 32, 160}"

definition is_word :: "char \<Rightarrow> bool" where
  [helper_defs]: "is_word c \<longleftrightarrow>
     (48 \<le> (of_char c :: nat) \<and> (of_char c :: nat) \<le> 57) \<or>
     (65 \<le> (of_char c :: nat) \<and> (of_char c :: nat) \<le> 90) \<or>
     (of_char c :: nat) = 95 \<or>
     (97 \<le> (of_char c :: nat) \<and> (of_char c :: nat) \<le> 122)"

definition is_dash :: "char \<Rightarrow> bool" where
  [helper_defs]: "is_dash c \<longleftrightarrow> c = CHR ''-''"

text \<open>
  \<^verbatim>\<open>s.replace(/[P]{n,}/g, r)\<close> for a character class \<open>P\<close>: the matches of the
  greedy pattern are the maximal runs of characters of the class that are at
  least \<open>n\<close> long; each is replaced by \<open>r\<close>, shorter runs stay.
\<close>

function replace_runs :: "('a \<Rightarrow> bool) \<Rightarrow> nat \<Rightarrow> 'a list \<Rightarrow> 'a list \<Rightarrow> 'a list" where
  "replace_runs P n r [] = []"
| "replace_runs P n r (x # xs) =
     (if P x
      then (if n \<le> Suc (length (takeWhile P xs)) then r else x # takeWhile P xs)
             @ replace_runs P n r (dropWhile P xs)
      else x # replace_runs P n r xs)"
  by pat_completeness auto
termination
  by (relation "measure (\<lambda>(P, n, r, xs). length xs)") (auto simp: length_dropWhile_le less_Suc_eq_le)

text \<open>\<^verbatim>\<open>s.replace(/[P]+$/, '')\<close>; \<^verbatim>\<open>s.replace(/^[P]+/, '')\<close> is \<open>dropWhile P s\<close>.\<close>

definition drop_trailing :: "('a \<Rightarrow> bool) \<Rightarrow> 'a list \<Rightarrow> 'a list" where
  "drop_trailing P xs = rev (dropWhile P (rev xs))"

definition slugify :: "string \<Rightarrow> string" where
  [helper_defs]: "slugify text =
     (let s1 = toLowerCase text;
          s2 = replace_runs is_space 1 ''-'' s1;
          s3 = replace_runs (\<lambda>c. \<not> (is_word c \<or> is_dash c)) 1 [] s2;
          s4 = replace_runs is_dash 2 ''-'' s3;
          s5 = dropWhile is_dash s4;
          s6 = drop_trailing is_dash s5
      in s6)"

text \<open>
  What a slug is: lower-case letters, digits, underscores and dashes, no two
  dashes in a row, no dash at either end.
\<close>

definition is_slug_char :: "char \<Rightarrow> bool" where
  "is_slug_char c \<longleftrightarrow> (is_word c \<or> is_dash c) \<and> \<not> is_upper c"

fun no_double :: "('a \<Rightarrow> bool) \<Rightarrow> 'a list \<Rightarrow> bool" where
  "no_double P (x # y # zs) \<longleftrightarrow> \<not> (P x \<and> P y) \<and> no_double P (y # zs)"
| "no_double P xs \<longleftrightarrow> True"

section \<open>Bikes, discounts, files\<close>

definition getBikeAvailabilityStatus :: "'b \<Rightarrow> string" where
  [helper_defs]: "getBikeAvailabilityStatus bike = ''available''"

text \<open>
  \<^verbatim>\<open>!x\<close> for a number that may be missing, and \<^verbatim>\<open>Math.round\<close>, which rounds
  to the nearest integer and a tie upwards.
\<close>

definition falsy_num :: "rat option \<Rightarrow> bool" where
  [helper_defs]: "falsy_num x \<longleftrightarrow> (case x of None \<Rightarrow> True | Some v \<Rightarrow> v = 0)"

definition Math_round :: "rat \<Rightarrow> int" where
  [helper_defs]: "Math_round x = \<lfloor>x + 1 / 2\<rfloor>"

definition calculateDiscountPercentage :: "rat option \<Rightarrow> rat option \<Rightarrow> int" where
  [helper_defs]: "calculateDiscountPercentage originalPrice discountedPrice =
     (if falsy_num originalPrice \<or> falsy_num discountedPrice then 0
      else (case (originalPrice, discountedPrice) of
              (Some orig, Some disc) \<Rightarrow> Math_round ((orig - disc) / orig * 100)
            | _ \<Rightarrow> 0))"

text \<open>
  File sizes are natural numbers. \<open>floor_log k n\<close> is
  \<^verbatim>\<open>Math.floor(Math.log(n) / Math.log(k))\<close> for \<open>n \<ge> 1\<close>. \<open>toFixed2 x\<close> is the
  number \<^verbatim>\<open>x.toFixed(2)\<close> prints, counted in hundredths; \<open>show_hundredths\<close>
  is what \<^verbatim>\<open>parseFloat\<close> of that string prints when it is concatenated:
  trailing zeros and a trailing point are gone. A unit read past the end of
  \<^verbatim>\<open>sizes\<close> is \<^verbatim>\<open>undefined\<close> and is printed as that word.
\<close>

function floor_log :: "nat \<Rightarrow> nat \<Rightarrow> nat" where
  "floor_log k n = (if k \<le> 1 \<or> n < k then 0 else Suc (floor_log k (n div k)))"
  by pat_completeness auto
termination
  by (relation "measure (\<lambda>(k, n). n)") auto

declare floor_log.simps [simp del]

definition toFixed2 :: "rat \<Rightarrow> nat" where
  [helper_defs]: "toFixed2 x = nat \<lfloor>x * 100 + 1 / 2\<rfloor>"

definition show_hundredths :: "nat \<Rightarrow> string" where
  [helper_defs]: "show_hundredths h =
     string_of_nat (h div 100) @
       (if h mod 100 = 0 then []
        else if h mod 10 = 0 then [CHR ''.'', digit_char (h mod 100 div 10)]
        else [CHR ''.'', digit_char (h mod 100 div 10), digit_char (h mod 10)])"

definition sizes :: "string list" where
  "sizes = [''Bytes'', ''KB'', ''MB'', ''GB'']"

definition formatFileSize :: "nat \<Rightarrow> string" where
  [helper_defs]: "formatFileSize bytes =
     (if bytes = 0 then ''0 Bytes''
      else
        (let k = 1024;
             i = floor_log k bytes
         in show_hundredths (toFixed2 (of_nat bytes / of_nat (k ^ i))) @ '' '' @
            (case nth_opt sizes i of None \<Rightarrow> ''undefined'' | Some unit \<Rightarrow> unit)))"

record file_info =
  file_name :: string
  file_size :: nat
  file_type :: string

definition validTypes :: "string list" where
  "validTypes = [''image/jpeg'', ''image/jpg'', ''image/png'', ''image/gif'']"

definition isValidImageFile :: "'a file_info_scheme \<Rightarrow> bool" where
  [helper_defs]: "isValidImageFile f \<longleftrightarrow> file_type f \<in> set validTypes"

section \<open>Dates and money: behaviour\<close>

text \<open>The floor of a quotient of literals evaluates by integer division.\<close>

lemma floor_rat_numeral [simp]: "\<lfloor>(numeral a :: rat) / numeral b\<rfloor> = numeral a div numeral b"
  by (metis floor_divide_of_int_eq of_int_numeral)

lemma format_simps [simp]:
  "format lib None f = Inl RangeError"
  "format lib (Some t) f = Inr (format_valid lib t f)"
  by (simp_all add: format_def)

lemma differenceInDays_simps [simp]:
  "differenceInDays lib None r = None"
  "differenceInDays lib l None = None"
  "differenceInDays lib (Some a) (Some b) = Some (differenceInDays_valid lib a b)"
  by (simp_all add: differenceInDays_def split: option.splits)

lemma to_date_simps [simp]:
  "to_date lib (DateString s) = parseISO lib s"
  "to_date lib (DateObject t) = t"
  by (simp_all add: to_date_def)

lemma daysBetween_eq: "daysBetween lib s e = differenceInDays lib (to_date lib e) (to_date lib s)"
  by (simp add: daysBetween_def)

lemma calculateRentalTotal_eq:
  "calculateRentalTotal lib price s e disc =
     map_option (\<lambda>d. price * of_int (max 1 d) - default_arg 0 disc) (daysBetween lib s e)"
  by (simp add: calculateRentalTotal_def Let_def option.map_comp comp_def)

text \<open>
  \<^verbatim>\<open>formatDate\<close> on every branch: nothing to format gives the empty string, a
  date that does not parse makes \<^verbatim>\<open>format\<close> throw, and the exception leaves
  the helper.
\<close>

lemma formatDate_outcome:
  "formatDate lib None f = Inr [] \<and>
   formatDate lib (Some (DateString [])) f = Inr [] \<and>
   (to_date lib d = None \<longrightarrow> d \<noteq> DateString [] \<longrightarrow> formatDate lib (Some d) f = Inl RangeError) \<and>
   (to_date lib d = Some t \<longrightarrow> d \<noteq> DateString [] \<longrightarrow>
      formatDate lib (Some d) f = Inr (format_valid lib t (default_arg ''MMM dd, yyyy'' f)))"
  by (simp add: formatDate_def)

lemma rental_total_NaN:
  "to_date lib s = None \<or> to_date lib e = None \<Longrightarrow> calculateRentalTotal lib price s e disc = None"
  by (auto simp: calculateRentalTotal_eq daysBetween_eq)

text \<open>
  The rental total of two valid dates is a number, and for a price that
  is not negative it is at least one day's price less the discount: a rental
  that ends on the day it starts, or before it starts, is charged as one
  day; from one full day on the total is the price times the days less the
  discount. Nothing keeps the total from being negative when the discount
  exceeds the subtotal.
\<close>

theorem rental_total_bounds:
  assumes "to_date lib s = Some a" and "to_date lib e = Some b" and "0 \<le> price"
  shows "\<exists>t. calculateRentalTotal lib price s e disc = Some t \<and>
             price - default_arg 0 disc \<le> t \<and>
             (differenceInDays_valid lib b a \<le> 1 \<longrightarrow> t = price - default_arg 0 disc) \<and>
             (1 \<le> differenceInDays_valid lib b a \<longrightarrow>
                t = price * of_int (differenceInDays_valid lib b a) - default_arg 0 disc)"
proof -
  have "price * 1 \<le> price * of_int (max 1 (differenceInDays_valid lib b a))"
    using assms(3) by (intro mult_left_mono) simp_all
  with assms(1,2) show ?thesis
    by (auto simp: calculateRentalTotal_eq daysBetween_eq max_def)
qed

theorem rental_total_bounds_witness:
  "calculateRentalTotal \<lparr>parseISO = (\<lambda>s. None), format_valid = (\<lambda>t f. []),
        differenceInDays_valid = (\<lambda>l r. (l - r) div 86400000)\<rparr>
     50 (DateObject (Some 0)) (DateObject (Some 172800000)) None = Some 100"
  using rental_total_bounds [of "\<lparr>parseISO = (\<lambda>s. None), format_valid = (\<lambda>t f. []),
        differenceInDays_valid = (\<lambda>l r. (l - r) div 86400000)\<rparr>"
      "DateObject (Some 0)" 0 "DateObject (Some 172800000)" 172800000 50 None]
  by simp

section \<open>Text: behaviour\<close>

lemma slice0_nonneg [simp]: "0 \<le> m \<Longrightarrow> slice0 m xs = take (nat m) xs"
  by (simp add: slice0_def)

lemma truncateText_simps:
  "truncateText None m = None"
  "truncateText (Some []) m = Some []"
  "int (length t) \<le> default_arg 100 m \<Longrightarrow> truncateText (Some t) m = Some t"
  "t \<noteq> [] \<Longrightarrow> default_arg 100 m < int (length t) \<Longrightarrow>
     truncateText (Some t) m = Some (slice0 (default_arg 100 m) t @ ''...'')"
  by (auto simp: truncateText_def Let_def)

lemma truncateText_cut:
  assumes "0 \<le> m" and "m < int (length t)"
  shows "truncateText (Some t) (Some m) = Some (take (nat m) t @ ''...'')"
proof -
  from assms have "t \<noteq> []" by auto
  with assms show ?thesis by (simp add: truncateText_simps)
qed

text \<open>
  A text longer than the limit is cut to the limit and three dots are
  appended: the result is three characters longer than the limit, it keeps
  the first characters of the text, and truncating it again changes nothing.
  A text that exceeds the limit by one or two characters comes out longer
  than it went in.
\<close>

theorem truncateText_length:
  assumes "0 \<le> m" and "m < int (length t)"
  shows "\<exists>r. truncateText (Some t) (Some m) = Some r \<and> length r = nat m + 3 \<and>
             take (nat m) r = take (nat m) t \<and> drop (nat m) r = ''...'' \<and>
             truncateText (Some r) (Some m) = Some r \<and>
             (int (length t) < m + 3 \<longrightarrow> length t < length r)"
proof -
  let ?r = "take (nat m) t @ ''...''"
  from assms have len: "length (take (nat m) t) = nat m" by simp
  then have "length ?r = nat m + 3" by simp
  moreover from assms(1) this have "truncateText (Some ?r) (Some m) = Some ?r"
    by (subst truncateText_cut) (simp_all add: len)
  ultimately show ?thesis
    using assms by (auto simp: truncateText_cut len)
qed

theorem truncateText_length_witness:
  "truncateText (Some ''abcde'') (Some 4) = Some ''abcd...''"
  using truncateText_length [of 4 "''abcde''"] by (simp add: truncateText_cut)

section \<open>Star rating: behaviour\<close>

lemma push_full_eq: "push_full i n stars = stars @ replicate (nat (n - i)) BlackStar"
proof (induction i n stars rule: push_full.induct)
  case (1 i n stars)
  show ?case
  proof (cases "i < n")
    case True
    then have "nat (n - i) = Suc (nat (n - (i + 1)))" by simp
    with True 1 show ?thesis
      by (subst push_full.simps) (simp add: replicate_app_Cons_same)
  next
    case False
    then show ?thesis by (subst push_full.simps) simp
  qed
qed

lemma fill_empty_eq: "fill_empty stars = stars @ replicate (5 - length stars) WhiteStar"
proof (induction stars rule: fill_empty.induct)
  case (1 stars)
  show ?case
  proof (cases "length stars < 5")
    case True
    then have "5 - length stars = Suc (5 - length (stars @ [WhiteStar]))" by simp
    with True 1 show ?thesis
      by (subst fill_empty.simps) (simp add: replicate_app_Cons_same)
  next
    case False
    then show ?thesis by (subst fill_empty.simps) simp
  qed
qed

lemma generateStarRating_eq:
  "generateStarRating r =
     replicate (nat \<lfloor>r\<rfloor>) BlackStar @
     replicate ((if frac r \<noteq> 0 then 1 else 0) +
                (5 - (nat \<lfloor>r\<rfloor> + (if frac r \<noteq> 0 then 1 else 0)))) WhiteStar"
  by (simp add: generateStarRating_def Let_def push_full_eq fill_empty_eq replicate_add)

lemma floor_less_5_iff: "nat \<lfloor>r\<rfloor> < 5 \<longleftrightarrow> r < (5::rat)"
proof -
  have "\<lfloor>r\<rfloor> < 5 \<longleftrightarrow> r < 5"
    using floor_less_iff [of r 5] by simp
  moreover have "nat \<lfloor>r\<rfloor> < 5 \<longleftrightarrow> \<lfloor>r\<rfloor> < 5"
    by arith
  ultimately show ?thesis by simp
qed

lemma floor_5_frac: "r \<le> (5::rat) \<Longrightarrow> \<not> nat \<lfloor>r\<rfloor> < 5 \<Longrightarrow> nat \<lfloor>r\<rfloor> = 5 \<and> frac r = 0"
proof -
  assume a: "r \<le> 5" "\<not> nat \<lfloor>r\<rfloor> < 5"
  then have "r = 5" by (simp add: floor_less_5_iff)
  then show ?thesis by simp
qed

text \<open>
  C35: the two loops compute a closed form. The rating is shown as one black
  star per full point, followed by white stars: as many as are missing to
  five, and at least one when the rating is not an integer.
\<close>

theorem generateStarRating_closed_form:
  "generateStarRating r =
     replicate (nat \<lfloor>r\<rfloor>) BlackStar @
     replicate (max (if frac r \<noteq> 0 then 1 else 0) (5 - nat \<lfloor>r\<rfloor>)) WhiteStar"
proof -
  have "h + (5 - (n + h)) = max h (5 - n)" for h n :: nat
    by arith
  then show ?thesis
    by (simp only: generateStarRating_eq)
qed

text \<open>
  The rating has five glyphs exactly when it is at most five; a larger
  rating gets one glyph per full point and one more when it is not an
  integer. Nothing clamps the rating.
\<close>

theorem star_rating_length:
  "length (generateStarRating r) =
     (if r \<le> 5 then 5 else nat \<lfloor>r\<rfloor> + (if frac r \<noteq> 0 then 1 else 0))"
proof (cases "nat \<lfloor>r\<rfloor> < 5")
  case True
  then show ?thesis
    using floor_less_5_iff [of r] by (simp add: generateStarRating_eq)
next
  case False
  then show ?thesis
    using floor_5_frac [of r] floor_less_5_iff [of r] by (auto simp: generateStarRating_eq)
qed

text \<open>
  A half star is drawn as an empty star. The glyph pushed for the
  fraction is the glyph that pads the list, so below five a rating and its
  integer part are shown alike: 4.5 looks like 4.
\<close>

theorem half_star_is_empty:
  assumes "r < 5"
  shows "generateStarRating r = generateStarRating (of_int \<lfloor>r\<rfloor>)"
proof -
  from assms have "nat \<lfloor>r\<rfloor> < 5" by (simp add: floor_less_5_iff)
  then show ?thesis
    by (simp add: generateStarRating_eq)
qed

theorem half_star_is_empty_witness:
  "(9 / 2 :: rat) < 5 \<and>
   generateStarRating (9 / 2) = [BlackStar, BlackStar, BlackStar, BlackStar, WhiteStar] \<and>
   generateStarRating 4 = [BlackStar, BlackStar, BlackStar, BlackStar, WhiteStar]"
  using half_star_is_empty [of "9 / 2"]
  by (simp add: generateStarRating_eq numeral_eq_Suc)

section \<open>Discount: behaviour\<close>

lemma calculateDiscountPercentage_simps:
  "calculateDiscountPercentage None d = 0"
  "calculateDiscountPercentage p None = 0"
  "calculateDiscountPercentage (Some 0) d = 0"
  "calculateDiscountPercentage p (Some 0) = 0"
  "orig \<noteq> 0 \<Longrightarrow> disc \<noteq> 0 \<Longrightarrow>
     calculateDiscountPercentage (Some orig) (Some disc) = Math_round ((orig - disc) / orig * 100)"
  by (simp_all add: calculateDiscountPercentage_def falsy_num_def split: option.splits)

lemma Math_round_mono: "x \<le> y \<Longrightarrow> Math_round x \<le> Math_round y"
  by (simp add: Math_round_def floor_mono)

lemma Math_round_of_int [simp]: "Math_round (of_int n) = n"
  by (simp add: Math_round_def) linarith

lemma Math_round_numeral [simp]:
  "Math_round 0 = 0"
  "Math_round (numeral k) = numeral k"
  using Math_round_of_int [of 0] Math_round_of_int [of "numeral k"] by simp_all

text \<open>
  A price of zero is falsy: an item that became free is reported as not
  discounted at all, where the formula would give 100.
\<close>

lemma discount_percentage_free_item:
  "calculateDiscountPercentage (Some orig) (Some 0) = 0"
  by (simp add: calculateDiscountPercentage_simps)

lemma discount_percentage_between:
  assumes "0 < disc" and "disc \<le> orig"
  shows "0 \<le> calculateDiscountPercentage (Some orig) (Some disc) \<and>
         calculateDiscountPercentage (Some orig) (Some disc) \<le> 100"
proof -
  let ?x = "(orig - disc) / orig * 100"
  from assms have "0 \<le> ?x" "?x \<le> 100"
    by (simp_all add: field_simps)
  then have "Math_round 0 \<le> Math_round ?x" "Math_round ?x \<le> Math_round 100"
    by (simp_all only: Math_round_mono)
  with assms show ?thesis
    by (simp add: calculateDiscountPercentage_simps)
qed

text \<open>
  C37: for a discounted price that is positive and not above the original
  price the percentage lies between 0 and 100, and both ends are reached;
  for a discounted price of zero the percentage is 0 and not 100.
\<close>

theorem discount_percentage_range:
  "calculateDiscountPercentage (Some orig) (Some 0) = 0 \<and>
   (0 < disc \<and> disc \<le> orig \<longrightarrow>
      0 \<le> calculateDiscountPercentage (Some orig) (Some disc) \<and>
      calculateDiscountPercentage (Some orig) (Some disc) \<le> 100)"
  using discount_percentage_between [of disc orig]
  by (simp add: discount_percentage_free_item)

theorem discount_percentage_range_witness:
  "(0::rat) < 1 \<and> (1::rat) \<le> 1000 \<and> calculateDiscountPercentage (Some 1000) (Some 1) = 100 \<and>
   calculateDiscountPercentage (Some 1000) (Some 0) = 0"
  using discount_percentage_range [of 1000 1]
  by (simp add: calculateDiscountPercentage_simps Math_round_def)

section \<open>Debounce: behaviour\<close>

lemma run_timers_simps [simp]:
  "timeout d = None \<Longrightarrow> run_timers now d = d"
  "timeout d = Some (due, args) \<Longrightarrow> now < due \<Longrightarrow> run_timers now d = d"
  "timeout d = Some (due, args) \<Longrightarrow> due \<le> now \<Longrightarrow>
     run_timers now d = d\<lparr>timeout := None, fired := fired d @ [args]\<rparr>"
  by (simp_all add: run_timers_def later_def)

lemma debounce_fields [simp]:
  "timeout debounce = None"
  "fired debounce = []"
  by (simp_all add: debounce_def)

lemma executedFunction_fields [simp]:
  "timeout (executedFunction wait now args d) = Some (now + wait, args)"
  "fired (executedFunction wait now args d) = fired d"
  by (simp_all add: executedFunction_def)

lemma run_calls_pending:
  assumes "timeout d = Some (fst c + wait, snd c)"
  shows "run_calls wait cs d =
           d\<lparr>timeout := Some (fst (last (c # cs)) + wait, snd (last (c # cs))),
             fired := fired d @ quiet_calls wait (c # cs)\<rparr>"
  using assms
proof (induction cs arbitrary: c d)
  case Nil
  then show ?case by simp
next
  case (Cons c' cs)
  obtain now args where c': "c' = (now, args)" by (cases c')
  let ?d = "executedFunction wait now args (run_timers now d)"
  have "timeout ?d = Some (fst c' + wait, snd c')"
    by (simp add: c')
  from Cons.IH [OF this] Cons.prems show ?case
    by (cases "fst c + wait \<le> now") (simp_all add: c' executedFunction_def)
qed

lemma run_calls_debounce:
  assumes "cs \<noteq> []"
  shows "run_calls wait cs debounce =
           \<lparr>timeout = Some (fst (last cs) + wait, snd (last cs)), fired = quiet_calls wait cs\<rparr>"
proof -
  from assms obtain now args cs' where cs: "cs = (now, args) # cs'"
    by (cases cs) auto
  let ?d = "executedFunction wait now args (debounce :: 'a debounced)"
  have "run_calls wait cs debounce = run_calls wait cs' ?d"
    by (simp add: cs debounce_def)
  with run_calls_pending [of ?d "(now, args)" wait cs'] show ?thesis
    by (simp add: cs debounce_def)
qed

text \<open>
  C34: the debounced function implements its promise. After any schedule of
  calls, \<^verbatim>\<open>func\<close> has been called exactly for the calls that were followed
  by a pause of at least \<open>wait\<close>, in their order and with their arguments,
  and the timer of the last call is pending, due \<open>wait\<close> after it.
\<close>

theorem debounce_fires_quiet_calls:
  "fired (run_calls wait cs debounce) = quiet_calls wait cs \<and>
   timeout (run_calls wait cs debounce) =
     (if cs = [] then None else Some (fst (last cs) + wait, snd (last cs)))"
  by (cases "cs = []") (simp_all add: run_calls_debounce)

text \<open>
  In particular a burst of calls reaches \<^verbatim>\<open>func\<close> once, with the arguments of
  its last call, and not before \<open>wait\<close> has passed since that call.
\<close>

lemma quiet_calls_burst: "burst wait cs \<Longrightarrow> quiet_calls wait cs = []"
  by (induction wait cs rule: burst.induct) auto

lemma debounce_burst:
  assumes "burst wait cs" and "cs \<noteq> []" and "fst (last cs) + wait \<le> end"
  shows "fired (run_calls wait cs debounce) = [] \<and>
         fired (run_timers end (run_calls wait cs debounce)) = [snd (last cs)]"
  using assms by (simp add: run_calls_debounce quiet_calls_burst)

lemma debounce_burst_example:
  "fired (run_timers 500 (run_calls 300 [(0, ''b''), (100, ''bi''), (150, ''bik'')] debounce))
     = [''bik'']"
  by (simp add: run_calls_debounce)

section \<open>File sizes: behaviour\<close>

lemma floor_log_less [simp]: "n < k \<Longrightarrow> floor_log k n = 0"
  by (subst floor_log.simps) simp

lemma floor_log_step: "1 < k \<Longrightarrow> k \<le> n \<Longrightarrow> floor_log k n = Suc (floor_log k (n div k))"
  by (subst floor_log.simps) simp

lemma floor_log_numeral [simp]:
  "floor_log (numeral k) (numeral n) =
     (if (numeral k :: nat) \<le> 1 \<or> (numeral n :: nat) < numeral k then 0
      else Suc (floor_log (numeral k) (numeral n div numeral k)))"
  by (rule floor_log.simps)

text \<open>The recursion computes the integer logarithm: it is the \<open>i\<close> with \<open>k^i \<le> n < k^(i+1)\<close>.\<close>

lemma floor_log_bounds:
  assumes "1 < k" and "0 < n"
  shows "k ^ floor_log k n \<le> n \<and> n < k ^ Suc (floor_log k n)"
  using assms
proof (induction k n rule: floor_log.induct)
  case (1 k n)
  show ?case
  proof (cases "n < k")
    case True
    with 1 show ?thesis by simp
  next
    case False
    with 1 have "0 < n div k" by (simp add: div_greater_zero_iff)
    with 1 False have IH: "k ^ floor_log k (n div k) \<le> n div k"
        "n div k < k ^ Suc (floor_log k (n div k))"
      by simp_all
    from IH(1) have "k * k ^ floor_log k (n div k) \<le> k * (n div k)" by simp
    also have "\<dots> \<le> n" by simp
    finally have lo: "k ^ Suc (floor_log k (n div k)) \<le> n" by simp
    from IH(2) have "n < k * k ^ Suc (floor_log k (n div k))"
      using 1(2) by (simp add: div_less_iff_less_mult mult.commute)
    with lo 1 False show ?thesis by (simp add: floor_log_step)
  qed
qed

lemma floor_log_less_iff:
  assumes "1 < k" and "0 < n"
  shows "floor_log k n < i \<longleftrightarrow> n < k ^ i"
proof
  assume "floor_log k n < i"
  then have "k ^ Suc (floor_log k n) \<le> k ^ i"
    using assms(1) by (intro power_increasing) simp_all
  with floor_log_bounds [OF assms] show "n < k ^ i" by simp
next
  assume "n < k ^ i"
  with floor_log_bounds [OF assms] have "k ^ floor_log k n < k ^ i" by simp
  with assms(1) show "floor_log k n < i" by (simp add: power_less_imp_less_exp)
qed

lemma toFixed2_bounds:
  assumes "1 \<le> x" and "x < 1024"
  shows "100 \<le> toFixed2 x \<and> toFixed2 x \<le> 102400"
proof -
  define f where "f = \<lfloor>x * 100 + 1 / 2\<rfloor>"
  from assms have "100 \<le> f" "f \<le> 102400"
    by (simp_all add: f_def le_floor_iff floor_le_iff)
  then have "100 \<le> nat f \<and> nat f \<le> 102400"
    by linarith
  then show ?thesis
    by (simp add: toFixed2_def flip: f_def)
qed

lemma file_size_mantissa:
  assumes "0 < bytes"
  shows "1 \<le> (of_nat bytes :: rat) / of_nat (1024 ^ floor_log 1024 bytes) \<and>
         (of_nat bytes :: rat) / of_nat (1024 ^ floor_log 1024 bytes) < 1024"
proof -
  let ?i = "floor_log 1024 bytes"
  from floor_log_bounds [of 1024 bytes] assms
  have "1024 ^ ?i \<le> bytes" "bytes < 1024 * 1024 ^ ?i" by simp_all
  then have "(of_nat (1024 ^ ?i) :: rat) \<le> of_nat bytes"
      "(of_nat bytes :: rat) < of_nat (1024 * 1024 ^ ?i)"
    by (simp_all only: of_nat_le_iff of_nat_less_iff)
  then show ?thesis
    by (simp add: field_simps)
qed

lemma sizes_nth_opt: "nth_opt sizes i = (if i < 4 then Some (sizes ! i) else None)"
  by (simp add: nth_opt_def sizes_def)

lemma formatFileSize_examples:
  "formatFileSize 0 = ''0 Bytes''"
  "formatFileSize 1536 = ''1.5 KB''"
  "formatFileSize 1048575 = ''1024 KB''"
  "formatFileSize 1099511627776 = ''1 undefined''"
  by (simp_all add: formatFileSize_def toFixed2_def show_hundredths_def sizes_def digit_char_def)

text \<open>
  C36: the size of a file that is not empty is printed as a number between 1
  and 1024, both included, with at most two decimals, a space and a unit.
  The unit is the entry of \<^verbatim>\<open>sizes\<close> for the magnitude while the size is
  below \<open>1024^4\<close>; from there on the table is read past its end and the
  unit is printed as \<^verbatim>\<open>undefined\<close>. The upper end is reached: a size just
  below a power of 1024 is rounded up to \<^verbatim>\<open>1024\<close> of the smaller unit.
\<close>

theorem formatFileSize_shape:
  assumes "0 < bytes"
  shows "\<exists>h. 100 \<le> h \<and> h \<le> 102400 \<and>
           formatFileSize bytes = show_hundredths h @ '' '' @
             (if bytes < 1024 ^ 4 then sizes ! floor_log 1024 bytes else ''undefined'')"
proof -
  let ?h = "toFixed2 (of_nat bytes / of_nat (1024 ^ floor_log 1024 bytes))"
  have "100 \<le> ?h \<and> ?h \<le> 102400"
    using file_size_mantissa [OF assms] by (intro toFixed2_bounds) simp_all
  moreover have "formatFileSize bytes = show_hundredths ?h @ '' '' @
             (if bytes < 1024 ^ 4 then sizes ! floor_log 1024 bytes else ''undefined'')"
    using assms floor_log_less_iff [of 1024 bytes 4]
    by (simp add: formatFileSize_def Let_def sizes_nth_opt)
  ultimately show ?thesis by blast
qed

theorem formatFileSize_shape_witness:
  "(0::nat) < 1048575 \<and> formatFileSize 1048575 = ''1024 KB''"
  using formatFileSize_shape [of 1048575]
  by (simp add: formatFileSize_examples)

section \<open>Replacing runs\<close>

lemma filter_dropWhile_neg: "filter (\<lambda>x. \<not> P x) (dropWhile P xs) = filter (\<lambda>x. \<not> P x) xs"
  by (induction xs) auto

lemma replace_runs_delete: "replace_runs P (Suc 0) [] xs = filter (\<lambda>x. \<not> P x) xs"
  by (induction P "Suc 0" "[] :: 'a list" xs rule: replace_runs.induct)
     (simp_all add: filter_dropWhile_neg)

lemma set_replace_runs: "set (replace_runs P n r xs) \<subseteq> set xs \<union> set r"
proof (induction P n r xs rule: replace_runs.induct)
  case (2 P n r x xs)
  have "set (takeWhile P xs) \<subseteq> set xs" "set (dropWhile P xs) \<subseteq> set xs"
    by (auto dest: set_takeWhileD set_dropWhileD)
  with 2 show ?case by (auto split: if_splits)
qed simp

lemma replace_runs_id: "(\<And>x. x \<in> set xs \<Longrightarrow> \<not> P x) \<Longrightarrow> replace_runs P n r xs = xs"
  by (induction xs) auto

lemma no_double_Cons:
  "no_double P (x # xs) \<longleftrightarrow> (xs = [] \<or> \<not> (P x \<and> P (hd xs))) \<and> no_double P xs"
  by (cases xs) auto

lemma no_double_append:
  "no_double P (xs @ ys) \<longleftrightarrow>
     no_double P xs \<and> no_double P ys \<and> (xs = [] \<or> ys = [] \<or> \<not> (P (last xs) \<and> P (hd ys)))"
  by (induction xs) (auto simp: no_double_Cons hd_append)

lemma replace_runs_hd:
  "xs = [] \<or> \<not> P (hd xs) \<Longrightarrow>
   replace_runs P n r xs = [] \<or> \<not> P (hd (replace_runs P n r xs))"
  by (cases xs) auto

lemma dropWhile_hd: "dropWhile P xs = [] \<or> \<not> P (hd (dropWhile P xs))"
  using hd_dropWhile [of P xs] by blast

lemma no_double_replace_runs: "P c \<Longrightarrow> no_double P (replace_runs P 2 [c] xs)"
proof (induction P "2::nat" "[c]" xs rule: replace_runs.induct)
  case (2 P x xs)
  let ?rest = "replace_runs P 2 [c] (dropWhile P xs)"
  have hd: "?rest = [] \<or> \<not> P (hd ?rest)"
    by (intro replace_runs_hd dropWhile_hd)
  show ?case
  proof (cases "P x")
    case True
    with 2 hd show ?thesis
      by (cases "takeWhile P xs") (auto simp: no_double_Cons)
  next
    case False
    with 2 show ?thesis by (auto simp: no_double_Cons)
  qed
qed simp

lemma replace_runs_no_double: "no_double P xs \<Longrightarrow> replace_runs P 2 r xs = xs"
proof (induction xs)
  case (Cons x xs)
  then show ?case
    by (cases xs) (auto simp: no_double_Cons)
qed simp

section \<open>Trimming\<close>

lemma drop_trailing_append: "drop_trailing P xs @ rev (takeWhile P (rev xs)) = xs"
  unfolding drop_trailing_def by (metis rev_append rev_rev_ident takeWhile_dropWhile_id)

lemma drop_trailing_last: "drop_trailing P xs = [] \<or> \<not> P (last (drop_trailing P xs))"
  using dropWhile_hd [of P "rev xs"] by (auto simp: drop_trailing_def last_rev)

lemma drop_trailing_hd: "drop_trailing P xs \<noteq> [] \<Longrightarrow> hd (drop_trailing P xs) = hd xs"
  using drop_trailing_append [of P xs] by (metis hd_append2)

lemma set_drop_trailing: "set (drop_trailing P xs) \<subseteq> set xs"
  by (auto simp: drop_trailing_def dest: set_dropWhileD)

lemma drop_trailing_id: "xs = [] \<or> \<not> P (last xs) \<Longrightarrow> drop_trailing P xs = xs"
  by (cases xs rule: rev_cases) (auto simp: drop_trailing_def)

lemma dropWhile_id: "xs = [] \<or> \<not> P (hd xs) \<Longrightarrow> dropWhile P xs = xs"
  by (cases xs) auto

lemma no_double_dropWhile: "no_double P xs \<Longrightarrow> no_double P (dropWhile Q xs)"
  using takeWhile_dropWhile_id [of Q xs] by (metis no_double_append)

lemma no_double_drop_trailing: "no_double P xs \<Longrightarrow> no_double P (drop_trailing Q xs)"
  using drop_trailing_append [of Q xs] by (metis no_double_append)

lemma trimmed_ends:
  "drop_trailing P (dropWhile P xs) = [] \<or>
   \<not> P (hd (drop_trailing P (dropWhile P xs))) \<and> \<not> P (last (drop_trailing P (dropWhile P xs)))"
proof (cases "drop_trailing P (dropWhile P xs) = []")
  case False
  have "drop_trailing P [] = []"
    by (simp add: drop_trailing_def)
  with False have "dropWhile P xs \<noteq> []"
    by metis
  with dropWhile_hd [of P xs] have "\<not> P (hd (dropWhile P xs))" by blast
  with False drop_trailing_last [of P "dropWhile P xs"] show ?thesis
    by (simp add: drop_trailing_hd)
qed simp

section \<open>Slugs: behaviour\<close>

text \<open>On a character literal the classes evaluate; on a variable they stay folded.\<close>

lemma is_space_Char [simp]:
  "is_space (Char b0 b1 b2 b3 b4 b5 b6 b7) \<longleftrightarrow>
     (of_char (Char b0 b1 b2 b3 b4 b5 b6 b7) :: nat) \<in> {9, 10, 11, 12, 13, 32, 160}"
  by (rule is_space_def)

lemma is_word_Char [simp]:
  "is_word (Char b0 b1 b2 b3 b4 b5 b6 b7) \<longleftrightarrow>
     (48 \<le> (of_char (Char b0 b1 b2 b3 b4 b5 b6 b7) :: nat) \<and>
      (of_char (Char b0 b1 b2 b3 b4 b5 b6 b7) :: nat) \<le> 57) \<or>
     (65 \<le> (of_char (Char b0 b1 b2 b3 b4 b5 b6 b7) :: nat) \<and>
      (of_char (Char b0 b1 b2 b3 b4 b5 b6 b7) :: nat) \<le> 90) \<or>
     (of_char (Char b0 b1 b2 b3 b4 b5 b6 b7) :: nat) = 95 \<or>
     (97 \<le> (of_char (Char b0 b1 b2 b3 b4 b5 b6 b7) :: nat) \<and>
      (of_char (Char b0 b1 b2 b3 b4 b5 b6 b7) :: nat) \<le> 122)"
  by (rule is_word_def)

lemma is_dash_Char [simp]:
  "is_dash (Char b0 b1 b2 b3 b4 b5 b6 b7) \<longleftrightarrow> Char b0 b1 b2 b3 b4 b5 b6 b7 = CHR ''-''"
  by (rule is_dash_def)

lemma slugify_eq:
  "slugify t =
     drop_trailing is_dash (dropWhile is_dash (replace_runs is_dash 2 ''-''
       (filter (\<lambda>c. is_word c \<or> is_dash c) (replace_runs is_space 1 ''-'' (toLowerCase t)))))"
  by (simp add: slugify_def Let_def replace_runs_delete)

lemma is_space_not_slug: "is_space c \<Longrightarrow> \<not> (is_word c \<or> is_dash c)"
  by (auto simp: is_space_def is_word_def is_dash_def)

lemma slugify_chars: "c \<in> set (slugify t) \<Longrightarrow> is_slug_char c"
proof -
  let ?s2 = "replace_runs is_space 1 ''-'' (toLowerCase t)"
  let ?s3 = "filter (\<lambda>c. is_word c \<or> is_dash c) ?s2"
  assume "c \<in> set (slugify t)"
  then have "c \<in> set (replace_runs is_dash 2 ''-'' ?s3)"
    using set_drop_trailing set_dropWhileD unfolding slugify_eq by fast
  then have "c \<in> set ?s3 \<or> c = CHR ''-''"
    using set_replace_runs [of is_dash 2 "''-''" ?s3] by auto
  moreover have "\<not> is_upper x" if "x \<in> set ?s2" for x
    using that set_replace_runs [of is_space 1 "''-''" "toLowerCase t"] by auto
  ultimately show ?thesis
    by (auto simp: is_slug_char_def)
qed

lemma slugify_no_double: "no_double is_dash (slugify t)"
  unfolding slugify_eq
  by (intro no_double_drop_trailing no_double_dropWhile no_double_replace_runs) simp

lemma slugify_ends:
  "slugify t = [] \<or> \<not> is_dash (hd (slugify t)) \<and> \<not> is_dash (last (slugify t))"
  unfolding slugify_eq by (rule trimmed_ends)

lemma toLowerCase_id: "(\<And>c. c \<in> set s \<Longrightarrow> \<not> is_upper c) \<Longrightarrow> toLowerCase s = s"
  by (induction s) (simp_all add: to_lower_def)

lemma slugify_example: "slugify ''  Trek FX 3 -- Disc! '' = ''trek-fx-3-disc''"
  by (simp add: slugify_eq drop_trailing_def)

text \<open>
  C33: the result of \<^verbatim>\<open>slugify\<close> is a slug. Whatever the text, every
  character of the result is a lower-case letter, a digit, an underscore or
  a dash, no two dashes follow each other, and the result neither starts nor
  ends with a dash. It may be empty.
\<close>

theorem slugify_wellformed:
  "(\<forall>c \<in> set (slugify t). is_slug_char c) \<and> no_double is_dash (slugify t) \<and>
   (slugify t = [] \<or> \<not> is_dash (hd (slugify t)) \<and> \<not> is_dash (last (slugify t)))"
  using slugify_chars slugify_no_double slugify_ends by blast

theorem slugify_wellformed_witness:
  "slugify ''  Trek FX 3 -- Disc! '' = ''trek-fx-3-disc'' \<and>
   is_slug_char CHR ''k'' \<and> is_slug_char CHR ''-'' \<and> is_slug_char CHR ''3''"
  using slugify_wellformed [of "''  Trek FX 3 -- Disc! ''"] by (simp add: slugify_example)

text \<open>
  C32: \<^verbatim>\<open>slugify\<close> is idempotent: a slug is its own slug, so a slug that is
  stored and passed through the helper again does not change.
\<close>

theorem slugify_idempotent: "slugify (slugify t) = slugify t"
proof -
  let ?y = "slugify t"
  have chars: "is_slug_char c" if "c \<in> set ?y" for c
    using that by (rule slugify_chars)
  have "toLowerCase ?y = ?y"
    using chars by (intro toLowerCase_id) (simp add: is_slug_char_def)
  moreover have "replace_runs is_space 1 ''-'' ?y = ?y"
    using chars is_space_not_slug by (intro replace_runs_id) (auto simp: is_slug_char_def)
  moreover have "filter (\<lambda>c. is_word c \<or> is_dash c) ?y = ?y"
    using chars by (simp add: is_slug_char_def)
  moreover have "replace_runs is_dash 2 ''-'' ?y = ?y"
    by (intro replace_runs_no_double slugify_no_double)
  moreover have "dropWhile is_dash ?y = ?y" "drop_trailing is_dash ?y = ?y"
    using slugify_ends [of t] by (auto intro: dropWhile_id drop_trailing_id)
  ultimately show ?thesis
    by (simp add: slugify_eq [of "slugify t"])
qed

section \<open>Files\<close>

lemma isValidImageFile_iff:
  "isValidImageFile f \<longleftrightarrow>
     file_type f \<in> {''image/jpeg'', ''image/jpg'', ''image/png'', ''image/gif''}"
  by (simp add: isValidImageFile_def validTypes_def)

end
