(* ===== verification/Validation.thy ===== *)
theory Validation
  imports Prelude Complex_Main
begin

text \<open>
  The form schemas of \<^verbatim>\<open>src/frontend/src/utils/validationSchemas.js\<close>. A
  schema is data, as in the source: an object of fields, each a type with a
  chain of tests, each test with its message. The definitions of the nine
  schemas read like the source with the chain turned inside out:
  \<^verbatim>\<open>yup.string().email(m).required(n)\<close> is
  \<open>yup_required n (yup_email m yup_string)\<close>.

  The library \<^verbatim>\<open>yup\<close> is not part of the repository. Its tests are
  modelled from its documentation: a test other than \<^verbatim>\<open>required\<close> passes on a
  value that is absent; \<^verbatim>\<open>required\<close> fails on an absent value and on the
  empty string; \<^verbatim>\<open>email\<close> passes on the empty string; \<^verbatim>\<open>min\<close> and \<^verbatim>\<open>max\<close>
  are inclusive and compare the length of a string, a number or a date;
  a value of the wrong type (a number field holding \<^verbatim>\<open>NaN\<close>, a date field
  holding an invalid date) fails with the type error and no other test runs.
  Validation collects the messages of all failing tests, as the form
  resolver asks it to. The schemas are applied to values that are already
  cast: the text of a number input is a number or \<^verbatim>\<open>NaN\<close>. The pattern that
  decides what an email address is belongs to the library and is the
  parameter \<open>is_email\<close>.
\<close>

section \<open>Values and schemas\<close>

datatype jsval =
    VUndefined
  | VNull
  | VStr string
  | VNum rat
  | VNaN
  | VDate int
  | VInvalidDate
  | VObj "(string \<times> jsval) list"

type_synonym parent = jsval

definition absent :: "jsval \<Rightarrow> bool" where
  "absent v \<longleftrightarrow> v = VUndefined \<or> v = VNull"

text \<open>\<^verbatim>\<open>parent[k]\<close>: a property that is missing, or read off a non-object, is \<^verbatim>\<open>undefined\<close>.\<close>

fun get_prop :: "jsval \<Rightarrow> string \<Rightarrow> jsval" where
  "get_prop (VObj fs) k = (case map_of fs k of None \<Rightarrow> VUndefined | Some v \<Rightarrow> v)"
| "get_prop v k = VUndefined"

datatype kind = KString | KNumber | KDate

record test =
  message :: string
  passes :: "parent \<Rightarrow> jsval \<Rightarrow> bool"

datatype schema =
    Field kind "test list"
  | Object "(string \<times> schema) list"

text \<open>A limit of \<^verbatim>\<open>min\<close>, \<^verbatim>\<open>max\<close> or \<^verbatim>\<open>oneOf\<close>: a value or \<^verbatim>\<open>yup.ref(k)\<close>.\<close>

datatype limit = Lit jsval | Ref string

fun resolve :: "parent \<Rightarrow> limit \<Rightarrow> jsval" where
  "resolve p (Lit v) = v"
| "resolve p (Ref k) = get_prop p k"

section \<open>The tests of the library\<close>

definition yup_string :: schema where "yup_string = Field KString []"
definition yup_number :: schema where "yup_number = Field KNumber []"
definition yup_date :: schema where "yup_date = Field KDate []"
definition yup_object :: "(string \<times> schema) list \<Rightarrow> schema" where "yup_object fs = Object fs"

fun add_test :: "string \<Rightarrow> (parent \<Rightarrow> jsval \<Rightarrow> bool) \<Rightarrow> schema \<Rightarrow> schema" where
  "add_test m f (Field k ts) = Field k (ts @ [\<lparr>message = m, passes = f\<rparr>])"
| "add_test m f (Object fs) = Object fs"

text \<open>\<open>at_least v l\<close> is \<^verbatim>\<open>v >= l\<close> as \<^verbatim>\<open>min\<close> means it for the type of \<open>v\<close>.\<close>

fun at_least :: "jsval \<Rightarrow> jsval \<Rightarrow> bool" where
  "at_least (VStr s) (VNum n) \<longleftrightarrow> n \<le> of_nat (length s)"
| "at_least (VNum x) (VNum n) \<longleftrightarrow> n \<le> x"
| "at_least (VDate d) (VDate m) \<longleftrightarrow> m \<le> d"
| "at_least v l \<longleftrightarrow> False"

fun at_most :: "jsval \<Rightarrow> jsval \<Rightarrow> bool" where
  "at_most (VStr s) (VNum n) \<longleftrightarrow> of_nat (length s) \<le> n"
| "at_most (VNum x) (VNum n) \<longleftrightarrow> x \<le> n"
| "at_most (VDate d) (VDate m) \<longleftrightarrow> d \<le> m"
| "at_most v l \<longleftrightarrow> False"

definition yup_required :: "string \<Rightarrow> schema \<Rightarrow> schema" where
  "yup_required m = add_test m (\<lambda>p v. \<not> absent v \<and> v \<noteq> VStr [])"

definition yup_email :: "(string \<Rightarrow> bool) \<Rightarrow> string \<Rightarrow> schema \<Rightarrow> schema" where
  "yup_email is_email m =
     add_test m (\<lambda>p v. case v of VStr s \<Rightarrow> s = [] \<or> is_email s | _ \<Rightarrow> absent v)"

definition yup_min :: "limit \<Rightarrow> string \<Rightarrow> schema \<Rightarrow> schema" where
  "yup_min l m = add_test m (\<lambda>p v. absent v \<or> at_least v (resolve p l))"

definition yup_max :: "limit \<Rightarrow> string \<Rightarrow> schema \<Rightarrow> schema" where
  "yup_max l m = add_test m (\<lambda>p v. absent v \<or> at_most v (resolve p l))"

definition yup_positive :: "string \<Rightarrow> schema \<Rightarrow> schema" where
  "yup_positive m = add_test m (\<lambda>p v. case v of VNum x \<Rightarrow> 0 < x | _ \<Rightarrow> absent v)"

definition yup_oneOf :: "limit list \<Rightarrow> string \<Rightarrow> schema \<Rightarrow> schema" where
  "yup_oneOf ls m = add_test m (\<lambda>p v. v = VUndefined \<or> v \<in> set (map (resolve p) ls))"

definition yup_test :: "string \<Rightarrow> string \<Rightarrow> (parent \<Rightarrow> jsval \<Rightarrow> bool) \<Rightarrow> schema \<Rightarrow> schema" where
  "yup_test name m f = add_test m f"

section \<open>Validation\<close>

fun type_ok :: "kind \<Rightarrow> jsval \<Rightarrow> bool" where
  "type_ok k VUndefined = True"
| "type_ok k VNull = True"
| "type_ok KString (VStr s) = True"
| "type_ok KNumber (VNum x) = True"
| "type_ok KDate (VDate d) = True"
| "type_ok k v = False"

fun typeError :: "kind \<Rightarrow> string" where
  "typeError KString = ''must be a `string` type''"
| "typeError KNumber = ''must be a `number` type''"
| "typeError KDate = ''must be a `date` type''"

text \<open>
  The errors of a value against a schema, as pairs of the path of the field
  and the message, in the order of the fields and of the tests.
\<close>

fun validate :: "string \<Rightarrow> parent \<Rightarrow> schema \<Rightarrow> jsval \<Rightarrow> (string \<times> string) list" where
  "validate path p (Field k ts) v =
     (if \<not> type_ok k v then [(path, typeError k)]
      else map (\<lambda>t. (path, message t)) (filter (\<lambda>t. \<not> passes t p v) ts))"
| "validate path p (Object fs) v =
     concat (map (\<lambda>(name, s).
        validate (if path = [] then name else path @ ''.'' @ name) v s (get_prop v name)) fs)"

definition isValid :: "schema \<Rightarrow> jsval \<Rightarrow> bool" where
  "isValid s v \<longleftrightarrow> validate [] VUndefined s v = []"

section \<open>Authentication schemas\<close>

definition loginSchema :: "(string \<Rightarrow> bool) \<Rightarrow> schema" where
  "loginSchema is_email = yup_object
    [(''email'', yup_required ''Email is required''
        (yup_email is_email ''Invalid email format'' yup_string)),
     (''password'', yup_required ''Password is required''
        (yup_min (Lit (VNum 8)) ''Password must be at least 8 characters'' yup_string))]"

definition signupSchema :: "(string \<Rightarrow> bool) \<Rightarrow> schema" where
  "signupSchema is_email = yup_object
    [(''name'', yup_required ''Name is required''
        (yup_min (Lit (VNum 2)) ''Name must be at least 2 characters'' yup_string)),
     (''email'', yup_required ''Email is required''
        (yup_email is_email ''Invalid email format'' yup_string)),
     (''password'', yup_required ''Password is required''
        (yup_min (Lit (VNum 8)) ''Password must be at least 8 characters'' yup_string)),
     (''passwordConfirm'', yup_required ''Password confirmation is required''
        (yup_oneOf [Ref ''password'', Lit VNull] ''Passwords must match'' yup_string))]"

definition forgotPasswordSchema :: "(string \<Rightarrow> bool) \<Rightarrow> schema" where
  "forgotPasswordSchema is_email = yup_object
    [(''email'', yup_required ''Email is required''
        (yup_email is_email ''Invalid email format'' yup_string))]"

definition resetPasswordSchema :: schema where
  "resetPasswordSchema = yup_object
    [(''password'', yup_required ''Password is required''
        (yup_min (Lit (VNum 8)) ''Password must be at least 8 characters'' yup_string)),
     (''passwordConfirm'', yup_required ''Password confirmation is required''
        (yup_oneOf [Ref ''password'', Lit VNull] ''Passwords must match'' yup_string))]"

definition updatePasswordSchema :: schema where
  "updatePasswordSchema = yup_object
    [(''passwordCurrent'', yup_required ''Current password is required'' yup_string),
     (''password'', yup_required ''New password is required''
        (yup_min (Lit (VNum 8)) ''Password must be at least 8 characters'' yup_string)),
     (''passwordConfirm'', yup_required ''Password confirmation is required''
        (yup_oneOf [Ref ''password'', Lit VNull] ''Passwords must match'' yup_string))]"

section \<open>Profile, bike, booking and preferences\<close>

definition profileSchema :: "(string \<Rightarrow> bool) \<Rightarrow> schema" where
  "profileSchema is_email = yup_object
    [(''name'', yup_required ''Name is required''
        (yup_min (Lit (VNum 2)) ''Name must be at least 2 characters'' yup_string)),
     (''email'', yup_required ''Email is required''
        (yup_email is_email ''Invalid email format'' yup_string))]"

text \<open>
  The custom test of \<^verbatim>\<open>priceDiscount\<close>: \<^verbatim>\<open>!value || value < this.parent.price\<close>.
  A value is falsy when it is absent, \<^verbatim>\<open>NaN\<close> or zero; a comparison with a
  price that is not a number is false.
\<close>

definition discount_less_than_price :: "parent \<Rightarrow> jsval \<Rightarrow> bool" where
  "discount_less_than_price p v =
     (case v of
        VNum d \<Rightarrow> d = 0 \<or> (case get_prop p ''price'' of VNum pr \<Rightarrow> d < pr | _ \<Rightarrow> False)
      | VStr s \<Rightarrow> s = []
      | _ \<Rightarrow> absent v \<or> v = VNaN)"

definition bikeSchema :: schema where
  "bikeSchema = yup_object
    [(''name'', yup_required ''Bike name is required''
        (yup_max (Lit (VNum 40)) ''Name must be at most 40 characters'' yup_string)),
     (''engineCC'', yup_required ''Engine CC is required''
        (yup_positive ''Engine CC must be positive'' yup_number)),
     (''weight'', yup_required ''Weight is required''
        (yup_positive ''Weight must be positive'' yup_number)),
     (''price'', yup_required ''Price is required''
        (yup_positive ''Price must be positive'' yup_number)),
     (''priceDiscount'',
        yup_test ''discount-less-than-price'' ''Discount must be less than price''
          discount_less_than_price
          (yup_min (Lit (VNum 0)) ''Discount cannot be negative'' yup_number)),
     (''summary'', yup_required ''Summary is required'' yup_string),
     (''description'', yup_required ''Description is required'' yup_string),
     (''ratingsAverage'',
        yup_max (Lit (VNum 5)) ''Rating must be at most 5''
          (yup_min (Lit (VNum 1)) ''Rating must be at least 1'' yup_number))]"

text \<open>
  \<^verbatim>\<open>new Date()\<close> in the schema is evaluated once, when the module is loaded;
  \<open>loaded\<close> is that time.
\<close>

definition bookingSchema :: "int \<Rightarrow> schema" where
  "bookingSchema loaded = yup_object
    [(''bike'', yup_required ''Please select a bike'' yup_string),
     (''pickupLocation'', yup_required ''Pickup location is required'' yup_string),
     (''dropLocation'', yup_required ''Drop location is required'' yup_string),
     (''startDate'', yup_required ''Start date is required''
        (yup_min (Lit (VDate loaded)) ''Start date cannot be in the past'' yup_date)),
     (''endDate'', yup_required ''End date is required''
        (yup_min (Ref ''startDate'') ''End date must be after start date'' yup_date))]"

text \<open>
  The three ranges of the preferences are the same object schema up to their
  messages; \<open>range_schema\<close> is that schema.
\<close>

definition range_schema :: "string \<Rightarrow> string \<Rightarrow> schema" where
  "range_schema min_message max_message = yup_object
    [(''min'', yup_min (Lit (VNum 0)) min_message yup_number),
     (''max'', yup_positive max_message yup_number)]"

definition preferencesSchema :: schema where
  "preferencesSchema = yup_object
    [(''price'', range_schema ''Minimum price cannot be negative'' ''Maximum price must be positive''),
     (''engineCC'', range_schema ''Minimum engine CC cannot be negative''
        ''Maximum engine CC must be positive''),
     (''weight'', range_schema ''Minimum weight cannot be negative''
        ''Maximum weight must be positive'')]"

section \<open>Validity of a field and of an object\<close>

lemmas yup_defs = yup_string_def yup_number_def yup_date_def yup_object_def yup_required_def
  yup_email_def yup_min_def yup_max_def yup_positive_def yup_oneOf_def yup_test_def

text \<open>Validity of a field: the type is right and every test passes.\<close>

lemma validate_Field_Nil:
  "validate path p (Field k ts) v = [] \<longleftrightarrow> type_ok k v \<and> (\<forall>t \<in> set ts. passes t p v)"
  by (auto simp: filter_empty_conv)

lemma validate_Object_Nil:
  "validate path p (Object fs) v = [] \<longleftrightarrow>
     (\<forall>(name, s) \<in> set fs. validate (if path = [] then name else path @ ''.'' @ name) v s (get_prop v name) = [])"
  by (auto simp: concat_eq_Nil_conv)

lemma type_ok_iff:
  "type_ok KString v \<longleftrightarrow> absent v \<or> (\<exists>s. v = VStr s)"
  "type_ok KNumber v \<longleftrightarrow> absent v \<or> (\<exists>x. v = VNum x)"
  "type_ok KDate v \<longleftrightarrow> absent v \<or> (\<exists>d. v = VDate d)"
  by (cases v; simp add: absent_def)+

lemma absent_simps [simp]:
  "absent VUndefined" "absent VNull" "\<not> absent (VStr s)" "\<not> absent (VNum x)" "\<not> absent VNaN"
  "\<not> absent (VDate d)" "\<not> absent VInvalidDate" "\<not> absent (VObj fs)"
  by (simp_all add: absent_def)

section \<open>The chains of tests the schemas use\<close>

lemma required_string_ok:
  "validate path p (yup_required m yup_string) v = [] \<longleftrightarrow> (\<exists>s. v = VStr s \<and> s \<noteq> [])"
  unfolding yup_defs by (cases v) (auto simp: validate_Field_Nil)

lemma required_email_ok:
  "validate path p (yup_required m (yup_email E m' yup_string)) v = [] \<longleftrightarrow>
     (\<exists>s. v = VStr s \<and> s \<noteq> [] \<and> E s)"
  unfolding yup_defs by (cases v) (auto simp: validate_Field_Nil)

lemma length_numeral_rat [simp]:
  "(numeral n :: rat) \<le> of_nat k \<longleftrightarrow> numeral n \<le> k"
  "(of_nat k :: rat) \<le> numeral n \<longleftrightarrow> k \<le> numeral n"
  by (metis of_nat_le_iff of_nat_numeral)+

lemma required_min_string_ok:
  "validate path p (yup_required m (yup_min (Lit (VNum (numeral n))) m' yup_string)) v = [] \<longleftrightarrow>
     (\<exists>s. v = VStr s \<and> s \<noteq> [] \<and> numeral n \<le> length s)"
  unfolding yup_defs by (cases v) (auto simp: validate_Field_Nil)

lemma required_max_string_ok:
  "validate path p (yup_required m (yup_max (Lit (VNum (numeral n))) m' yup_string)) v = [] \<longleftrightarrow>
     (\<exists>s. v = VStr s \<and> s \<noteq> [] \<and> length s \<le> numeral n)"
  unfolding yup_defs by (cases v) (auto simp: validate_Field_Nil)

lemma required_confirm_ok:
  "validate path p (yup_required m (yup_oneOf [Ref k, Lit VNull] m' yup_string)) v = [] \<longleftrightarrow>
     (\<exists>s. v = VStr s \<and> s \<noteq> [] \<and> get_prop p k = VStr s)"
  unfolding yup_defs by (cases v) (auto simp: validate_Field_Nil absent_def)

lemma required_positive_ok:
  "validate path p (yup_required m (yup_positive m' yup_number)) v = [] \<longleftrightarrow>
     (\<exists>x. v = VNum x \<and> 0 < x)"
  unfolding yup_defs by (cases v) (auto simp: validate_Field_Nil)

lemma optional_positive_ok:
  "validate path p (yup_positive m yup_number) v = [] \<longleftrightarrow> absent v \<or> (\<exists>x. v = VNum x \<and> 0 < x)"
  unfolding yup_defs by (cases v) (auto simp: validate_Field_Nil)

lemma optional_min_number_ok:
  "validate path p (yup_min (Lit (VNum n)) m yup_number) v = [] \<longleftrightarrow>
     absent v \<or> (\<exists>x. v = VNum x \<and> n \<le> x)"
  unfolding yup_defs by (cases v) (auto simp: validate_Field_Nil)

lemma optional_range_number_ok:
  "validate path p (yup_max (Lit (VNum hi)) m (yup_min (Lit (VNum lo)) m' yup_number)) v = [] \<longleftrightarrow>
     absent v \<or> (\<exists>x. v = VNum x \<and> lo \<le> x \<and> x \<le> hi)"
  unfolding yup_defs by (cases v) (auto simp: validate_Field_Nil)

lemma discount_ok:
  "validate path p (yup_test name m discount_less_than_price
      (yup_min (Lit (VNum 0)) m' yup_number)) v = [] \<longleftrightarrow>
     absent v \<or> v = VNum 0 \<or>
     (\<exists>d pr. v = VNum d \<and> 0 < d \<and> get_prop p ''price'' = VNum pr \<and> d < pr)"
  unfolding yup_defs
  by (cases v; cases "get_prop p ''price''")
     (auto simp: validate_Field_Nil discount_less_than_price_def)

lemma required_min_date_ok:
  "validate path p (yup_required m (yup_min l m' yup_date)) v = [] \<longleftrightarrow>
     (\<exists>d lo. v = VDate d \<and> resolve p l = VDate lo \<and> lo \<le> d)"
  unfolding yup_defs
  by (cases v; cases "resolve p l") (auto simp: validate_Field_Nil)

lemmas field_ok = required_string_ok required_email_ok required_min_string_ok
  required_max_string_ok required_confirm_ok required_positive_ok optional_positive_ok
  optional_min_number_ok optional_range_number_ok discount_ok required_min_date_ok

lemma isValid_object:
  "isValid (yup_object fs) v \<longleftrightarrow> (\<forall>(name, s) \<in> set fs. validate name v s (get_prop v name) = [])"
  by (auto simp: isValid_def yup_object_def validate_Object_Nil split: prod.splits)

lemma login_valid_iff:
  "isValid (loginSchema E) v \<longleftrightarrow>
     (\<exists>e pw. get_prop v ''email'' = VStr e \<and> e \<noteq> [] \<and> E e \<and>
             get_prop v ''password'' = VStr pw \<and> 8 \<le> length pw)"
  unfolding loginSchema_def
  by (auto simp: isValid_object field_ok)

text \<open>
  The signup form is accepted exactly when the name has at least two
  characters, the email is not empty and is an email address, the password
  has at least eight characters and the confirmation is the password. No
  other object passes: a field that is missing, empty or of another type
  fails.
\<close>

theorem signup_valid_iff:
  "isValid (signupSchema E) v \<longleftrightarrow>
     (\<exists>n e pw. get_prop v ''name'' = VStr n \<and> 2 \<le> length n \<and>
               get_prop v ''email'' = VStr e \<and> e \<noteq> [] \<and> E e \<and>
               get_prop v ''password'' = VStr pw \<and> 8 \<le> length pw \<and>
               get_prop v ''passwordConfirm'' = VStr pw)"
  unfolding signupSchema_def
  by (auto simp: isValid_object field_ok)

text \<open>
  C30: a booking is accepted exactly when bike and both locations are not
  empty and the dates satisfy \<open>loaded \<le> start \<le> end\<close>. The start date is
  compared with the time the module was loaded, not with the time of the
  validation, and the end date may equal the start date although the message
  asks for a date after it.
\<close>

theorem booking_valid_iff:
  "isValid (bookingSchema loaded) v \<longleftrightarrow>
     (\<exists>b pl dl s e. get_prop v ''bike'' = VStr b \<and> b \<noteq> [] \<and>
        get_prop v ''pickupLocation'' = VStr pl \<and> pl \<noteq> [] \<and>
        get_prop v ''dropLocation'' = VStr dl \<and> dl \<noteq> [] \<and>
        get_prop v ''startDate'' = VDate s \<and> get_prop v ''endDate'' = VDate e \<and>
        loaded \<le> s \<and> s \<le> e)"
  unfolding bookingSchema_def
  by (auto simp: isValid_object field_ok)



text \<open>What the schema asks of one range of the preferences.\<close>

definition range_ok :: "jsval \<Rightarrow> bool" where
  "range_ok r \<longleftrightarrow>
     (absent (get_prop r ''min'') \<or> (\<exists>x. get_prop r ''min'' = VNum x \<and> 0 \<le> x)) \<and>
     (absent (get_prop r ''max'') \<or> (\<exists>x. get_prop r ''max'' = VNum x \<and> 0 < x))"

lemma range_schema_ok:
  "validate path p (range_schema m m') r = [] \<longleftrightarrow> range_ok r"
  by (auto simp: range_schema_def yup_object_def validate_Object_Nil field_ok range_ok_def)

text \<open>
  Preferences are accepted exactly when each of the three ranges has a
  minimum that is absent or not negative and a maximum that is absent or
  positive. The two ends of a range are not compared: a range whose minimum
  exceeds its maximum is accepted.
\<close>

theorem preferences_valid_iff:
  "isValid preferencesSchema v \<longleftrightarrow>
     range_ok (get_prop v ''price'') \<and> range_ok (get_prop v ''engineCC'') \<and>
     range_ok (get_prop v ''weight'')"
  unfolding preferencesSchema_def
  by (auto simp: isValid_object range_schema_ok)

lemma preferences_inverted_range:
  "isValid preferencesSchema (VObj [(''price'', VObj [(''min'', VNum 100), (''max'', VNum 50)])])"
  by (simp add: preferences_valid_iff range_ok_def)

lemma reset_valid_iff:
  "isValid resetPasswordSchema v \<longleftrightarrow>
     (\<exists>pw. get_prop v ''password'' = VStr pw \<and> 8 \<le> length pw \<and>
           get_prop v ''passwordConfirm'' = VStr pw)"
  unfolding resetPasswordSchema_def
  by (auto simp: isValid_object field_ok)

lemma update_valid_iff:
  "isValid updatePasswordSchema v \<longleftrightarrow>
     (\<exists>cur pw. get_prop v ''passwordCurrent'' = VStr cur \<and> cur \<noteq> [] \<and>
           get_prop v ''password'' = VStr pw \<and> 8 \<le> length pw \<and>
           get_prop v ''passwordConfirm'' = VStr pw)"
  unfolding updatePasswordSchema_def
  by (auto simp: isValid_object field_ok)

lemma profile_valid_iff:
  "isValid (profileSchema E) v \<longleftrightarrow>
     (\<exists>n e. get_prop v ''name'' = VStr n \<and> 2 \<le> length n \<and>
            get_prop v ''email'' = VStr e \<and> e \<noteq> [] \<and> E e)"
  unfolding profileSchema_def
  by (auto simp: isValid_object field_ok)

lemma forgot_valid_iff:
  "isValid (forgotPasswordSchema E) v \<longleftrightarrow> (\<exists>e. get_prop v ''email'' = VStr e \<and> e \<noteq> [] \<and> E e)"
  unfolding forgotPasswordSchema_def
  by (auto simp: isValid_object field_ok)

text \<open>All failing tests are reported, in the order of the fields.\<close>

lemma signup_errors_example:
  "validate [] VUndefined (signupSchema (\<lambda>s. CHR ''@'' \<in> set s))
     (VObj [(''name'', VStr ''A''), (''email'', VStr ''a@b.c''), (''password'', VStr ''secret''),
            (''passwordConfirm'', VStr ''secre'')]) =
   [(''name'', ''Name must be at least 2 characters''),
    (''password'', ''Password must be at least 8 characters''),
    (''passwordConfirm'', ''Passwords must match'')]"
  by (simp add: signupSchema_def yup_defs)

end
