(* ===== verification/Pages.thy ===== *)
theory Pages
  imports Queries Helpers Routes
begin

text \<open>
  The two pages of \<^verbatim>\<open>src/frontend/src/pages\<close>: \<^verbatim>\<open>BikesPage.jsx\<close>, the list of
  bikes with its search box and filters, and \<^verbatim>\<open>OverviewPage.jsx\<close>, the
  dashboard.

  A page is modelled by its state (the cells of \<^verbatim>\<open>useState\<close> and, for every
  query hook it calls, the key the hook observed at the last render), its
  handlers, and its render function. Rendering calls the hooks, which may
  change the cache, and returns what is put on the screen: the branch the
  component takes and every value it computes for the markup. The markup
  itself, the icons and the styling are left out. \<^verbatim>\<open>Intl.NumberFormat\<close> is the
  parameter \<open>nf\<close>, as for \<open>formatCurrency\<close>.
\<close>

section \<open>What the backend sends\<close>

text \<open>
  The properties of a bike that the pages read, and the properties of
  \<^verbatim>\<open>data\<close> in an answer: the list \<^verbatim>\<open>bikes\<close> of the bike endpoints and the
  numbers the dashboard looks for in the statistics. Every property of
  \<^verbatim>\<open>data\<close> may be missing.
\<close>

record bike =
  bike_id :: string
  bike_name :: string
  bike_summary :: "string option"
  bike_engineCC :: nat
  bike_weight :: nat
  bike_ratingsAverage :: rat
  bike_ratingsQuantity :: nat
  bike_price :: rat
  bike_priceDiscount :: "rat option"

record api_data =
  bikes :: "bike list option"
  totalBikes :: "rat option"
  averageRating :: "rat option"
  averagePrice :: "rat option"
  totalUsers :: "rat option"

type_synonym 'a page_cache = "(api_data, 'a) query_cache"

text \<open>\<^verbatim>\<open>result?.data?.bikes || []\<close> and \<^verbatim>\<open>result?.data || {}\<close>.\<close>

definition bikes_of :: "api_data body \<Rightarrow> bike list" where
  [page_defs]: "bikes_of b = (case Option.bind (Option.bind b env_data) bikes of None \<Rightarrow> [] | Some bs \<Rightarrow> bs)"

definition stats_of :: "api_data body \<Rightarrow> api_data" where
  [page_defs]: "stats_of b =
     (case Option.bind b env_data of
        None \<Rightarrow> \<lparr>bikes = None, totalBikes = None, averageRating = None, averagePrice = None,
                 totalUsers = None\<rparr>
      | Some d \<Rightarrow> d)"

section \<open>Values that a component computes\<close>

text \<open>
  \<^verbatim>\<open>x || d\<close> for a number that may be missing: zero and a missing number give
  the default. \<^verbatim>\<open>toFixed(1)\<close> rounds to one decimal, half away from zero, and
  always prints the decimal.
\<close>

datatype stat_value = Num rat | Txt string

definition num_or :: "rat option \<Rightarrow> 'v \<Rightarrow> (rat \<Rightarrow> 'v) \<Rightarrow> 'v" where
  [page_defs]: "num_or x d f = (if falsy_num x then d else f (the x))"

definition toFixed1 :: "rat \<Rightarrow> string" where
  [page_defs]: "toFixed1 x =
     (let t = nat \<lfloor>\<bar>x\<bar> * 10 + 1 / 2\<rfloor> in
      (if x < 0 then ''-'' else '''') @ string_of_nat (t div 10) @ ''.'' @ [digit_char (t mod 10)])"

text \<open>
  \<^verbatim>\<open>{bike.priceDiscount && (...)}\<close>: nothing for a missing discount, the
  number itself for a discount of zero, and otherwise the sum of price and
  discount, formatted and struck through.
\<close>

datatype discount_view = NoDiscount | RendersZero | CrossedOut string

definition crossed_out :: "(string \<Rightarrow> rat \<Rightarrow> string) \<Rightarrow> bike \<Rightarrow> discount_view" where
  [page_defs]: "crossed_out nf bike =
     (case bike_priceDiscount bike of
        None \<Rightarrow> NoDiscount
      | Some d \<Rightarrow> if d = 0 then RendersZero
                 else CrossedOut (formatCurrency nf (bike_price bike + d) None))"

text \<open>What either page shows: a spinner, an error panel, or its content.\<close>

datatype 'c page_view = LoadingSpinner string | ErrorPanel string string | Content 'c

section \<open>BikesPage.jsx\<close>

record bike_card =
  card_name :: string
  card_summary :: "string option"
  card_engineCC :: nat
  card_weight :: nat
  card_ratingsAverage :: rat
  card_ratingsQuantity :: nat
  card_price :: string
  card_discount :: discount_view
  card_link :: path

definition BikesPage_BikeCard :: "(string \<Rightarrow> rat \<Rightarrow> string) \<Rightarrow> bike \<Rightarrow> bike_card" where
  [page_defs]: "BikesPage_BikeCard nf bike =
     \<lparr>card_name = bike_name bike,
      card_summary = truncateText (bike_summary bike) (Some 100),
      card_engineCC = bike_engineCC bike,
      card_weight = bike_weight bike,
      card_ratingsAverage = bike_ratingsAverage bike,
      card_ratingsQuantity = bike_ratingsQuantity bike,
      card_price = formatCurrency nf (bike_price bike) None,
      card_discount = crossed_out nf bike,
      card_link = ''/bikes/'' @ bike_id bike\<rparr>"

text \<open>
  The state of the page. \<open>filters\<close> is the object of the four filters, in the
  order of its properties; \<open>observed\<close> is the key \<^verbatim>\<open>useBikes\<close> observed at the
  last render.
\<close>

record bikes_page =
  searchTerm :: string
  filters :: "(string \<times> string) list"
  showFilters :: bool
  observed :: "query_key option"

definition BikesPage_initial :: bikes_page where
  "BikesPage_initial =
     \<lparr>searchTerm = '''',
      filters = [(''sort'', ''name''), (''minPrice'', ''''), (''maxPrice'', ''''), (''minRating'', '''')],
      showFilters = False,
      observed = None\<rparr>"

text \<open>
  \<^verbatim>\<open>{...a, ...b}\<close> on objects as ordered lists of properties: a property of \<open>b\<close>
  replaces the property of \<open>a\<close> in place or is added at the end.
\<close>

definition spread :: "(string \<times> 'v) list \<Rightarrow> (string \<times> 'v) list \<Rightarrow> (string \<times> 'v) list" where
  [page_defs]: "spread a b = foldl (\<lambda>obj (k, v). AList.update k v obj) a b"

definition setSearchTerm :: "string \<Rightarrow> bikes_page \<Rightarrow> bikes_page" where
  [page_defs]: "setSearchTerm v s = s\<lparr>searchTerm := v\<rparr>"

definition setShowFilters :: "bool \<Rightarrow> bikes_page \<Rightarrow> bikes_page" where
  [page_defs]: "setShowFilters v s = s\<lparr>showFilters := v\<rparr>"

definition handleFilterChange :: "string \<Rightarrow> string \<Rightarrow> bikes_page \<Rightarrow> bikes_page" where
  [page_defs]: "handleFilterChange key v s = s\<lparr>filters := spread (filters s) [(key, v)]\<rparr>"

text \<open>The argument of \<^verbatim>\<open>useBikes\<close>: \<^verbatim>\<open>{search: searchTerm, ...filters}\<close>.\<close>

definition bikes_params :: "bikes_page \<Rightarrow> json" where
  [page_defs]: "bikes_params s =
     JObj (spread [(''search'', JStr (searchTerm s))] (map (\<lambda>(k, v). (k, JStr v)) (filters s)))"

text \<open>
  The content of the page: the number of bikes, the value of the search box,
  the values of the four filter controls when the panel is open, the cards,
  and whether the empty message and the button \<^verbatim>\<open>Load More Bikes\<close> are there.
\<close>

record listing =
  count :: nat
  search_value :: string
  filter_panel :: "(string option \<times> string option \<times> string option \<times> string option) option"
  cards :: "bike_card list"
  no_bikes_found :: bool
  load_more :: bool

definition get_filter :: "string \<Rightarrow> bikes_page \<Rightarrow> string option" where
  [page_defs]: "get_filter key s = map_of (filters s) key"

text \<open>
  The component in two parts: \<open>BikesPage_return\<close> is what it returns for a
  result of the hook, with its two early returns; \<open>BikesPage_render\<close> is one
  render, which calls the hook with the parameters of the moment.
\<close>

definition BikesPage_return ::
  "(string \<Rightarrow> rat \<Rightarrow> string) \<Rightarrow> bikes_page \<Rightarrow> api_data query_result \<Rightarrow> listing page_view" where
  "BikesPage_return nf s res =
     (if isLoading res then LoadingSpinner ''Loading bikes...''
      else if error res \<noteq> None then ErrorPanel ''Error Loading Bikes'' ''Please try again later.''
      else let bikes = bikes_of (data res)
           in Content
                \<lparr>count = length bikes,
                 search_value = searchTerm s,
                 filter_panel =
                   (if showFilters s
                    then Some (get_filter ''sort'' s, get_filter ''minPrice'' s,
                               get_filter ''maxPrice'' s, get_filter ''minRating'' s)
                    else None),
                 cards = map (BikesPage_BikeCard nf) bikes,
                 no_bikes_found = (length bikes = 0),
                 load_more = (length bikes > 0)\<rparr>)"

definition BikesPage_render ::
  "(string \<Rightarrow> rat \<Rightarrow> string) \<Rightarrow> nat \<Rightarrow> bikes_page \<Rightarrow> 'a page_cache \<Rightarrow>
   listing page_view \<times> bikes_page \<times> 'a page_cache" where
  "BikesPage_render nf now s c =
     (let res = useBikes (Some (bikes_params s)) now (observed s) c
      in (BikesPage_return nf s (fst res),
          s\<lparr>observed := Some [JStr ''bikes'', bikes_params s]\<rparr>,
          snd res))"

text \<open>
  The controls of the page and what each does. The two selects offer fixed
  values. The button \<^verbatim>\<open>Load More Bikes\<close> has no handler. A control can be used
  only while it is on the screen.
\<close>

datatype filter_control = Sort | MinPrice | MaxPrice | MinRating

fun control_key :: "filter_control \<Rightarrow> string" where
  "control_key Sort = ''sort''"
| "control_key MinPrice = ''minPrice''"
| "control_key MaxPrice = ''maxPrice''"
| "control_key MinRating = ''minRating''"

fun control_offers :: "filter_control \<Rightarrow> string \<Rightarrow> bool" where
  "control_offers Sort v \<longleftrightarrow> v \<in> set [''name'', ''price'', ''-price'', ''-ratingsAverage'', ''engineCC'']"
| "control_offers MinRating v \<longleftrightarrow> v \<in> set ['''', ''1'', ''2'', ''3'', ''4'', ''4.5'']"
| "control_offers ctl v \<longleftrightarrow> True"

datatype bikes_event =
    ChangeSearch string
  | ChangeFilter filter_control string
  | ClickFilters
  | ClickLoadMore

fun BikesPage_handle :: "bikes_event \<Rightarrow> bikes_page \<Rightarrow> bikes_page" where
  "BikesPage_handle (ChangeSearch v) s = setSearchTerm v s"
| "BikesPage_handle (ChangeFilter ctl v) s = handleFilterChange (control_key ctl) v s"
| "BikesPage_handle ClickFilters s = setShowFilters (\<not> showFilters s) s"
| "BikesPage_handle ClickLoadMore s = s"

fun available :: "listing page_view \<Rightarrow> bikes_event \<Rightarrow> bool" where
  "available (Content l) (ChangeSearch v) \<longleftrightarrow> True"
| "available (Content l) (ChangeFilter ctl v) \<longleftrightarrow> filter_panel l \<noteq> None \<and> control_offers ctl v"
| "available (Content l) ClickFilters \<longleftrightarrow> True"
| "available (Content l) ClickLoadMore \<longleftrightarrow> load_more l"
| "available v ev \<longleftrightarrow> False"

text \<open>
  One event on the mounted page: the page as it is on the screen decides
  whether the control is there; the handler changes the state; the page
  renders again.
\<close>

definition BikesPage_event ::
  "(string \<Rightarrow> rat \<Rightarrow> string) \<Rightarrow> nat \<Rightarrow> bikes_event \<Rightarrow> bikes_page \<Rightarrow> 'a page_cache \<Rightarrow>
   listing page_view \<times> bikes_page \<times> 'a page_cache" where
  "BikesPage_event nf now ev s c =
     (let r = BikesPage_render nf now s c
      in if available (fst r) ev
         then BikesPage_render nf now (BikesPage_handle ev (fst (snd r))) (snd (snd r))
         else r)"

section \<open>OverviewPage.jsx\<close>

record stat_card =
  title :: string
  stat :: stat_value
  color :: string

definition StatCard :: "string \<Rightarrow> stat_value \<Rightarrow> string option \<Rightarrow> stat_card" where
  [page_defs]: "StatCard title' value color' = \<lparr>title = title', stat = value, color = default_arg ''blue'' color'\<rparr>"

record overview_card =
  oc_name :: string
  oc_summary :: "string option"
  oc_stars :: "star list"
  oc_ratingsQuantity :: nat
  oc_engineCC :: nat
  oc_price :: string
  oc_discount :: discount_view
  oc_link :: path

definition OverviewPage_BikeCard :: "(string \<Rightarrow> rat \<Rightarrow> string) \<Rightarrow> bike \<Rightarrow> overview_card" where
  [page_defs]: "OverviewPage_BikeCard nf bike =
     \<lparr>oc_name = bike_name bike,
      oc_summary = truncateText (bike_summary bike) (Some 80),
      oc_stars = generateStarRating (bike_ratingsAverage bike),
      oc_ratingsQuantity = bike_ratingsQuantity bike,
      oc_engineCC = bike_engineCC bike,
      oc_price = formatCurrency nf (bike_price bike) None @ ''/day'',
      oc_discount = crossed_out nf bike,
      oc_link = ''/bikes/'' @ bike_id bike\<rparr>"

record cheap_item =
  cheap_name :: string
  cheap_engineCC :: nat
  cheap_price :: string
  cheap_stars :: "star list"

record latest_item =
  latest_name :: string
  latest_summary :: "string option"
  latest_price :: string
  latest_link :: path

definition cheap_row :: "(string \<Rightarrow> rat \<Rightarrow> string) \<Rightarrow> bike \<Rightarrow> cheap_item" where
  [page_defs]: "cheap_row nf bike =
     \<lparr>cheap_name = bike_name bike,
      cheap_engineCC = bike_engineCC bike,
      cheap_price = formatCurrency nf (bike_price bike) None @ ''/day'',
      cheap_stars = generateStarRating (bike_ratingsAverage bike)\<rparr>"

definition latest_row :: "(string \<Rightarrow> rat \<Rightarrow> string) \<Rightarrow> bike \<Rightarrow> latest_item" where
  [page_defs]: "latest_row nf bike =
     \<lparr>latest_name = bike_name bike,
      latest_summary = truncateText (bike_summary bike) (Some 50),
      latest_price = formatCurrency nf (bike_price bike) None @ ''/day'',
      latest_link = ''/bikes/'' @ bike_id bike\<rparr>"

text \<open>The keys the three hooks of the page observed at the last render.\<close>

record overview_page =
  observed_bikes :: "query_key option"
  observed_cheap :: "query_key option"
  observed_stats :: "query_key option"

definition OverviewPage_initial :: overview_page where
  "OverviewPage_initial = \<lparr>observed_bikes = None, observed_cheap = None, observed_stats = None\<rparr>"

record dashboard =
  welcome_name :: "string option"
  stat_cards :: "stat_card list"
  quick_actions :: "path list"
  view_all :: "path list"
  top_cheap :: "cheap_item list"
  latest :: "latest_item list"
  popular :: "overview_card list"

definition overview_params :: json where
  "overview_params = JObj [(''limit'', JNum 6)]"

text \<open>
  The component in two parts, as for the list of bikes: what it returns for
  the user of the auth context and the results of its three hooks, and one
  render, which calls the hooks in the order of the source.
\<close>

definition OverviewPage_return ::
  "(string \<Rightarrow> rat \<Rightarrow> string) \<Rightarrow> user_info option \<Rightarrow> api_data query_result \<Rightarrow>
   api_data query_result \<Rightarrow> api_data query_result \<Rightarrow> dashboard page_view" where
  "OverviewPage_return nf user' bikesResult topCheapResult statsResult =
     (if isLoading bikesResult \<or> isLoading topCheapResult \<or> isLoading statsResult
      then LoadingSpinner ''Loading dashboard...''
      else let bikes = bikes_of (data bikesResult);
               cheapBikes = bikes_of (data topCheapResult);
               stats = stats_of (data statsResult)
           in Content
                \<lparr>welcome_name = map_option user_name user',
                 stat_cards =
                   [StatCard ''Total Bikes''
                      (num_or (totalBikes stats) (Num (of_nat (length bikes))) Num) (Some ''blue''),
                    StatCard ''Average Rating''
                      (Txt (case averageRating stats of None \<Rightarrow> ''4.5'' | Some r \<Rightarrow> toFixed1 r))
                      (Some ''green''),
                    StatCard ''Average Price''
                      (Txt (formatCurrency nf (num_or (averagePrice stats) 50 (\<lambda>p. p)) None))
                      (Some ''purple''),
                    StatCard ''Active Users''
                      (num_or (totalUsers stats) (Txt ''100+'') Num) (Some ''orange'')],
                 quick_actions = [''/bikes'', ''/bookings'', ''/profile'', ''/bikes/stats''],
                 view_all = [''/bikes?sort=price'', ''/bikes'', ''/bikes''],
                 top_cheap = map (cheap_row nf) (slice0 3 cheapBikes),
                 latest = map (latest_row nf) (slice0 3 bikes),
                 popular = map (OverviewPage_BikeCard nf) (slice0 6 bikes)\<rparr>)"

definition OverviewPage_render ::
  "(string \<Rightarrow> rat \<Rightarrow> string) \<Rightarrow> nat \<Rightarrow> user_info option \<Rightarrow> overview_page \<Rightarrow> 'a page_cache \<Rightarrow>
   dashboard page_view \<times> overview_page \<times> 'a page_cache" where
  "OverviewPage_render nf now user' s c =
     (let r1 = useBikes (Some overview_params) now (observed_bikes s) c;
          r2 = useTopCheapBikes now (observed_cheap s) (snd r1);
          r3 = useBikeStats now (observed_stats s) (snd r2)
      in (OverviewPage_return nf user' (fst r1) (fst r2) (fst r3),
          \<lparr>observed_bikes = Some [JStr ''bikes'', overview_params],
           observed_cheap = Some [JStr ''bikes'', JStr ''top-cheap''],
           observed_stats = Some [JStr ''bikes'', JStr ''stats'']\<rparr>,
          snd r3))"

section \<open>The pages in use\<close>

text \<open>
  The vocabulary of the properties. \<open>filters_wf\<close> says that the filter object
  has its four properties; \<open>bikes_key\<close> is the key of the query the page asks
  for; \<open>mounted\<close> says that the hook of the page observes that query.
  \<open>bikes_session\<close> holds of the states of page and cache that mounting the
  page, events on it and answers of the backend can produce. \<open>answer_all\<close>
  lets every fetch of the given keys run to its end against one backend.
  \<open>fallback_cards\<close> are the statistics the dashboard shows when it has none.
  \<open>link_pathname\<close> is the path of a link target without its query string.
  \<open>example_page\<close> is the list of bikes on the screen with an empty answer.
\<close>

definition filters_wf :: "bikes_page \<Rightarrow> bool" where
  "filters_wf s \<longleftrightarrow> map fst (filters s) = [''sort'', ''minPrice'', ''maxPrice'', ''minRating'']"

definition bikes_key :: "bikes_page \<Rightarrow> query_key" where
  "bikes_key s = [JStr ''bikes'', bikes_params s]"

definition mounted :: "bikes_page \<Rightarrow> 'a page_cache \<Rightarrow> bool" where
  "mounted s c \<longleftrightarrow> observed s = Some (bikes_key s) \<and>
     (case map_of c (bikes_key s) of None \<Rightarrow> False | Some q \<Rightarrow> isActive q)"

inductive bikes_session :: "(string \<Rightarrow> rat \<Rightarrow> string) \<Rightarrow> bikes_page \<Rightarrow> 'a page_cache \<Rightarrow> bool" for nf where
  mount: "cached queryClient c \<Longrightarrow>
    bikes_session nf (fst (snd (BikesPage_render nf now BikesPage_initial c)))
      (snd (snd (BikesPage_render nf now BikesPage_initial c)))"
| event: "bikes_session nf s c \<Longrightarrow>
    bikes_session nf (fst (snd (BikesPage_event nf now ev s c))) (snd (snd (BikesPage_event nf now ev s c)))"
| answer: "bikes_session nf s c \<Longrightarrow> bikes_session nf s (fst (attempt queryClient be now key c w))"

definition overview_keys :: "query_key list" where
  "overview_keys = [key_of (Bikes (Some overview_params)), key_of TopCheapBikes, key_of BikeStats]"

definition answer_all ::
  "default_options \<Rightarrow> 'd backend \<Rightarrow> nat \<Rightarrow> query_key list \<Rightarrow> ('d, 'a) query_cache \<Rightarrow> 'a window_scheme \<Rightarrow>
   ('d, 'a) query_cache \<times> 'a window_scheme" where
  "answer_all cfg be now keys c w =
     foldl (\<lambda>(c, w) key. attempts cfg (replicate (Suc (retry cfg)) (be, now)) key c w) (c, w) keys"

definition fallback_cards :: "(string \<Rightarrow> rat \<Rightarrow> string) \<Rightarrow> stat_card list" where
  "fallback_cards nf =
     [\<lparr>title = ''Total Bikes'', stat = Num 0, color = ''blue''\<rparr>,
      \<lparr>title = ''Average Rating'', stat = Txt ''4.5'', color = ''green''\<rparr>,
      \<lparr>title = ''Average Price'', stat = Txt (nf ''USD'' 50), color = ''purple''\<rparr>,
      \<lparr>title = ''Active Users'', stat = Txt ''100+'', color = ''orange''\<rparr>]"

definition link_pathname :: "string \<Rightarrow> path" where
  "link_pathname href = takeWhile (\<lambda>ch. ch \<noteq> CHR ''?'') href"

definition example_page :: "(bikes_page \<times> unit page_cache)" where
  "example_page =
     (BikesPage_initial\<lparr>observed := Some (bikes_key BikesPage_initial)\<rparr>,
      [(bikes_key BikesPage_initial,
        (build (\<lambda>be. send be (query_request (Bikes (Some (bikes_params BikesPage_initial))))))
          \<lparr>q_data := Some \<lparr>env_status = ''success'', env_data = None\<rparr>,
           q_status := StatusSuccess, observers := 1\<rparr>)])"

section \<open>The filters\<close>

text \<open>
  The filter object keeps its four properties under every event, so the
  parameters of the request have a fixed shape.
\<close>

lemma spread_Nil [simp]: "spread a [] = a"
  by (simp add: spread_def)

lemma spread_Cons [simp]: "spread a ((k, v) # b) = spread (AList.update k v a) b"
  by (simp add: spread_def)

lemma control_key_in [simp]:
  "control_key ctl \<in> {''sort'', ''minPrice'', ''maxPrice'', ''minRating''}"
  by (cases ctl) simp_all

lemma filters_wf_initial [simp]: "filters_wf BikesPage_initial"
  by (simp add: filters_wf_def BikesPage_initial_def)

lemma filters_wf_handleFilterChange [simp]:
  "filters_wf s \<Longrightarrow> filters_wf (handleFilterChange (control_key ctl) v s)"
  by (cases ctl) (simp_all add: filters_wf_def handleFilterChange_def update_keys)

lemma filters_wf_handle [simp]: "filters_wf s \<Longrightarrow> filters_wf (BikesPage_handle ev s)"
  by (cases ev) (simp_all, simp_all add: filters_wf_def setSearchTerm_def setShowFilters_def)

lemma filters_wf_observed [simp]: "filters_wf (s\<lparr>observed := k\<rparr>) = filters_wf s"
  by (simp add: filters_wf_def)

lemma filters_wfD:
  assumes "filters_wf s"
  obtains a b c d where
    "filters s = [(''sort'', a), (''minPrice'', b), (''maxPrice'', c), (''minRating'', d)]"
proof -
  from assms obtain p1 p2 p3 p4 where "filters s = [p1, p2, p3, p4]"
    and "fst p1 = ''sort''" "fst p2 = ''minPrice''" "fst p3 = ''maxPrice''" "fst p4 = ''minRating''"
    by (auto simp: filters_wf_def map_eq_Cons_conv)
  then have "filters s = [(''sort'', snd p1), (''minPrice'', snd p2), (''maxPrice'', snd p3),
      (''minRating'', snd p4)]"
    by (simp add: prod_eq_iff)
  then show thesis by (rule that)
qed

lemma bikes_params_wf:
  assumes "filters s = [(''sort'', a), (''minPrice'', b), (''maxPrice'', c), (''minRating'', d)]"
  shows "bikes_params s =
     JObj [(''search'', JStr (searchTerm s)), (''sort'', JStr a), (''minPrice'', JStr b),
           (''maxPrice'', JStr c), (''minRating'', JStr d)]"
  using assms by (simp add: bikes_params_def)

section \<open>Rendering the list of bikes\<close>

text \<open>
  A render of the mounted page reads the cache and changes nothing; the
  first render and a render after a change of the parameters move the hook
  to the query of the moment.
\<close>

lemma BikesPage_render_eq:
  "BikesPage_render nf now s c =
     (BikesPage_return nf s (fst (observe (Bikes (Some (bikes_params s))) now (observed s) c)),
      s\<lparr>observed := Some (bikes_key s)\<rparr>,
      snd (observe (Bikes (Some (bikes_params s))) now (observed s) c))"
  by (simp add: BikesPage_render_def observe.simps bikes_key_def Let_def)

lemma mounted_observed: "mounted s c \<Longrightarrow> observed s = Some (bikes_key s)"
  by (simp add: mounted_def)

lemma render_mounted:
  "mounted s c \<Longrightarrow>
   BikesPage_render nf now s c = (BikesPage_return nf s (getResult (bikes_key s) c), s, c)"
  using useQuery_same [of "options_of (Bikes (Some (bikes_params s)))" now c]
  by (simp add: BikesPage_render_eq observe_eq mounted_def bikes_key_def)

lemma isActive_addObserver [simp]: "enabled opts \<Longrightarrow> isActive (addObserver opts now q)"
  by (simp add: addObserver_def isActive_def fetch_def Let_def)

lemma mounted_subscribe:
  "observed s = Some (bikes_key s) \<Longrightarrow>
   mounted s (subscribe (options_of (Bikes (Some (bikes_params s)))) now c)"
  by (simp add: mounted_def lookup_subscribe bikes_key_def)

lemma mounted_first_render:
  "observed s = None \<Longrightarrow>
   mounted (fst (snd (BikesPage_render nf now s c))) (snd (snd (BikesPage_render nf now s c)))"
  by (simp add: BikesPage_render_eq observe_eq useQuery_mount mounted_def lookup_subscribe
      bikes_key_def bikes_params_def)

lemma handle_observed [simp]: "observed (BikesPage_handle ev s) = observed s"
  by (cases ev) (simp_all add: page_defs)

lemma mounted_rerender:
  assumes "mounted s c" and "observed s' = observed s"
  shows "mounted (fst (snd (BikesPage_render nf now s' c))) (snd (snd (BikesPage_render nf now s' c)))"
proof (cases "bikes_key s' = bikes_key s")
  case True
  with assms have "mounted s' c" by (simp add: mounted_def)
  then show ?thesis by (simp add: render_mounted)
next
  case False
  with assms show ?thesis
    by (simp add: BikesPage_render_eq observe_eq useQuery_moved mounted_def lookup_subscribe
        bikes_key_def bikes_params_def)
qed

lemma mounted_event:
  "mounted s c \<Longrightarrow>
   mounted (fst (snd (BikesPage_event nf now ev s c))) (snd (snd (BikesPage_event nf now ev s c)))"
  by (simp add: BikesPage_event_def Let_def render_mounted mounted_rerender)

lemma attempt_observers:
  "map_option observers (map_of (fst (attempt cfg be now key c w)) k) = map_option observers (map_of c k)"
  by (cases "k = key")
     (auto simp: attempt_def update_conv' set_success_def set_error_def set_failed_def
       split: option.splits prod.splits outcome.splits)

lemma mounted_attempt:
  assumes "mounted s c"
  shows "mounted s (fst (attempt cfg be now key c w))"
proof -
  from assms obtain q where q: "map_of c (bikes_key s) = Some q" "isActive q"
    by (auto simp: mounted_def split: option.splits)
  with attempt_observers [of cfg be now key c w "bikes_key s"]
  obtain q' where "map_of (fst (attempt cfg be now key c w)) (bikes_key s) = Some q'"
    "observers q' = observers q" by auto
  with q assms show ?thesis by (simp add: mounted_def isActive_def)
qed

lemma cache_wf_render [simp]:
  "cache_wf cfg c \<Longrightarrow> cache_wf cfg (snd (snd (BikesPage_render nf now s c)))"
  by (simp add: BikesPage_render_eq observe_eq)

lemma cache_wf_event [simp]:
  "cache_wf cfg c \<Longrightarrow> cache_wf cfg (snd (snd (BikesPage_event nf now ev s c)))"
  by (simp add: BikesPage_event_def Let_def)

lemma filters_wf_render [simp]:
  "filters_wf (fst (snd (BikesPage_render nf now s c))) = filters_wf s"
  by (simp add: BikesPage_render_eq)

lemma filters_wf_event [simp]:
  "filters_wf s \<Longrightarrow> filters_wf (fst (snd (BikesPage_event nf now ev s c)))"
  by (simp add: BikesPage_event_def Let_def)

lemma bikes_session_inv:
  "bikes_session nf s c \<Longrightarrow> filters_wf s \<and> mounted s c \<and> cache_wf queryClient c"
proof (induction rule: bikes_session.induct)
  case (mount c now)
  then show ?case
    by (simp add: mounted_first_render BikesPage_initial_def cached_wf)
       (simp add: filters_wf_def)
next
  case (event s c now ev)
  then show ?case by (simp add: mounted_event)
next
  case (answer s c be now key w)
  then show ?case by (simp add: mounted_attempt)
qed

section \<open>What the list of bikes returns\<close>

lemma available_Loading [simp]: "\<not> available (LoadingSpinner t) ev"
  by simp

lemma available_Error [simp]: "\<not> available (ErrorPanel t u) ev"
  by simp

lemma BikesPage_return_cases:
  "BikesPage_return nf s res =
     (if isLoading res then LoadingSpinner ''Loading bikes...''
      else if error res \<noteq> None then ErrorPanel ''Error Loading Bikes'' ''Please try again later.''
      else Content
             \<lparr>count = length (bikes_of (data res)),
              search_value = searchTerm s,
              filter_panel =
                (if showFilters s
                 then Some (get_filter ''sort'' s, get_filter ''minPrice'' s,
                            get_filter ''maxPrice'' s, get_filter ''minRating'' s)
                 else None),
              cards = map (BikesPage_BikeCard nf) (bikes_of (data res)),
              no_bikes_found = (bikes_of (data res) = []),
              load_more = (bikes_of (data res) \<noteq> [])\<rparr>)"
  by (simp add: BikesPage_return_def Let_def)

lemma BikesPage_return_loading [simp]:
  "isLoading res \<Longrightarrow> BikesPage_return nf s res = LoadingSpinner ''Loading bikes...''"
  by (simp add: BikesPage_return_def)

section \<open>Rendering the dashboard\<close>

lemma OverviewPage_render_eq:
  "OverviewPage_render nf now u s c =
     (let r1 = observe (Bikes (Some overview_params)) now (observed_bikes s) c;
          r2 = observe TopCheapBikes now (observed_cheap s) (snd r1);
          r3 = observe BikeStats now (observed_stats s) (snd r2)
      in (OverviewPage_return nf u (fst r1) (fst r2) (fst r3),
          \<lparr>observed_bikes = Some (key_of (Bikes (Some overview_params))),
           observed_cheap = Some (key_of TopCheapBikes),
           observed_stats = Some (key_of BikeStats)\<rparr>,
          snd r3))"
  by (simp add: OverviewPage_render_def observe.simps Let_def)

lemma OverviewPage_first_render:
  "OverviewPage_render nf now u OverviewPage_initial [] =
     (LoadingSpinner ''Loading dashboard...'',
      \<lparr>observed_bikes = Some (key_of (Bikes (Some overview_params))),
       observed_cheap = Some (key_of TopCheapBikes),
       observed_stats = Some (key_of BikeStats)\<rparr>,
      [(key_of (Bikes (Some overview_params)),
          (build (\<lambda>be. send be (query_request (Bikes (Some overview_params)))))
            \<lparr>fetchStatus := Fetching, observers := 1\<rparr>),
       (key_of TopCheapBikes,
          (build (\<lambda>be. send be (query_request TopCheapBikes)))\<lparr>fetchStatus := Fetching, observers := 1\<rparr>),
       (key_of BikeStats,
          (build (\<lambda>be. send be (query_request BikeStats)))\<lparr>fetchStatus := Fetching, observers := 1\<rparr>)])"
  by (simp add: OverviewPage_render_eq OverviewPage_initial_def observe_eq useQuery_mount
      subscribe_def addObserver_build getResult_def OverviewPage_return_def overview_params_def)

lemma answer_all_simps [simp]:
  "answer_all cfg be now [] c w = (c, w)"
  "answer_all cfg be now (key # keys) c w =
     answer_all cfg be now keys
       (fst (attempts cfg (replicate (Suc (retry cfg)) (be, now)) key c w))
       (snd (attempts cfg (replicate (Suc (retry cfg)) (be, now)) key c w))"
  by (simp_all add: answer_all_def split: prod.splits)

lemma bikes_of_None [simp]: "bikes_of None = []"
  by (simp add: bikes_of_def)

lemma stats_of_None [simp]:
  "stats_of None = \<lparr>bikes = None, totalBikes = None, averageRating = None, averagePrice = None,
     totalUsers = None\<rparr>"
  by (simp add: stats_of_def)

lemma OverviewPage_return_no_data:
  "\<not> isLoading r1 \<Longrightarrow> \<not> isLoading r2 \<Longrightarrow> \<not> isLoading r3 \<Longrightarrow>
   data r1 = None \<Longrightarrow> data r2 = None \<Longrightarrow> data r3 = None \<Longrightarrow>
   OverviewPage_return nf u r1 r2 r3 =
     Content \<lparr>welcome_name = map_option user_name u, stat_cards = fallback_cards nf,
       quick_actions = [''/bikes'', ''/bookings'', ''/profile'', ''/bikes/stats''],
       view_all = [''/bikes?sort=price'', ''/bikes'', ''/bikes''],
       top_cheap = [], latest = [], popular = []\<rparr>"
  by (simp add: OverviewPage_return_def fallback_cards_def StatCard_def num_or_def falsy_num_def
      formatCurrency_def slice0_def)

lemma overview_all_failed:
  "answer_all queryClient (\<lambda>rq. Rejected e) t1 overview_keys
     (snd (snd (OverviewPage_render nf t0 u OverviewPage_initial []))) w =
   (map (\<lambda>qc. (key_of qc,
           (build (\<lambda>be. send be (query_request qc)))
             \<lparr>observers := 1, q_error := Some e, q_status := StatusError, fetchStatus := Idle,
              fetchFailureCount := 2\<rparr>))
      [Bikes (Some overview_params), TopCheapBikes, BikeStats],
    (response_error_interceptor e ^^ 6) w)"
  by (simp add: OverviewPage_first_render overview_keys_def queryClient_def attempts_Cons
      attempt_fetching update_conv' send_eq set_failed_def set_error_def overview_params_def
      numeral_2_eq_2 eval_nat_numeral
      del: attempts.simps(2))

lemma interceptor_funpow_toasts:
  "error_status e \<noteq> Some 401 \<Longrightarrow>
   toasts ((response_error_interceptor e ^^ n) w) =
     toasts w @ replicate n (ToastError (error_message e ''Something went wrong!''))"
  by (induction n) (simp_all add: replicate_append_same)

lemma crossed_out_cases:
  "crossed_out nf bike =
     (case bike_priceDiscount bike of
        None \<Rightarrow> NoDiscount
      | Some d \<Rightarrow> if d = 0 then RendersZero else CrossedOut (nf ''USD'' (bike_price bike + d)))"
  by (simp add: crossed_out_def formatCurrency_def split: option.splits)

text \<open>
  The lists of the dashboard. Once nothing is loading the page shows
  four statistics, at most three budget bikes, at most three latest bikes
  and at most six popular bikes. The latest bikes are the first three of the
  popular bikes: both lists are cut from the one answer of \<^verbatim>\<open>useBikes\<close>.
\<close>

theorem overview_lists:
  assumes "\<not> isLoading r1" and "\<not> isLoading r2" and "\<not> isLoading r3"
  shows "\<exists>d. OverviewPage_return nf u r1 r2 r3 = Content d \<and>
           length (top_cheap d) \<le> 3 \<and> length (latest d) \<le> 3 \<and> length (popular d) \<le> 6 \<and>
           map latest_name (latest d) = take 3 (map oc_name (popular d)) \<and>
           map latest_link (latest d) = take 3 (map oc_link (popular d)) \<and>
           length (stat_cards d) = 4"
  using assms
  by (simp add: OverviewPage_return_def Let_def slice0_def latest_row_def OverviewPage_BikeCard_def
      comp_def take_map min_def)

section \<open>Links and the example page\<close>

lemma link_pathname_simps [simp]:
  "link_pathname ''/bikes'' = ''/bikes''"
  "link_pathname ''/bookings'' = ''/bookings''"
  "link_pathname ''/profile'' = ''/profile''"
  "link_pathname ''/bikes/stats'' = ''/bikes/stats''"
  "link_pathname ''/bikes?sort=price'' = ''/bikes''"
  by (simp_all add: link_pathname_def)

lemma bikes_key_observed [simp]: "bikes_key (s\<lparr>observed := k\<rparr>) = bikes_key s"
  by (simp add: bikes_key_def bikes_params_def)

lemma mounted_example_page: "mounted (fst example_page) (snd example_page)"
  by (simp add: example_page_def mounted_def isActive_def bikes_key_def bikes_params_def)

theorem overview_lists_witness:
  "\<exists>d. OverviewPage_return (\<lambda>cur x. ''$'') None
          \<lparr>data = None, isLoading = False, isFetching = False, error = None\<rparr>
          \<lparr>data = None, isLoading = False, isFetching = False, error = None\<rparr>
          \<lparr>data = None, isLoading = False, isFetching = False, error = None\<rparr> = Content d \<and>
        length (popular d) \<le> 6"
  using overview_lists [where ?r1.0 = "\<lparr>data = None, isLoading = False, isFetching = False, error = None\<rparr>"
      and ?r2.0 = "\<lparr>data = None, isLoading = False, isFetching = False, error = None\<rparr>"
      and ?r3.0 = "\<lparr>data = None, isLoading = False, isFetching = False, error = None\<rparr>"
      and nf = "\<lambda>cur x. ''$''" and u = None]
  by auto

section \<open>Properties of the pages\<close>

text \<open>
  C22: a keystroke in the search box takes the search box away. On the mounted
  page, changing the search to a term that is not cached starts its request
  at once and replaces the whole page by the spinner: until the answer
  arrives no control of the page is available, the search box included.
  While the page shows the spinner or the error panel an event changes
  nothing.
\<close>

theorem search_keystroke_unmounts_input:
  assumes "mounted s c"
    and "map_of c (bikes_key (setSearchTerm v s)) = None"
  shows "(let r = BikesPage_event nf now (ChangeSearch v) s c
          in (\<not> isLoading (getResult (bikes_key s) c) \<and> error (getResult (bikes_key s) c) = None \<longrightarrow>
                fst r = LoadingSpinner ''Loading bikes...'' \<and>
                (\<forall>ev. \<not> available (fst r) ev) \<and>
                searchTerm (fst (snd r)) = v \<and>
                isFetching (getResult (bikes_key (setSearchTerm v s)) (snd (snd r)))) \<and>
             (isLoading (getResult (bikes_key s) c) \<or> error (getResult (bikes_key s) c) \<noteq> None \<longrightarrow>
                r = BikesPage_render nf now s c \<and> (\<forall>ev. \<not> available (fst r) ev)))"
proof -
  from assms have ne: "bikes_key s \<noteq> bikes_key (setSearchTerm v s)"
    by (auto simp: mounted_def)
  have obs: "observed (setSearchTerm v s) = Some (bikes_key s)"
    using assms(1) by (simp add: mounted_def setSearchTerm_def)
  have "isLoading (fst (observe (Bikes (Some (bikes_params (setSearchTerm v s)))) now
      (Some (bikes_key s)) c))"
    and "isFetching (getResult (bikes_key (setSearchTerm v s))
      (snd (observe (Bikes (Some (bikes_params (setSearchTerm v s)))) now (Some (bikes_key s)) c)))"
    using assms(2) ne
    by (simp_all add: observe_eq useQuery_moved lookup_subscribe lookup_unsubscribe
        addObserver_build getResult_Some bikes_key_def)
  then have after: "fst (BikesPage_render nf now (setSearchTerm v s) c) = LoadingSpinner ''Loading bikes...''"
    "searchTerm (fst (snd (BikesPage_render nf now (setSearchTerm v s) c))) = v"
    "isFetching (getResult (bikes_key (setSearchTerm v s))
       (snd (snd (BikesPage_render nf now (setSearchTerm v s) c))))"
    using obs by (simp_all add: BikesPage_render_eq) (simp add: setSearchTerm_def)
  have before: "BikesPage_render nf now s c = (BikesPage_return nf s (getResult (bikes_key s) c), s, c)"
    using assms(1) by (rule render_mounted)
  show ?thesis
  proof (cases "isLoading (getResult (bikes_key s) c) \<or> error (getResult (bikes_key s) c) \<noteq> None")
    case True
    then have "\<not> available (BikesPage_return nf s (getResult (bikes_key s) c)) ev" for ev
      by (auto simp: BikesPage_return_cases)
    with True show ?thesis by (auto simp: BikesPage_event_def before Let_def)
  next
    case False
    then have "available (BikesPage_return nf s (getResult (bikes_key s) c)) (ChangeSearch v)"
      by (simp add: BikesPage_return_cases)
    with False after show ?thesis by (simp add: BikesPage_event_def before Let_def)
  qed
qed

theorem search_keystroke_unmounts_input_witness:
  "mounted (fst example_page) (snd example_page) \<and>
   fst (BikesPage_event (\<lambda>cur x. ''$'') 0 (ChangeSearch ''a'') (fst example_page) (snd example_page)) =
     LoadingSpinner ''Loading bikes...''"
  using search_keystroke_unmounts_input [where s = "fst example_page" and c = "snd example_page"
      and v = "''a''" and nf = "\<lambda>cur x. ''$''" and now = 0] mounted_example_page
  by (simp add: Let_def example_page_def bikes_key_def bikes_params_def BikesPage_initial_def
      setSearchTerm_def getResult_def)

text \<open>
  C23: the dashboard when the backend is down. The first render shows the
  spinner. When all three requests and their retries are rejected, six error
  toasts are shown (none for status 401), and the page then renders its
  content with no sign of the failure: no bikes, and the statistics 0, 4.5,
  the formatted amount 50 and 100+, which come from the source text and not
  from the backend.
\<close>

theorem overview_backend_down:
  "(case answer_all queryClient (\<lambda>rq. Rejected e) t1 overview_keys
           (snd (snd (OverviewPage_render nf t0 u OverviewPage_initial []))) w of
      (c, w') \<Rightarrow>
        fst (OverviewPage_render nf t0 u OverviewPage_initial []) = LoadingSpinner ''Loading dashboard...'' \<and>
        fst (OverviewPage_render nf t2 u
               (fst (snd (OverviewPage_render nf t0 u OverviewPage_initial []))) c) =
          Content \<lparr>welcome_name = map_option user_name u, stat_cards = fallback_cards nf,
            quick_actions = [''/bikes'', ''/bookings'', ''/profile'', ''/bikes/stats''],
            view_all = [''/bikes?sort=price'', ''/bikes'', ''/bikes''],
            top_cheap = [], latest = [], popular = []\<rparr> \<and>
        (error_status e \<noteq> Some 401 \<longrightarrow>
           toasts w' = toasts w @ replicate 6 (ToastError (error_message e ''Something went wrong!''))))"
  apply (simp only: overview_all_failed)
  apply (simp only: OverviewPage_first_render)
  apply (simp add: interceptor_funpow_toasts OverviewPage_render_eq observe_eq useQuery_def
      getResult_def OverviewPage_return_no_data overview_params_def)
  done

theorem overview_backend_down_witness:
  "toasts (snd (answer_all queryClient (\<lambda>rq. Rejected None) 10 overview_keys
     (snd (snd (OverviewPage_render (\<lambda>cur x. ''$'') 0 None OverviewPage_initial [])))
     \<lparr>pathname = ''/'', pending_href = None, toasts = []\<rparr>))
   = replicate 6 (ToastError ''Something went wrong!'')"
  using overview_backend_down [where e = None and ?t1.0 = 10 and nf = "\<lambda>cur x. ''$''" and ?t0.0 = 0
      and u = None and w = "\<lparr>pathname = ''/'', pending_href = None, toasts = []\<rparr>"
      and ?t2.0 = 20, unfolded split_beta, THEN conjunct2, THEN conjunct2]
  by simp

text \<open>
  C24: the invariant of the list of bikes. However the page is used, and
  whatever the backend answers in between, the hook observes the query of
  the current search and filters, the cache is well formed, and the request
  of that query carries exactly the five parameters \<^verbatim>\<open>search\<close>, \<^verbatim>\<open>sort\<close>,
  \<^verbatim>\<open>minPrice\<close>, \<^verbatim>\<open>maxPrice\<close>, \<^verbatim>\<open>minRating\<close>, in this order, a filter that is
  not set as the empty string.
\<close>

theorem bikes_session_invariant:
  assumes "bikes_session nf s c"
  shows "mounted s c \<and> cache_wf queryClient c \<and>
         (\<exists>a b c d. query_request (Bikes (Some (bikes_params s))) =
            api_get ''/bikes'' (Some (JObj [(''search'', JStr (searchTerm s)), (''sort'', JStr a),
              (''minPrice'', JStr b), (''maxPrice'', JStr c), (''minRating'', JStr d)])))"
proof -
  from assms have inv: "filters_wf s" "mounted s c" "cache_wf queryClient c"
    by (simp_all add: bikes_session_inv)
  from inv(1) obtain a b c d where
    "filters s = [(''sort'', a), (''minPrice'', b), (''maxPrice'', c), (''minRating'', d)]"
    by (rule filters_wfD)
  then have "query_request (Bikes (Some (bikes_params s))) =
      api_get ''/bikes'' (Some (JObj [(''search'', JStr (searchTerm s)), (''sort'', JStr a),
        (''minPrice'', JStr b), (''maxPrice'', JStr c), (''minRating'', JStr d)]))"
    by (simp add: bikes_params_wf)
  with inv show ?thesis by blast
qed

theorem bikes_session_invariant_witness:
  "bikes_session (\<lambda>cur x. '''')
     (fst (snd (BikesPage_render (\<lambda>cur x. '''') 0 BikesPage_initial ([] :: unit page_cache))))
     (snd (snd (BikesPage_render (\<lambda>cur x. '''') 0 BikesPage_initial ([] :: unit page_cache)))) \<and>
   cache_wf queryClient
     (snd (snd (BikesPage_render (\<lambda>cur x. '''') 0 BikesPage_initial ([] :: unit page_cache))))"
proof -
  have *: "bikes_session (\<lambda>cur x. '''')
     (fst (snd (BikesPage_render (\<lambda>cur x. '''') 0 BikesPage_initial ([] :: unit page_cache))))
     (snd (snd (BikesPage_render (\<lambda>cur x. '''') 0 BikesPage_initial ([] :: unit page_cache))))"
    by (rule bikes_session.mount [OF cached.empty])
  from bikes_session_invariant [OF *] * show ?thesis by simp
qed

text \<open>
  The list and its button. The page shows one card for every bike of the
  answer; the button \<^verbatim>\<open>Load More Bikes\<close> is there exactly when there is a
  card, and pressing it changes neither the state nor the cache nor what is
  shown, and sends nothing.
\<close>

theorem load_more_does_nothing:
  assumes "mounted s c"
  shows "BikesPage_event nf now ClickLoadMore s c = BikesPage_render nf now s c \<and>
         fst (snd (BikesPage_render nf now s c)) = s \<and> snd (snd (BikesPage_render nf now s c)) = c \<and>
         (\<forall>l. fst (BikesPage_render nf now s c) = Content l \<longrightarrow>
            cards l = map (BikesPage_BikeCard nf) (bikes_of (data (getResult (bikes_key s) c))) \<and>
            count l = length (cards l) \<and>
            (load_more l \<longleftrightarrow> cards l \<noteq> []) \<and> (no_bikes_found l \<longleftrightarrow> cards l = []))"
  using assms
  by (auto simp: BikesPage_event_def Let_def render_mounted BikesPage_return_cases split: if_splits)

theorem load_more_does_nothing_witness:
  "mounted (fst example_page) (snd example_page) \<and>
   BikesPage_event (\<lambda>cur x. ''$'') 0 ClickLoadMore (fst example_page) (snd example_page) =
     BikesPage_render (\<lambda>cur x. ''$'') 0 (fst example_page) (snd example_page)"
  using load_more_does_nothing [where s = "fst example_page" and c = "snd example_page"
      and nf = "\<lambda>cur x. ''$''" and now = 0] mounted_example_page
  by simp

end
