(* ===== verification/App.thy ===== *)
theory App
  imports Pages Header
begin

text \<open>
  The application as a whole. \<^verbatim>\<open>App\<close> of \<^verbatim>\<open>src/frontend/src/App.jsx\<close> nests the
  provider of the query client, the provider of the auth context, the routed
  content and the toaster. This theory puts the states of the parts side by
  side: the tab of theory \<open>Session\<close>, the cache of the query client of theory
  \<open>Queries\<close>, the cells of the header of theory \<open>Header\<close> and the cells of the
  page on the screen of theory \<open>Pages\<close>. It defines one step of the whole for
  every event of a part, and shows what holds in every state the whole can
  reach.

  The parts meet at two places. A page load starts the script anew, so the
  cache and all cells are lost, while a navigation of the router keeps the
  cache: the page that leaves the screen gives up its observers and the page
  that enters is mounted. And the requests of the hooks go through the
  client of theory \<open>Http\<close>, whose interceptor answers a status 401 by loading
  the login page.

  Of the pages only the list of bikes and the dashboard have a component in
  the sources; every other page is one without hooks. The times of the steps
  are parameters, as in theory \<open>Queries\<close>.
\<close>

section \<open>The toaster\<close>

text \<open>
  The options of \<^verbatim>\<open>Toaster\<close>: how long a toast stays, in milliseconds. The
  sources raise toasts by \<^verbatim>\<open>toast.success\<close> and \<^verbatim>\<open>toast.error\<close> only, so the
  general duration applies to none of them.
\<close>

record toast_options =
  duration :: nat
  success_duration :: nat
  error_duration :: nat

definition toastOptions :: toast_options where
  "toastOptions = \<lparr>duration = 4000, success_duration = 3000, error_duration = 5000\<rparr>"

fun shown_for :: "toast_options \<Rightarrow> toast \<Rightarrow> nat" where
  "shown_for opts (ToastSuccess m) = success_duration opts"
| "shown_for opts (ToastError m) = error_duration opts"

section \<open>The state of the application\<close>

text \<open>
  The cells of the page on the screen, the cache as the tab holds it, and the
  state of the whole.
\<close>

datatype page_state = OnBikes bikes_page | OnOverview overview_page | NoHooks

type_synonym client_cache = "unit world_ext browser_ext page_cache"

record app =
  tab :: world
  cache :: client_cache
  header_cells :: "header_state option"
  page_cells :: page_state

section \<open>Mounting and unmounting a page\<close>

text \<open>
  \<open>mount\<close> is the first render of the page the route shows, with fresh
  cells; \<open>unmount\<close> lets the hooks of the page that leaves give up their
  places. \<open>start\<close> is \<^verbatim>\<open>App\<close> mounting after a page load, with the client of
  the module created anew. \<open>rerender\<close> is the application after an event
  that loaded no page: a page that stays on the screen keeps its cells.
\<close>

definition mount ::
  "(string \<Rightarrow> rat \<Rightarrow> string) \<Rightarrow> nat \<Rightarrow> world \<Rightarrow> client_cache \<Rightarrow> page_state \<times> client_cache" where
  "mount nf now w c =
     (case shown (AppContent w) of
        Some BikesPage \<Rightarrow>
          (let r = BikesPage_render nf now BikesPage_initial c in (OnBikes (fst (snd r)), snd (snd r)))
      | Some OverviewPage \<Rightarrow>
          (let r = OverviewPage_render nf now (user (auth w)) OverviewPage_initial c
           in (OnOverview (fst (snd r)), snd (snd r)))
      | _ \<Rightarrow> (NoHooks, c))"

definition leave :: "query_key option \<Rightarrow> ('d, 'a) query_cache \<Rightarrow> ('d, 'a) query_cache" where
  "leave k c = (case k of None \<Rightarrow> c | Some key \<Rightarrow> unsubscribe key c)"

fun unmount :: "page_state \<Rightarrow> client_cache \<Rightarrow> client_cache" where
  "unmount (OnBikes s) c = leave (observed s) c"
| "unmount (OnOverview s) c =
     leave (observed_stats s) (leave (observed_cheap s) (leave (observed_bikes s) c))"
| "unmount NoHooks c = c"

definition start :: "(string \<Rightarrow> rat \<Rightarrow> string) \<Rightarrow> nat \<Rightarrow> world \<Rightarrow> app" where
  "start nf now w =
     (let m = mount nf now w []
      in \<lparr>tab = w, cache = snd m, header_cells = remount True None w, page_cells = fst m\<rparr>)"

definition rerender :: "(string \<Rightarrow> rat \<Rightarrow> string) \<Rightarrow> nat \<Rightarrow> world \<Rightarrow> app \<Rightarrow> app" where
  "rerender nf now w a =
     (if shown (AppContent w) = shown (AppContent (tab a))
      then a\<lparr>tab := w, header_cells := remount False (header_cells a) w\<rparr>
      else let m = mount nf now w (unmount (page_cells a) (cache a))
           in \<lparr>tab = w, cache = snd m, header_cells = remount False (header_cells a) w,
               page_cells = fst m\<rparr>)"

definition after :: "(string \<Rightarrow> rat \<Rightarrow> string) \<Rightarrow> nat \<Rightarrow> bool \<Rightarrow> world \<Rightarrow> app \<Rightarrow> app" where
  "after nf now loaded w a = (if loaded then start nf now w else rerender nf now w a)"

section \<open>Events\<close>

text \<open>
  \<open>reaction\<close> is what the handler of an event of the session does before
  the browser settles, and \<open>loads\<close> says whether it leaves a page load
  pending. The events of the application are those of the session, the
  clicks on the header, the events on the list of bikes, and the answer of
  the backend to one request of a fetch in flight. An answer without a
  session is a rejection with status 401.
\<close>

fun reaction :: "world \<Rightarrow> event \<Rightarrow> world" where
  "reaction w (Open p) = assign_href p w"
| "reaction w (Click p) = navigate p w"
| "reaction w (SubmitLogin c ans) =
     snd (login (\<lambda>rq. ans) c (w\<lparr>session := session w \<or> accepted ans\<rparr>))"
| "reaction w (SubmitSignup c ans) =
     snd (signup (\<lambda>rq. ans) c (w\<lparr>session := session w \<or> accepted ans\<rparr>))"
| "reaction w (SubmitProfile c ans) = snd (updateProfile (\<lambda>rq. ans) c w)"
| "reaction w ClickLogout = handleLogout w"
| "reaction w Fetch =
     snd (send (protected_backend (session w) :: unit backend) (api_get ''/bikes'' None) w)"
| "reaction w Expire = w\<lparr>session := False\<rparr>"

definition loads :: "world \<Rightarrow> event \<Rightarrow> bool" where
  "loads w e \<longleftrightarrow> e \<noteq> Expire \<and> pending_href (reaction w e) \<noteq> None"

datatype app_event =
    Browser event
  | OnHeader header_event
  | OnPage bikes_event
  | Answer query_key "api_data body outcome"

definition browser_step :: "(string \<Rightarrow> rat \<Rightarrow> string) \<Rightarrow> nat \<Rightarrow> event \<Rightarrow> app \<Rightarrow> app" where
  "browser_step nf now e a = after nf now (loads (tab a) e) (step (tab a) e) a"

definition header_loads :: "header_event \<Rightarrow> app \<Rightarrow> bool" where
  "header_loads ev a \<longleftrightarrow>
     (case header_cells a of
        None \<Rightarrow> False
      | Some h \<Rightarrow> ev = ClickSignOut \<and> on_screen (Header_return (tab a) h) ev)"

definition header_step :: "(string \<Rightarrow> rat \<Rightarrow> string) \<Rightarrow> nat \<Rightarrow> header_event \<Rightarrow> app \<Rightarrow> app" where
  "header_step nf now ev a =
     (let hw = Header_event ev (header_cells a, tab a)
      in (after nf now (header_loads ev a) (snd hw) a)\<lparr>header_cells := fst hw\<rparr>)"

definition page_step :: "(string \<Rightarrow> rat \<Rightarrow> string) \<Rightarrow> nat \<Rightarrow> bikes_event \<Rightarrow> app \<Rightarrow> app" where
  "page_step nf now ev a =
     (case page_cells a of
        OnBikes s \<Rightarrow>
          (let r = BikesPage_event nf now ev s (cache a)
           in a\<lparr>cache := snd (snd r), page_cells := OnBikes (fst (snd r))\<rparr>)
      | _ \<Rightarrow> a)"

definition answer_step ::
  "(string \<Rightarrow> rat \<Rightarrow> string) \<Rightarrow> nat \<Rightarrow> query_key \<Rightarrow> api_data body outcome \<Rightarrow> app \<Rightarrow> app" where
  "answer_step nf now key ans a =
     (let r = attempt queryClient (\<lambda>rq. ans) now key (cache a) (tab a)
      in if pending_href (snd r) \<noteq> None then start nf now (settle (snd r))
         else a\<lparr>tab := snd r, cache := fst r\<rparr>)"

fun app_step :: "(string \<Rightarrow> rat \<Rightarrow> string) \<Rightarrow> nat \<Rightarrow> app \<Rightarrow> app_event \<Rightarrow> app" where
  "app_step nf now a (Browser e) = browser_step nf now e a"
| "app_step nf now a (OnHeader ev) = header_step nf now ev a"
| "app_step nf now a (OnPage ev) = page_step nf now ev a"
| "app_step nf now a (Answer key ans) = answer_step nf now key ans a"

fun possible :: "app \<Rightarrow> app_event \<Rightarrow> bool" where
  "possible a (Browser e) = admissible (tab a) e"
| "possible a (Answer key ans) =
     (session (tab a) \<or> (case ans of Rejected e \<Rightarrow> error_status e = Some 401 | Resolved r \<Rightarrow> False))"
| "possible a ev = True"

inductive running :: "(string \<Rightarrow> rat \<Rightarrow> string) \<Rightarrow> app \<Rightarrow> bool" for nf where
  opened: "running nf (start nf now (step w0 (Open p)))"
| stepped: "running nf a \<Longrightarrow> possible a ev \<Longrightarrow> running nf (app_step nf now a ev)"

section \<open>What holds of the application\<close>

text \<open>
  The vocabulary of the invariant. \<open>hooked\<close>: every query of the cache
  fetches by a request through the client. \<open>page_inv\<close>: the cells on the
  screen are those of the page the route shows. \<open>app_inv\<close> adds the
  invariants of the parts and that a visitor has an empty cache.
  \<open>keeps_data\<close> and \<open>no_data\<close> compare the data of two caches.
\<close>

definition sends :: "('d, 'a) query \<Rightarrow> bool" where
  "sends q \<longleftrightarrow> (\<exists>rq. q_fn q = (\<lambda>be. send be rq))"

definition hooked :: "('d, 'a) query_cache \<Rightarrow> bool" where
  "hooked c \<longleftrightarrow> (\<forall>k q. map_of c k = Some q \<longrightarrow> sends q)"

definition page_inv :: "app \<Rightarrow> bool" where
  "page_inv a \<longleftrightarrow>
     (case page_cells a of
        OnBikes s \<Rightarrow> shown (AppContent (tab a)) = Some BikesPage \<and> filters_wf s \<and> mounted s (cache a)
      | OnOverview s \<Rightarrow>
          shown (AppContent (tab a)) = Some OverviewPage \<and>
          s = \<lparr>observed_bikes = Some (key_of (Bikes (Some overview_params))),
               observed_cheap = Some (key_of TopCheapBikes),
               observed_stats = Some (key_of BikeStats)\<rparr>
      | NoHooks \<Rightarrow>
          shown (AppContent (tab a)) \<noteq> Some BikesPage \<and>
          shown (AppContent (tab a)) \<noteq> Some OverviewPage)"

definition app_inv :: "app \<Rightarrow> bool" where
  "app_inv a \<longleftrightarrow>
     world_inv (tab a) \<and> cache_wf queryClient (cache a) \<and> hooked (cache a) \<and>
     header_inv (header_cells a) (tab a) \<and> page_inv a \<and>
     (\<not> isAuthenticated (auth (tab a)) \<longrightarrow> cache a = [] \<and> page_cells a = NoHooks)"

definition keeps_data :: "('d, 'a) query_cache \<Rightarrow> ('d, 'a) query_cache \<Rightarrow> bool" where
  "keeps_data c c' \<longleftrightarrow>
     (\<forall>k q. map_of c k = Some q \<longrightarrow> (\<exists>q'. map_of c' k = Some q' \<and> q_data q' = q_data q))"

definition no_data :: "('d, 'a) query_cache \<Rightarrow> bool" where
  "no_data c \<longleftrightarrow> (\<forall>k q. map_of c k = Some q \<longrightarrow> q_data q = None)"

section \<open>Events that load no page\<close>

lemma step_reaction: "e \<noteq> Expire \<Longrightarrow> step w e = settle (reaction w e)"
  by (cases e) (simp_all add: step_simps)

lemma step_not_loaded:
  assumes "\<not> loads w e"
  shows "step w e = (if e = Expire then w\<lparr>session := False\<rparr> else follow_redirects (reaction w e))"
  using assms by (cases "e = Expire") (simp_all add: step_simps loads_def step_reaction settle_None)

lemma step_loaded:
  assumes "loads w e"
  shows "auth (step w e) = \<lparr>user = None, loading = False, isAuthenticated = session (reaction w e)\<rparr>"
  using assms by (auto simp: loads_def step_reaction settle_auth)

lemma reaction_keeps_authenticated:
  assumes "world_inv w" and "\<not> loads w e" and "isAuthenticated (auth w)"
  shows "isAuthenticated (auth (reaction w e))"
proof (cases e)
  case (SubmitLogin c ans)
  with assms show ?thesis by (cases "granted ans") (simp_all add: login_snd)
next
  case (SubmitSignup c ans)
  with assms show ?thesis by (cases "granted ans") (simp_all add: signup_snd)
next
  case (SubmitProfile c ans)
  with assms show ?thesis by (cases "granted ans") (simp_all add: updateProfile_snd)
next
  case ClickLogout
  with assms show ?thesis by (simp add: loads_def handleLogout_def logout_eq navigate_def)
qed (use assms in \<open>simp_all add: navigate_def assign_href_def\<close>)

lemma auth_kept:
  assumes "world_inv w" and "\<not> loads w e" and "isAuthenticated (auth w)"
  shows "isAuthenticated (auth (step w e))"
  using reaction_keeps_authenticated [OF assms] assms(2,3) by (simp add: step_not_loaded)

lemma click_not_loaded: "pending_href w = None \<Longrightarrow> \<not> loads w (Click p)"
  by (simp add: loads_def navigate_def)

section \<open>The cache under the hooks\<close>

lemma hooked_Nil [simp]: "hooked []"
  by (simp add: hooked_def)

lemma q_fn_addObserver [simp]: "q_fn (addObserver opts now q) = queryFn opts"
  by (simp add: addObserver_def fetch_def Let_def)

lemma q_fn_removeObserver [simp]: "q_fn (removeObserver q) = q_fn q"
  by (simp add: removeObserver_def)

lemma sends_removeObserver [simp]: "sends (removeObserver q) = sends q"
  by (simp add: sends_def)

lemma hooked_subscribe:
  "hooked c \<Longrightarrow> hooked (subscribe (options_of qc) now c)"
  by (auto simp: hooked_def lookup_subscribe sends_def)

lemma hooked_unsubscribe [simp]: "hooked c \<Longrightarrow> hooked (unsubscribe k c)"
  by (auto simp: hooked_def lookup_unsubscribe split: if_splits)

lemma hooked_observe [simp]: "hooked c \<Longrightarrow> hooked (snd (observe qc now prev c))"
  by (auto simp: observe_eq useQuery_def Let_def hooked_subscribe split: option.splits)

lemma attempt_q_fn:
  "map_option q_fn (map_of (fst (attempt cfg be now key c w)) k) = map_option q_fn (map_of c k)"
  by (cases "k = key")
     (auto simp: attempt_def update_conv' set_success_def set_error_def set_failed_def
       split: option.splits prod.splits outcome.splits)

lemma hooked_attempt [simp]:
  assumes "hooked c"
  shows "hooked (fst (attempt cfg be now key c w))"
  unfolding hooked_def
proof (intro allI impI)
  fix k q assume "map_of (fst (attempt cfg be now key c w)) k = Some q"
  with attempt_q_fn [of cfg be now key c w k]
  obtain q0 where "map_of c k = Some q0" "q_fn q0 = q_fn q" by (cases "map_of c k") auto
  with assms have "sends q0" and "q_fn q0 = q_fn q" by (simp_all add: hooked_def)
  then show "sends q" by (simp add: sends_def)
qed

lemma hooked_render [simp]:
  "hooked c \<Longrightarrow> hooked (snd (snd (BikesPage_render nf now s c)))"
  by (simp add: BikesPage_render_eq)

lemma hooked_event [simp]:
  "hooked c \<Longrightarrow> hooked (snd (snd (BikesPage_event nf now ev s c)))"
  by (simp add: BikesPage_event_def Let_def)

lemma hooked_overview [simp]:
  "hooked c \<Longrightarrow> hooked (snd (snd (OverviewPage_render nf now u s c)))"
  by (simp add: OverviewPage_render_eq Let_def)

lemma cache_wf_overview [simp]:
  "cache_wf cfg c \<Longrightarrow> cache_wf cfg (snd (snd (OverviewPage_render nf now u s c)))"
  by (simp add: OverviewPage_render_eq Let_def observe_eq)

lemma hooked_leave [simp]: "hooked c \<Longrightarrow> hooked (leave k c)"
  by (simp add: leave_def split: option.splits)

lemma cache_wf_leave [simp]: "cache_wf cfg c \<Longrightarrow> cache_wf cfg (leave k c)"
  by (simp add: leave_def split: option.splits)

lemma hooked_unmount [simp]: "hooked c \<Longrightarrow> hooked (unmount p c)"
  by (cases p) simp_all

lemma cache_wf_unmount [simp]: "cache_wf cfg c \<Longrightarrow> cache_wf cfg (unmount p c)"
  by (cases p) simp_all

lemma hooked_mount [simp]: "hooked c \<Longrightarrow> hooked (snd (mount nf now w c))"
  by (simp add: mount_def Let_def split: option.splits page.splits)

lemma cache_wf_mount [simp]: "cache_wf cfg c \<Longrightarrow> cache_wf cfg (snd (mount nf now w c))"
  by (simp add: mount_def Let_def split: option.splits page.splits)

section \<open>The invariant, step by step\<close>

lemma hooks_need_auth:
  assumes "shown (AppContent w) = Some pg" and "pg \<in> {BikesPage, OverviewPage}"
  shows "isAuthenticated (auth w)"
proof -
  from assms(1) obtain pat e where "match_route (pathname w) = Some (pat, e)"
    "shown (render (auth w) e) = Some pg"
    by (auto simp: AppContent_def route_view_def split: option.splits)
  with assms(2) show ?thesis
    using match_route_mem [of "pathname w" "(pat, e)"] shown_render_cases [of pat e "auth w" pg]
    by (auto split: if_splits)
qed

lemma mount_visitor:
  "\<not> isAuthenticated (auth w) \<Longrightarrow> mount nf now w c = (NoHooks, c)"
  using hooks_need_auth [of w]
  by (auto simp: mount_def Let_def split: option.splits page.splits)

lemma observed_initial [simp]: "observed BikesPage_initial = None"
  by (simp add: BikesPage_initial_def)

lemma page_inv_mount:
  "page_inv \<lparr>tab = w, cache = snd (mount nf now w c), header_cells = h,
             page_cells = fst (mount nf now w c)\<rparr>"
  by (auto simp: page_inv_def mount_def Let_def mounted_first_render OverviewPage_render_eq
      split: option.splits page.splits)

lemma app_inv_start: "world_inv w \<Longrightarrow> app_inv (start nf now w)"
  by (simp add: app_inv_def start_def Let_def page_inv_mount mount_visitor)

lemma header_inv_kept:
  assumes "header_inv h w" and "isAuthenticated (auth w) \<longrightarrow> isAuthenticated (auth w')"
  shows "header_inv (remount False h w') w'"
proof (cases h)
  case None
  then show ?thesis by (simp add: header_inv_def remount_def initial_header_def)
next
  case (Some hs)
  with assms have "isUserMenuOpen hs \<longrightarrow> isAuthenticated (auth w')"
    by (simp add: header_inv_def)
  with Some show ?thesis by (simp add: header_inv_remount)
qed

lemma page_inv_tab:
  "page_inv a \<Longrightarrow> shown (AppContent w) = shown (AppContent (tab a)) \<Longrightarrow>
   page_inv (a\<lparr>tab := w, header_cells := h\<rparr>)"
  by (simp add: page_inv_def split: page_state.splits)

lemma app_inv_rerender:
  assumes "app_inv a" and "world_inv w"
    and "isAuthenticated (auth (tab a)) \<longrightarrow> isAuthenticated (auth w)"
  shows "app_inv (rerender nf now w a)"
proof -
  from assms(1,3) have "header_inv (remount False (header_cells a) w) w"
    by (simp add: app_inv_def header_inv_kept [of _ "tab a"])
  with assms show ?thesis
    by (auto simp: app_inv_def rerender_def Let_def page_inv_mount page_inv_tab mount_visitor)
qed

lemma app_inv_after:
  assumes "app_inv a" and "world_inv w"
    and "\<not> loaded \<Longrightarrow> isAuthenticated (auth (tab a)) \<longrightarrow> isAuthenticated (auth w)"
  shows "app_inv (after nf now loaded w a)"
  using assms by (simp add: after_def app_inv_start app_inv_rerender)

lemma app_inv_browser_step:
  assumes "app_inv a" and "admissible (tab a) e"
  shows "app_inv (browser_step nf now e a)"
  unfolding browser_step_def
proof (rule app_inv_after [OF assms(1)])
  from assms show "world_inv (step (tab a) e)" by (simp add: app_inv_def step_inv)
next
  assume "\<not> loads (tab a) e"
  with assms(1) show "isAuthenticated (auth (tab a)) \<longrightarrow> isAuthenticated (auth (step (tab a) e))"
    by (simp add: app_inv_def auth_kept)
qed

lemma tab_start [simp]: "tab (start nf now w) = w"
  by (simp add: start_def Let_def)

lemma tab_rerender [simp]: "tab (rerender nf now w a) = w"
  by (simp add: rerender_def Let_def)

lemma tab_after [simp]: "tab (after nf now l w a) = w"
  by (simp add: after_def)

lemma app_inv_header:
  "app_inv a \<Longrightarrow> header_inv h (tab a) \<Longrightarrow> app_inv (a\<lparr>header_cells := h\<rparr>)"
  by (simp add: app_inv_def page_inv_def split: page_state.splits)

lemma Header_event_auth:
  assumes "world_inv (tab a)" and "\<not> header_loads ev a"
  shows "auth (snd (Header_event ev (header_cells a, tab a))) = auth (tab a)"
proof (cases "header_cells a")
  case None
  then show ?thesis by (simp add: Header_event_def)
next
  case (Some h)
  show ?thesis
  proof (cases "session_event ev")
    case None
    with Some show ?thesis by (simp add: Header_event_def)
  next
    case (Some e)
    with assms \<open>header_cells a = Some h\<close> session_event_cases [OF Some] show ?thesis
      by (auto simp: Header_event_def header_loads_def step_Click_auth)
  qed
qed

lemma app_inv_header_step:
  assumes "app_inv a"
  shows "app_inv (header_step nf now ev a)"
proof -
  let ?hw = "Header_event ev (header_cells a, tab a)"
  from assms have inv: "header_inv (fst ?hw) (snd ?hw)" "world_inv (snd ?hw)"
    using header_inv_event [of "tab a" "header_cells a" ev] by (simp_all add: app_inv_def)
  from assms have "app_inv (after nf now (header_loads ev a) (snd ?hw) a)"
    by (intro app_inv_after inv) (simp_all add: app_inv_def Header_event_auth)
  with inv show ?thesis by (simp add: header_step_def Let_def app_inv_header)
qed

lemma app_inv_page_step:
  assumes "app_inv a"
  shows "app_inv (page_step nf now ev a)"
  using assms
  by (auto simp: page_step_def app_inv_def page_inv_def Let_def mounted_event
      split: page_state.splits)

lemma attempt_tab:
  assumes "hooked c"
  shows "snd (attempt cfg be now key c w) = w \<or>
         (\<exists>rq. snd (attempt cfg be now key c w) = snd (send be rq w))"
proof (cases "map_of c key")
  case None
  then show ?thesis by simp
next
  case (Some q)
  with assms obtain rq where "q_fn q = (\<lambda>be. send be rq)"
    by (auto simp: hooked_def sends_def)
  with Some show ?thesis by (auto simp: attempt_window)
qed

lemma send_quiet:
  assumes "pending_href (snd (send be rq w)) = None"
  shows "auth (snd (send be rq w)) = auth w"
    and "AppContent (snd (send be rq w)) = AppContent w"
    and "world_inv w \<Longrightarrow> world_inv (snd (send be rq w))"
  using assms by (simp_all add: AppContent_def inv_defs)

lemma attempt_quiet:
  assumes "hooked c" and "pending_href (snd (attempt cfg be now key c w)) = None"
  shows "auth (snd (attempt cfg be now key c w)) = auth w"
    and "AppContent (snd (attempt cfg be now key c w)) = AppContent w"
    and "world_inv w \<Longrightarrow> world_inv (snd (attempt cfg be now key c w))"
  using attempt_tab [OF assms(1), of cfg be now key w] assms(2)
  by (auto simp: send_quiet)

lemma attempt_ready:
  assumes "hooked c" and "world_inv w"
  shows "ready (snd (attempt cfg be now key c w))"
  using attempt_tab [OF assms(1), of cfg be now key w] assms(2)
  by (auto simp: ready_Fetch) (simp add: ready_def inv_defs)

lemma app_inv_answer_step:
  assumes "app_inv a"
  shows "app_inv (answer_step nf now key ans a)"
proof (cases "pending_href (snd (attempt queryClient (\<lambda>rq. ans) now key (cache a) (tab a))) = None")
  case True
  with assms show ?thesis
    by (auto simp: answer_step_def Let_def app_inv_def page_inv_def attempt_quiet mounted_attempt
          header_inv_def
        split: page_state.splits)
next
  case False
  from assms have "world_inv (settle (snd (attempt queryClient (\<lambda>rq. ans) now key (cache a) (tab a))))"
    by (simp add: app_inv_def settle_inv attempt_ready)
  with False show ?thesis by (simp add: answer_step_def Let_def app_inv_start)
qed

lemma app_inv_step: "app_inv a \<Longrightarrow> possible a ev \<Longrightarrow> app_inv (app_step nf now a ev)"
  by (cases ev)
     (simp_all add: app_inv_browser_step app_inv_header_step app_inv_page_step app_inv_answer_step)

lemma running_inv: "running nf a \<Longrightarrow> app_inv a"
proof (induction rule: running.induct)
  case (opened now w0 p)
  show ?case by (simp add: app_inv_start step_simps settle_inv ready_Open)
next
  case (stepped a ev now)
  then show ?case by (simp add: app_inv_step)
qed

section \<open>Visitors and the first page\<close>

lemma landing_login_visitor:
  assumes "\<not> session w"
  shows "AppContent (landing p w) = Pages LoginPage"
    and "follow_redirects (landing p w) = landing p w"
proof -
  from assms show *: "AppContent (landing p w) = Pages LoginPage"
    by (simp add: landing_view route_view_def guard_defs)
  then show "follow_redirects (landing p w) = landing p w"
    by (simp add: follow_redirects_stay)
qed

lemma start_visitor:
  assumes "\<not> session w"
  shows "start nf now (landing p w) =
           \<lparr>tab = landing p w, cache = [], header_cells = None, page_cells = NoHooks\<rparr>"
  using assms by (simp add: start_def mount_def remount_def landing_login_visitor Let_def)

lemma login_page_visitor:
  assumes "world_inv w" and "pathname w = ''/login''"
  shows "\<not> isAuthenticated (auth w)"
  using assms by (auto simp: inv_defs AppContent_def route_view_def guard_defs)

lemma open_bikes:
  assumes "session w"
  shows "step w (Open ''/bikes'') = landing ''/bikes'' w"
    and "AppContent (landing ''/bikes'' w) = WithHeader (Pages BikesPage)"
proof -
  from assms show *: "AppContent (landing ''/bikes'' w) = WithHeader (Pages BikesPage)"
    by (simp add: landing_view route_view_def guard_defs)
  then show "step w (Open ''/bikes'') = landing ''/bikes'' w"
    by (simp add: step_Open follow_redirects_stay)
qed

lemma start_bikes:
  assumes "session w"
  shows "start nf now (landing ''/bikes'' w) =
           \<lparr>tab = landing ''/bikes'' w,
            cache = [(bikes_key BikesPage_initial,
                      (build (\<lambda>be. send be (query_request (Bikes (Some (bikes_params BikesPage_initial))))))
                        \<lparr>fetchStatus := Fetching, observers := 1\<rparr>)],
            header_cells = Some initial_header,
            page_cells = OnBikes (BikesPage_initial\<lparr>observed := Some (bikes_key BikesPage_initial)\<rparr>)\<rparr>"
  using assms
  by (simp add: open_bikes start_def mount_def remount_def Let_def BikesPage_render_eq observe_eq
      useQuery_mount subscribe_def addObserver_build bikes_key_def)

section \<open>Cached data\<close>

lemma keeps_data_refl [simp]: "keeps_data c c"
  by (simp add: keeps_data_def)

lemma no_data_Nil [simp]: "no_data []"
  by (simp add: no_data_def)

lemma q_data_addObserver [simp]: "q_data (addObserver opts now q) = q_data q"
  by (simp add: addObserver_def fetch_def Let_def)

lemma q_data_removeObserver [simp]: "q_data (removeObserver q) = q_data q"
  by (simp add: removeObserver_def)

lemma keeps_data_subscribe [simp]: "keeps_data c c' \<Longrightarrow> keeps_data c (subscribe opts now c')"
  by (fastforce simp: keeps_data_def lookup_subscribe)

lemma keeps_data_unsubscribe [simp]: "keeps_data c c' \<Longrightarrow> keeps_data c (unsubscribe k c')"
  by (fastforce simp: keeps_data_def lookup_unsubscribe)

lemma no_data_subscribe [simp]: "no_data c \<Longrightarrow> no_data (subscribe opts now c)"
  by (auto simp: no_data_def lookup_subscribe split: option.splits if_splits)

lemma no_data_unsubscribe [simp]: "no_data c \<Longrightarrow> no_data (unsubscribe k c)"
  by (auto simp: no_data_def lookup_unsubscribe split: if_splits)

lemma keeps_data_observe [simp]: "keeps_data c c' \<Longrightarrow> keeps_data c (snd (observe qc now prev c'))"
  by (simp add: observe_eq useQuery_def Let_def split: option.splits)

lemma no_data_observe [simp]: "no_data c \<Longrightarrow> no_data (snd (observe qc now prev c))"
  by (simp add: observe_eq useQuery_def Let_def split: option.splits)

lemma keeps_data_leave [simp]: "keeps_data c c' \<Longrightarrow> keeps_data c (leave k c')"
  by (simp add: leave_def split: option.splits)

lemma keeps_data_unmount [simp]: "keeps_data c c' \<Longrightarrow> keeps_data c (unmount p c')"
  by (cases p) simp_all

lemma keeps_data_mount [simp]: "keeps_data c c' \<Longrightarrow> keeps_data c (snd (mount nf now w c'))"
  by (simp add: mount_def Let_def BikesPage_render_eq OverviewPage_render_eq
      split: option.splits page.splits)

lemma no_data_mount [simp]: "no_data c \<Longrightarrow> no_data (snd (mount nf now w c))"
  by (simp add: mount_def Let_def BikesPage_render_eq OverviewPage_render_eq
      split: option.splits page.splits)

lemma keeps_data_rerender [simp]: "keeps_data (cache a) (cache (rerender nf now w a))"
  by (simp add: rerender_def Let_def)

lemma no_data_start [simp]: "no_data (cache (start nf now w))"
  by (simp add: start_def Let_def)

lemma keeps_dataD:
  "keeps_data c c' \<Longrightarrow> map_of c k = Some q \<Longrightarrow> \<exists>q'. map_of c' k = Some q' \<and> q_data q' = q_data q"
  by (simp add: keeps_data_def)

section \<open>Properties of the application\<close>

text \<open>
  C19: the invariant of the application. In every state the application can
  reach, whatever the user does on the pages and the header and whatever the
  backend answers: the tab is settled and consistent; the cache is well
  formed; the header has cells exactly while the view has a header; the
  cells of the page are those of the page on the screen, and the hook of the
  list of bikes observes the query of its parameters; and as long as the
  client does not believe to be authenticated, nothing is cached and no page
  with hooks is mounted.
\<close>

theorem app_invariant:
  assumes "running nf a"
  shows "settled (tab a) \<and> consistent (tab a) \<and> cache_wf queryClient (cache a) \<and>
         (header_cells a = None \<longleftrightarrow> \<not> has_header (AppContent (tab a))) \<and>
         (case page_cells a of
            OnBikes s \<Rightarrow> shown (AppContent (tab a)) = Some BikesPage \<and> mounted s (cache a)
          | OnOverview s \<Rightarrow> shown (AppContent (tab a)) = Some OverviewPage
          | NoHooks \<Rightarrow> shown (AppContent (tab a)) \<noteq> Some BikesPage \<and>
                       shown (AppContent (tab a)) \<noteq> Some OverviewPage) \<and>
         (\<not> isAuthenticated (auth (tab a)) \<longrightarrow> cache a = [] \<and> page_cells a = NoHooks)"
  using running_inv [OF assms]
  by (auto simp: app_inv_def world_inv_def header_inv_def page_inv_def split: page_state.splits)

theorem app_invariant_witness:
  "running (\<lambda>cur x. []) (start (\<lambda>cur x. []) 0 (step (fresh True) (Open ''/bikes''))) \<and>
   shown (AppContent (tab (start (\<lambda>cur x. []) 0 (step (fresh True) (Open ''/bikes''))))) = Some BikesPage \<and>
   page_cells (start (\<lambda>cur x. []) 0 (step (fresh True) (Open ''/bikes''))) \<noteq> NoHooks \<and>
   header_cells (start (\<lambda>cur x. []) 0 (step (fresh True) (Open ''/bikes''))) \<noteq> None"
proof -
  have *: "running (\<lambda>cur x. []) (start (\<lambda>cur x. []) 0 (step (fresh True) (Open ''/bikes'')))"
    by (rule running.opened)
  from app_invariant [OF *] * show ?thesis
    by (simp add: start_bikes open_bikes)
qed

text \<open>
  C20: the end of a session. When the backend no longer holds the session
  and answers a request of any fetch in flight with status 401, the
  application starts anew on the login page: the page is loaded, no toast is
  shown, the header and the page are gone, and everything the cache held is
  lost, whatever page the user was on.
\<close>

theorem unauthorized_answer_restarts:
  assumes "running nf a" and "\<not> session (tab a)"
    and "map_of (cache a) key = Some q" and "fetchStatus q = Fetching"
    and "error_status e = Some 401"
  shows "app_step nf now a (Answer key (Rejected e)) =
           \<lparr>tab = landing ''/login'' (tab a), cache = [], header_cells = None, page_cells = NoHooks\<rparr> \<and>
         pathname (landing ''/login'' (tab a)) = ''/login'' \<and> toasts (landing ''/login'' (tab a)) = []"
proof -
  from assms(1) have inv: "app_inv a" by (rule running_inv)
  with assms(3) have "pathname (tab a) \<noteq> ''/login''"
    using login_page_visitor [of "tab a"] by (auto simp: app_inv_def)
  moreover from inv assms(3) obtain rq where "q_fn q = (\<lambda>be. send be rq)"
    by (auto simp: app_inv_def hooked_def sends_def)
  ultimately have "snd (attempt queryClient (\<lambda>rq. Rejected e) now key (cache a) (tab a)) =
      assign_href ''/login'' (tab a)"
    using assms by (simp add: attempt_window send_snd)
  with assms(2) show ?thesis
    by (simp add: answer_step_def Let_def assign_href_def settle_Some start_visitor
        landing_login_visitor)
qed

theorem unauthorized_answer_restarts_witness:
  "cache (app_step (\<lambda>cur x. []) 2
            (app_step (\<lambda>cur x. []) 1 (start (\<lambda>cur x. []) 0 (step (fresh True) (Open ''/bikes'')))
               (Browser Expire))
            (Answer (bikes_key BikesPage_initial) (Rejected unauthorized))) = [] \<and>
   page_cells (app_step (\<lambda>cur x. []) 1 (start (\<lambda>cur x. []) 0 (step (fresh True) (Open ''/bikes'')))
      (Browser Expire)) \<noteq> NoHooks"
proof -
  let ?a0 = "start (\<lambda>cur x. []) 0 (step (fresh True) (Open ''/bikes''))"
  let ?a1 = "app_step (\<lambda>cur x. []) 1 ?a0 (Browser Expire)"
  have r: "running (\<lambda>cur x. []) ?a1"
    by (rule running.stepped [OF running.opened]) simp
  have a1: "?a1 =
      \<lparr>tab = (landing ''/bikes'' (fresh True))\<lparr>session := False\<rparr>,
       cache = [(bikes_key BikesPage_initial,
                 (build (\<lambda>be. send be (query_request (Bikes (Some (bikes_params BikesPage_initial))))))
                   \<lparr>fetchStatus := Fetching, observers := 1\<rparr>)],
       header_cells = Some initial_header,
       page_cells = OnBikes (BikesPage_initial\<lparr>observed := Some (bikes_key BikesPage_initial)\<rparr>)\<rparr>"
    by (simp add: browser_step_def after_def loads_def rerender_def step.simps(8) open_bikes
        start_bikes AppContent_def remount_def route_view_def guard_defs)
  from unauthorized_answer_restarts [OF r, of "bikes_key BikesPage_initial" _ unauthorized 2]
  show ?thesis unfolding a1 by simp
qed



end
