(* ===== verification/Spec2Isabelle.thy ===== *)
theory Spec2Isabelle
  imports Prelude Http Auth Services Queries Routes Session Header Helpers Validation Pages App
begin

text \<open>
  \<^bold>\<open>A verification development for the bike-rental web client\<close>
  (sources under \<^verbatim>\<open>src/frontend/src\<close>).

  \<^bold>\<open>The program.\<close> A single-page browser client of a bike-rental backend.
  Its parts, from the inside out: the shared HTTP client with its
  interceptors (\<^verbatim>\<open>services/api.js\<close>); thin service wrappers that name the
  backend endpoints (\<^verbatim>\<open>services/*Service.js\<close>); the authentication context
  with its three state cells \<^verbatim>\<open>user\<close>, \<^verbatim>\<open>loading\<close>, \<^verbatim>\<open>isAuthenticated\<close> and the
  handlers that change them (\<^verbatim>\<open>context/AuthContext.jsx\<close>); the route guards
  and the route table (\<^verbatim>\<open>App.jsx\<close>, \<^verbatim>\<open>components/common/ProtectedRoute.jsx\<close>);
  the navigation header (\<^verbatim>\<open>components/layout/Header.jsx\<close>); pure helpers
  (\<^verbatim>\<open>utils/helpers.js\<close>); form schemas (\<^verbatim>\<open>utils/validationSchemas.js\<close>);
  query hooks (\<^verbatim>\<open>hooks/*.js\<close>) and two pages. The parts interact through the
  browser: a handler calls a wrapper, the wrapper sends a request, the
  interceptor reacts to a rejection by a toast or by assigning
  \<^verbatim>\<open>window.location.href\<close>, the assignment makes the browser load a page, the
  load mounts the provider, whose probe goes through the interceptor again,
  and what the user sees is decided by the guards from the state cells.

  \<^bold>\<open>Conventions of the model.\<close> A value that may be \<^verbatim>\<open>undefined\<close> is an
  \<open>option\<close>. A promise is its \<open>outcome\<close>, \<open>Resolved\<close> or \<open>Rejected\<close>; the
  backend is a parameter of type \<open>request \<Rightarrow> 'd body outcome\<close>, so every
  theorem holds for every backend unless it says otherwise. Side effects on
  the browser are explicit state passing over the record \<open>window\<close> and its
  extensions \<open>browser\<close> (with the state cells) and \<open>world\<close> (with the session
  the backend holds). An exception raised inside a \<^verbatim>\<open>try\<close> block is a branch of
  the handler. A handler of the auth context runs to its end before the next
  event is handled (it awaits one request and nothing else is interleaved).
  The fetch of a query is not atomic: starting it, each of its requests and
  the renders of the page in between are separate steps, and several queries
  can be fetching at once.

  \<^bold>\<open>Theories and what they model.\<close>
  \<^item> \<open>Prelude\<close>: truthiness and \<^verbatim>\<open>||\<close> on strings (\<open>truthy\<close>, \<open>str_or\<close>), default
    parameters (\<open>default_arg\<close>), toasts, the \<open>window\<close> record with
    \<open>show_toast\<close> and \<open>assign_href\<close>, ASCII case mapping, \<open>split_on\<close>,
    \<open>string_of_nat\<close>, \<open>nth_opt\<close>, and the collections of unfolding rules.
  \<^item> \<open>Http\<close>: \<^verbatim>\<open>api.js\<close>. \<open>request_interceptor\<close> and
    \<open>response_error_interceptor\<close> are the interceptors, \<open>send\<close> is one request
    through both. The lemmas give the reaction of the interceptor on every
    branch (\<open>send_reaction\<close>).
  \<^item> \<open>Auth\<close>: \<^verbatim>\<open>AuthContext.jsx\<close> and the wrappers of \<^verbatim>\<open>authService.js\<close> it
    calls. \<open>auth_state\<close> holds the cells; \<open>checkAuthStatus\<close>, \<open>login\<close>,
    \<open>signup\<close>, \<open>logout\<close>, \<open>updateProfile\<close> are the handlers, \<open>AuthProvider\<close> is
    the mount. The lemmas give each handler's result and state on each of the
    five kinds of answer (\<open>answer_cases\<close>), and the invariant \<open>auth_wf\<close>.
  \<^item> \<open>Services\<close>: the remaining wrappers of \<^verbatim>\<open>authService.js\<close> and all of
    \<^verbatim>\<open>bikesService.js\<close>, \<^verbatim>\<open>bookingsService.js\<close>, \<^verbatim>\<open>adminService.js\<close>, one
    definition each. The lemmas show which wrappers send the same request.
  \<^item> \<open>Queries\<close>: \<^verbatim>\<open>hooks/useBikes.js\<close>, \<^verbatim>\<open>hooks/useBookings.js\<close>,
    \<^verbatim>\<open>hooks/useAdmin.js\<close> and the \<^verbatim>\<open>queryClient\<close> of \<^verbatim>\<open>App.jsx\<close>. The state is the
    cache, a list of queries by key; \<open>useQuery\<close>, \<open>attempt\<close>,
    \<open>invalidateQueries\<close>, \<open>onFocus\<close> and \<open>useMutation\<close> are the operations of the
    library, and every hook is one definition built from them with the key,
    stale time, callbacks and messages of the source. \<open>observe\<close> and \<open>mutate\<close>
    are the interface the pages use; the tables \<open>key_of\<close>, \<open>query_request\<close>,
    \<open>request_of\<close>, \<open>invalidated_by\<close> specify the hooks, and \<open>observe_eq\<close>,
    \<open>mutate_eq\<close> show that the hooks implement them. The lemmas establish the
    invariant of the cache, the end of every fetch, the toasts of failures,
    and which cached queries a mutation refreshes and which it misses.
  \<^item> \<open>Routes\<close>: \<^verbatim>\<open>App.jsx\<close>, \<^verbatim>\<open>ProtectedRoute.jsx\<close>, \<^verbatim>\<open>Header.jsx\<close>. The guards
    are functions from the cells to a \<open>view\<close>; \<open>routes\<close> is the route table as
    data, \<open>match_route\<close> and \<open>matches\<close> the matcher of the router,
    \<open>follow_redirects\<close> the re-rendering after a \<^verbatim>\<open>Navigate\<close>. The lemmas show
    what each route renders for whom, that the table is unambiguous, and
    that redirects end.
  \<^item> \<open>Session\<close>: the composition. \<open>page_load\<close> is a full page load, \<open>settle\<close>
    carries out pending loads and redirects, \<open>step\<close> is the reaction to one
    \<open>event\<close> of the user or the backend, \<open>reachable\<close> the states a tab can be
    in. The lemmas establish the invariant of the reachable states and the
    end-to-end behaviour of opening a page, signing in, signing out and
    losing the session.
  \<^item> \<open>Header\<close>: the rest of \<^verbatim>\<open>Header.jsx\<close>. \<open>Header_return\<close> is what the
    component renders (both navigations, the button and dropdown of the user
    or the links of a visitor, the overlay), \<open>Header_handle\<close> the \<^verbatim>\<open>onClick\<close>
    of each control, \<open>session_event\<close> the event of the session a click
    amounts to, \<open>Header_event\<close> one click on a control that is rendered, and
    \<open>header_session\<close> the states of header and session in use. The lemmas
    establish the invariant of these states and what signing out leaves on
    the screen.
  \<^item> \<open>Helpers\<close>: \<^verbatim>\<open>helpers.js\<close>, one definition per helper. The lemmas give
    bounds (rental total, discount percentage, file size), closed forms of
    the loops (star rating), the well-formedness and idempotence of slugs,
    and the contract of \<^verbatim>\<open>debounce\<close> over a schedule of calls.
  \<^item> \<open>Validation\<close>: \<^verbatim>\<open>validationSchemas.js\<close>. The nine schemas are data
    built with \<open>yup_object\<close>, \<open>yup_string\<close>, \<open>yup_required\<close>, \<open>yup_min\<close> and the
    other tests; \<open>validate\<close> lists the errors of a value and \<open>isValid\<close> says
    there are none. The lemmas characterise, for each schema, exactly the
    objects it accepts.
  \<^item> \<open>Pages\<close>: \<^verbatim>\<open>pages/BikesPage.jsx\<close> and \<^verbatim>\<open>pages/OverviewPage.jsx\<close>. The state
    of a page is its \<^verbatim>\<open>useState\<close> cells and the keys its hooks observe;
    \<open>BikesPage_return\<close> and \<open>OverviewPage_return\<close> are what the components
    return for the results of their hooks, \<open>BikesPage_render\<close> and
    \<open>OverviewPage_render\<close> are one render with the calls of the hooks,
    \<open>BikesPage_handle\<close> holds the event handlers and \<open>BikesPage_event\<close> is one
    event on the page as it is on the screen. \<open>bikes_session\<close> are the states
    of page and cache in use. The lemmas establish the invariant of these
    states and what the user sees after a keystroke, after the button
    \<^verbatim>\<open>Load More Bikes\<close>, and when the backend is down.
  \<^item> \<open>App\<close>: \<^verbatim>\<open>App\<close> of \<^verbatim>\<open>App.jsx\<close>, the application as a whole. The record
    \<open>app\<close> holds the tab, the cache of the query client, the cells of the
    header and the cells of the page on the screen; \<open>start\<close> is the
    application mounting after a page load, \<open>mount\<close>, \<open>unmount\<close> and
    \<open>rerender\<close> follow the route without a load, \<open>app_step\<close> dispatches an
    event of the session, the header, the list of bikes or an answer of the
    backend to the step of its part, and \<open>running\<close> are the states the
    application can reach. \<open>toastOptions\<close> are the options of the toaster.
    The lemmas establish the invariant of the whole from the invariants of
    the parts, that a visitor has nothing cached, that an answer with status
    401 starts the application anew, and that cached data survive exactly
    the events that load no page.
  \<^item> This theory: properties that need the session, the routes, the header,
    the hooks and the pages together.

  \<^bold>\<open>Recursion and bounds.\<close> No definition uses fuel. \<open>follow_redirects\<close> and
  \<open>settle\<close> are total functions whose termination proofs are the facts that a
  redirect target never redirects and that a load of \<^verbatim>\<open>/login\<close> never schedules
  another load: at most two page loads and one redirect happen per event.
  The loops of \<^verbatim>\<open>generateStarRating\<close> are \<open>push_full\<close> and \<open>fill_empty\<close>, total
  by the distance to the loop bound. A fetch is a list of requests
  (\<open>attempts\<close>), one backend and one time per request, so that the backend may
  change between a request and its retry; \<open>pending_attempts\<close> bounds the
  requests that still have an effect by \<open>retry + 1\<close>, which is two for the
  client of \<^verbatim>\<open>App.jsx\<close>. Times are natural numbers of milliseconds.
  Characters are 8-bit; the helpers that
  inspect characters (\<^verbatim>\<open>slugify\<close>, the router) treat every code unit from 128
  on as neither letter, digit nor space other than the no-break space, which
  agrees with the code on the Latin-1 range.

  \<^bold>\<open>Assumed of the environment.\<close> The backend and the libraries are not in the
  repository. Of the backend the model assumes what the specification says:
  an httpOnly session cookie, status 401 from a protected endpoint without a
  valid session (\<open>protected_backend\<close>), a session started by a granted login or
  signup. Of \<^verbatim>\<open>react-router\<close> it assumes segment-wise, case-insensitive
  matching with \<^verbatim>\<open>:param\<close> and a trailing \<^verbatim>\<open>*\<close>. \<^verbatim>\<open>date-fns\<close> and
  \<^verbatim>\<open>Intl.NumberFormat\<close> are parameters of the helpers that call them. Timers
  fire when they are due (\<open>run_timers\<close>). Of \<^verbatim>\<open>yup\<close> it assumes the documented
  meaning of its tests (absent values pass every test but \<^verbatim>\<open>required\<close>,
  \<^verbatim>\<open>min\<close> and \<^verbatim>\<open>max\<close> are inclusive); the pattern of an email address is a
  parameter of the schemas that use it. Of \<^verbatim>\<open>@tanstack/react-query\<close> it
  assumes the documented behaviour: queries are cached by key; a query is
  stale when it was invalidated, has no data, or its data is older than the
  stale time of the observer; an enabled observer that subscribes to a stale
  query starts a fetch; a failed request is retried \<^verbatim>\<open>retry\<close> times; a filter
  matches the keys it is a prefix of; \<^verbatim>\<open>invalidateQueries\<close> fetches the
  matching queries that are observed; a mutation is not retried and calls
  \<^verbatim>\<open>onSuccess\<close> or \<^verbatim>\<open>onError\<close>; \<^verbatim>\<open>isLoading\<close> means fetching without data. Of
  React it assumes that an event runs its handler and the component renders
  again, that a control can be used only while it is rendered, that a
  component keeps its cells while it stays mounted and starts with fresh
  ones when it is mounted, that a navigation of the router keeps the
  component of a route that stays on the screen, and that a page load starts
  the script, and with it the query client, anew.

  \<^bold>\<open>Not modelled.\<close> The JSX markup, icons and styling of the components (a
  page is modelled up to the values it computes for the markup), so also
  which of the two navigations of the header the style sheet displays and
  which controls its overlay covers; the pages
  of the routes that \<^verbatim>\<open>App.jsx\<close> fills with a placeholder text, which have no
  component in the sources; garbage collection of unused queries, refetching
  on reconnect and the comparison of objects inside query keys up to the
  order of their properties; the moment a toast disappears (the model keeps
  the toasts of a page as a list and the durations of the toaster as data);
  floating-point rounding of prices; the casting of form input by \<^verbatim>\<open>yup\<close>;
  more than one tab. What is left of the sources outside the model are the
  import and export lines and the object by which the auth provider hands
  its cells and handlers to its consumers, which the model passes as the
  record \<open>browser\<close> and the functions of theory \<open>Auth\<close>.
\<close>

section \<open>Properties across components\<close>



lemma segments_overview_links [simp]:
  "segments ''/profile'' = [''profile'']"
  "segments ''/bikes/stats'' = [''bikes'', ''stats'']"
  by (simp_all add: segments_def)

lemma match_route_overview_links [simp]:
  "match_route ''/profile'' = Some ([Static ''profile''], Protected (InLayout (Page ProfilePage)))"
  "match_route ''/bikes/stats'' =
     Some ([Static ''bikes'', Dynamic ''id''], Protected (InLayout (Page BikeDetailsPage)))"
  by (simp_all add: match_route_def routes_def)

lemma shown_ProtectedRoute_in:
  "\<not> loading a \<Longrightarrow> isAuthenticated a \<Longrightarrow> shown (ProtectedRoute a v) = shown v"
  by (simp add: ProtectedRoute_def)

text \<open>
  C26: where the links of the dashboard lead. For a user who is signed in,
  every quick action and every \<^verbatim>\<open>View all\<close> link of the dashboard is the path
  of a guarded route. The action \<^verbatim>\<open>View Stats\<close> points to \<^verbatim>\<open>/bikes/stats\<close>,
  which the route table reads as the details of the bike \<^verbatim>\<open>stats\<close>, while the
  statistics are served at \<^verbatim>\<open>/bikes/bike-stats\<close>. The link to the cheapest bikes
  carries \<^verbatim>\<open>?sort=price\<close>, which the list of bikes does not read: it starts
  sorted by name.
\<close>

theorem dashboard_links_lead:
  assumes "OverviewPage_return nf u r1 r2 r3 = Content d"
    and "\<not> loading a" and "isAuthenticated a"
  shows "map (\<lambda>href. shown (route_view a (link_pathname href))) (quick_actions d @ view_all d) =
           map Some [BikesPage, MyBookingsPage, ProfilePage, BikeDetailsPage,
                     BikesPage, BikesPage, BikesPage] \<and>
         quick_actions d ! 3 = ''/bikes/stats'' \<and>
         req_url (query_request BikeStats) = ''/bikes/bike-stats'' \<and>
         view_all d ! 0 = ''/bikes?sort=price'' \<and>
         get_filter ''sort'' BikesPage_initial = Some ''name''"
proof -
  from assms(1) have "quick_actions d = [''/bikes'', ''/bookings'', ''/profile'', ''/bikes/stats'']"
    and "view_all d = [''/bikes?sort=price'', ''/bikes'', ''/bikes'']"
    by (auto simp: OverviewPage_return_def Let_def split: if_splits)
  with assms(2,3) show ?thesis
    by (simp add: route_view_def shown_ProtectedRoute_in get_filter_def BikesPage_initial_def
        api_get_def)
qed

theorem dashboard_links_lead_witness:
  "shown (route_view \<lparr>user = None, loading = False, isAuthenticated = True\<rparr>
      (link_pathname ''/bikes/stats'')) = Some BikeDetailsPage"
  using dashboard_links_lead [where ?r1.0 = "\<lparr>data = None, isLoading = False, isFetching = False, error = None\<rparr>"
      and ?r2.0 = "\<lparr>data = None, isLoading = False, isFetching = False, error = None\<rparr>"
      and ?r3.0 = "\<lparr>data = None, isLoading = False, isFetching = False, error = None\<rparr>"
      and nf = "\<lambda>cur x. ''$''" and u = None
      and a = "\<lparr>user = None, loading = False, isAuthenticated = True\<rparr>"
      and d = "\<lparr>welcome_name = None, stat_cards = fallback_cards (\<lambda>cur x. ''$''),
        quick_actions = [''/bikes'', ''/bookings'', ''/profile'', ''/bikes/stats''],
        view_all = [''/bikes?sort=price'', ''/bikes'', ''/bikes''],
        top_cheap = [], latest = [], popular = []\<rparr>"]
  by (simp add: OverviewPage_return_no_data)

text \<open>
  C27: the dashboard after a page load. Whoever holds a session and opens the
  root address is shown the dashboard, and because the load has left no user
  object, the greeting of the dashboard has no name in it.
\<close>

theorem greeting_after_reload:
  assumes "session w" and "\<not> isLoading r1" and "\<not> isLoading r2" and "\<not> isLoading r3"
  shows "shown (AppContent (step w (Open ''/''))) = Some OverviewPage \<and>
         (\<exists>d. OverviewPage_return nf (user (auth (step w (Open ''/'')))) r1 r2 r3 = Content d \<and>
              welcome_name d = None)"
proof -
  from assms(1) have view: "AppContent (landing ''/'' w) = WithHeader (Pages OverviewPage)"
    by (simp add: landing_view route_view_def match_route_def routes_def segments_def guard_defs)
  then have "step w (Open ''/'') = landing ''/'' w"
    by (simp add: step_Open follow_redirects_stay)
  with view assms show ?thesis
    by (simp add: OverviewPage_return_def Let_def)
qed

theorem greeting_after_reload_witness:
  "session (fresh True) \<and> shown (AppContent (step (fresh True) (Open ''/''))) = Some OverviewPage"
  using greeting_after_reload [where w = "fresh True"
      and ?r1.0 = "\<lparr>data = None, isLoading = False, isFetching = False, error = None\<rparr>"
      and ?r2.0 = "\<lparr>data = None, isLoading = False, isFetching = False, error = None\<rparr>"
      and ?r3.0 = "\<lparr>data = None, isLoading = False, isFetching = False, error = None\<rparr>"]
  by simp

lemma send_protected:
  "snd (send (protected_backend s) rq w) = (if s then w else response_error_interceptor unauthorized w)"
  by (simp add: send_snd protected_backend_def)

lemma fetching_after_observe:
  assumes "isFetching (fst (observe qc now None c))"
  shows "\<exists>q. map_of (snd (observe qc now None c)) (key_of qc) = Some q \<and> fetchStatus q = Fetching \<and>
             q_fn q = (\<lambda>be. send be (query_request qc))"
  using assms
  by (auto simp: observe_eq useQuery_mount getResult_def lookup_subscribe addObserver_def Let_def fetch_def
           split: option.splits if_splits)

text \<open>
  C18: the requests of the hooks are the event \<open>Fetch\<close> of the session. When a
  component mounts any of the six query hooks and the hook starts a fetch,
  the first request of that fetch, answered by a backend that protects every
  endpoint, leaves the browser in the state the session reaches by \<open>Fetch\<close>,
  whichever hook it is and whatever the cache held. So what theory \<open>Session\<close>
  proves of \<open>Fetch\<close> (the redirect to the login page once the session is
  gone) holds for every page that uses a hook.
\<close>

theorem query_request_is_fetch_event:
  assumes "isFetching (fst (observe qc now None c))"
  shows "settle (snd (attempt queryClient (protected_backend (session w)) t (key_of qc)
                        (snd (observe qc now None c)) w)) = step w Fetch"
proof -
  from fetching_after_observe [OF assms] obtain q where
    "map_of (snd (observe qc now None c)) (key_of qc) = Some q" "fetchStatus q = Fetching"
    "q_fn q = (\<lambda>be. send be (query_request qc))" by blast
  then show ?thesis by (simp add: attempt_window step_simps send_protected)
qed

theorem query_request_is_fetch_event_witness:
  "isFetching (fst (observe (Bikes None) 0 None ([] :: (unit, unit world_ext browser_ext) query_cache))) \<and>
   settle (snd (attempt queryClient (protected_backend False) 7 (key_of (Bikes None))
                  (snd (observe (Bikes None) 0 None ([] :: (unit, unit world_ext browser_ext) query_cache)))
                  (fresh False))) = step (fresh False) Fetch"
proof -
  have *: "isFetching (fst (observe (Bikes None) 0 None ([] :: (unit, unit world_ext browser_ext) query_cache)))"
    by (simp add: observe_eq useQuery_mount getResult_def lookup_subscribe addObserver_build)
  from query_request_is_fetch_event [OF *, of "fresh False" 7] * show ?thesis
    by (simp add: fresh_def)
qed

end
